theory Spec2Isabelle
  imports Complex_Main "HOL-Library.Sublist" "HOL-Library.AList"
begin

section \<open>Sea-surface-height observations: a model of \<open>dfm_tools/observations.py\<close>\<close>

text \<open>
  The module harmonises tide-gauge catalogs and time series of several providers.
  Network and file access is input of the model: a function that downloads a table
  takes the table as its argument. Python exceptions are values of \<open>py_error\<close>,
  Python floats are modelled by the reals (\<open>nan\<close> by \<open>None\<close> where a
  series can hold it).
\<close>

subsection \<open>Python values\<close>

text \<open>
  The exceptions the module raises or lets through; the text of a message is shortened.
  \<open>Unmodelled\<close> marks an input on which the libraries behave in a way this model does
  not follow (its argument says which); no theorem below speaks about such an input.
\<close>

datatype py_error =
    ValueError string
  | KeyError string
  | AssertionError
  | UnicodeEncodeError
  | Exception string
  | IndexError
  | HTTPError string
  | Unmodelled string

text \<open>
  Python's \<open>x % m\<close> on floats has the sign of \<open>m\<close>; \<open>round(x, n)\<close>
  rounds to \<open>n\<close> decimals, a tie going to the even neighbour.
\<close>

definition py_mod :: "real \<Rightarrow> real \<Rightarrow> real" where
  "py_mod x m = x - m * of_int \<lfloor>x / m\<rfloor>"

definition round_half_even :: "real \<Rightarrow> int" where
  "round_half_even x =
     (let f = \<lfloor>x\<rfloor>; d = x - of_int f
      in if d < 1 / 2 then f else if 1 / 2 < d then f + 1 else if even f then f else f + 1)"

definition py_round :: "real \<Rightarrow> nat \<Rightarrow> real" where
  "py_round x n = of_int (round_half_even (x * 10 ^ n)) / 10 ^ n"

text \<open>\<open>str(i)\<close> of a Python int: its decimal digits, with a sign.\<close>

fun digits :: "nat \<Rightarrow> string" where
  "digits n =
     (if n < 10 then [char_of (48 + n)] else digits (n div 10) @ [char_of (48 + n mod 10)])"

definition str_int :: "int \<Rightarrow> string" where
  "str_int i = (if i < 0 then CHR ''-'' # digits (nat (- i)) else digits (nat i))"

text \<open>An identifier is an int for some providers and a string for others.\<close>

datatype py_id = IntId int | StrId string

fun py_str :: "py_id \<Rightarrow> string" where
  "py_str (IntId i) = str_int i"
| "py_str (StrId s) = s"

text \<open>\<open>str.lower()\<close> and \<open>str.upper()\<close>, on the ASCII letters.\<close>

definition lower_char :: "char \<Rightarrow> char" where
  "lower_char c =
     (let n = (of_char c :: nat) in if 65 \<le> n \<and> n \<le> 90 then char_of (n + 32) else c)"

definition lower :: "string \<Rightarrow> string" where
  "lower s = map lower_char s"

definition upper_char :: "char \<Rightarrow> char" where
  "upper_char c =
     (let n = (of_char c :: nat) in if 97 \<le> n \<and> n \<le> 122 then char_of (n - 32) else c)"

definition upper :: "string \<Rightarrow> string" where
  "upper s = map upper_char s"

subsection \<open>Station names with accents\<close>

text \<open>
  A station name is a Python \<open>str\<close>: a list of Unicode code points. The tables of
  \<open>unicodedata.normalize('NFKD', _)\<close> are not part of the module; the normalisation is
  the parameter \<open>nfkd\<close>. the letter o with a stroke is the code point 248, \<open>o\<close> is 111, and
  \<open>encode('ASCII', 'ignore')\<close> drops every code point from 128 on.
\<close>

type_synonym ustr = "nat list"

definition replace_cp :: "nat \<Rightarrow> nat \<Rightarrow> ustr \<Rightarrow> ustr" where
  "replace_cp a b s = map (\<lambda>c. if c = a then b else c) s"

definition encode_ascii_ignore :: "ustr \<Rightarrow> ustr" where
  "encode_ascii_ignore s = filter (\<lambda>c. c < 128) s"

definition remove_accents :: "(ustr \<Rightarrow> ustr) \<Rightarrow> ustr \<Rightarrow> ustr" where
  "remove_accents nfkd input_str =
     (let input_str_replaced = replace_cp 248 111 input_str;
          nfkd_form = nfkd input_str_replaced;
          only_ascii = encode_ascii_ignore nfkd_form
      in only_ascii)"

text \<open>Whether \<open>_remove_accents\<close> logs its warning that characters were dropped.\<close>

definition remove_accents_warns :: "(ustr \<Rightarrow> ustr) \<Rightarrow> ustr \<Rightarrow> bool" where
  "remove_accents_warns nfkd input_str =
     (length input_str \<noteq> length (remove_accents nfkd input_str))"

subsection \<open>Tables\<close>

text \<open>
  A (Geo)DataFrame: its column labels, the CRS of its geometry column and its rows. A row
  is a typed record of the cells the module reads; \<open>columns\<close> says which labels the
  frame has, and a label that is not there is a \<open>KeyError\<close>.
\<close>

record point =
  px :: real
  py :: real

record 'r frame =
  columns :: "string list"
  crs :: "string option"
  rows :: "'r list"

definition require_columns :: "string list \<Rightarrow> string list \<Rightarrow> py_error + unit" where
  "require_columns cs cols =
     (if set cs \<subseteq> set cols then Inr () else Inl (KeyError ''not in index''))"

definition add_column :: "string \<Rightarrow> string list \<Rightarrow> string list" where
  "add_column c cols = (if c \<in> set cols then cols else cols @ [c])"

definition drop_columns :: "string list \<Rightarrow> string list \<Rightarrow> py_error + string list" where
  "drop_columns ds cols =
     (if set ds \<subseteq> set cols then Inr (filter (\<lambda>c. c \<notin> set ds) cols)
      else Inl (KeyError ''not found in axis''))"

definition rename_columns :: "(string \<times> string) list \<Rightarrow> string list \<Rightarrow> string list" where
  "rename_columns rename_dict cols =
     map (\<lambda>c. case map_of rename_dict c of Some c' \<Rightarrow> c' | None \<Rightarrow> c) cols"

text \<open>The rows a boolean mask selects (\<open>df[mask]\<close>, \<open>df.loc[mask]\<close>).\<close>

definition select_rows :: "'r list \<Rightarrow> bool list \<Rightarrow> 'r list" where
  "select_rows rs msk = map fst (filter snd (zip rs msk))"

text \<open>
  Every catalog row has an index label and a point geometry; a station of a harmonised
  catalog has the identification columns, and the time coverage where the provider
  gives one (\<open>None\<close> is \<open>NaT\<close>; times are counted in seconds).
\<close>

record 'i geo_row =
  idx :: 'i
  geometry :: point

record 'i station = "'i geo_row" +
  station_id :: py_id
  station_name :: ustr
  station_name_unique :: string
  country :: string
  source :: string
  time_min :: "int option"
  time_max :: "int option"

subsection \<open>The SSC catalog\<close>

text \<open>A cell of an identifier column of the SSC service: missing, one identifier or a list.\<close>

datatype json_ids = Missing | One string | Several "string list"

record ssc_json =
  j_name :: ustr
  j_ssc_id :: string
  j_lon :: real
  j_lat :: real
  j_country :: string
  j_psmsl :: json_ids
  j_ioc :: json_ids
  j_ptwc :: json_ids
  j_gloss :: json_ids
  j_uhslc :: json_ids
  j_sonel_gps :: json_ids
  j_sonel_tg :: json_ids

record ssc_row = "string station" +
  psmsl :: "string list"
  ioc :: "string list"
  ptwc :: "string list"
  gloss :: "string list"
  uhslc :: "string list"
  sonel_gps :: "string list"
  sonel_tg :: "string list"
  dist_dict :: "(string \<times> real \<times> real \<times> real) list option"
  dist_min :: "real option"
  dist_max :: "real option"

text \<open>\<open>x if isinstance(x,list) else [] if x is np.nan else [x]\<close>\<close>

fun ids_to_list :: "json_ids \<Rightarrow> string list" where
  "ids_to_list (Several xs) = xs"
| "ids_to_list Missing = []"
| "ids_to_list (One x) = [x]"

text \<open>\<open>re.sub("[^0-9a-zA-Z]+", "-", x)\<close> and \<open>str.strip('-')\<close>.\<close>

definition is_alnum :: "char \<Rightarrow> bool" where
  "is_alnum c =
     (let n = (of_char c :: nat)
      in (48 \<le> n \<and> n \<le> 57) \<or> (65 \<le> n \<and> n \<le> 90) \<or> (97 \<le> n \<and> n \<le> 122))"

function sub_non_alnum :: "string \<Rightarrow> string" where
  "sub_non_alnum [] = []"
| "sub_non_alnum (c # cs) =
     (if is_alnum c then c # sub_non_alnum cs
      else CHR ''-'' # sub_non_alnum (dropWhile (\<lambda>d. \<not> is_alnum d) cs))"
  by pat_completeness auto
termination
  by (relation "measure length") (auto simp: le_imp_less_Suc length_dropWhile_le)

definition strip_dash :: "string \<Rightarrow> string" where
  "strip_dash s =
     rev (dropWhile (\<lambda>c. c = CHR ''-'') (rev (dropWhile (\<lambda>c. c = CHR ''-'') s)))"

definition ascii_str :: "ustr \<Rightarrow> string" where
  "ascii_str s = map char_of s"

definition ssc_station_name_unique :: "(ustr \<Rightarrow> ustr) \<Rightarrow> ssc_json \<Rightarrow> string" where
  "ssc_station_name_unique nfkd x =
     (let station_name_clean = ascii_str (remove_accents nfkd (j_name x));
          station_name_clean = sub_non_alnum station_name_clean;
          station_name_clean = strip_dash station_name_clean
      in j_ssc_id x @ ''_'' @ station_name_clean)"

definition ssc_convert_row :: "(ustr \<Rightarrow> ustr) \<Rightarrow> ssc_json \<Rightarrow> ssc_row" where
  "ssc_convert_row nfkd x =
     \<lparr>idx = j_ssc_id x,
      geometry = \<lparr>px = j_lon x, py = j_lat x\<rparr>,
      station_id = StrId (j_ssc_id x),
      station_name = j_name x,
      station_name_unique = ssc_station_name_unique nfkd x,
      country = j_country x,
      source = [],
      time_min = None,
      time_max = None,
      psmsl = ids_to_list (j_psmsl x),
      ioc = ids_to_list (j_ioc x),
      ptwc = ids_to_list (j_ptwc x),
      gloss = ids_to_list (j_gloss x),
      uhslc = ids_to_list (j_uhslc x),
      sonel_gps = ids_to_list (j_sonel_gps x),
      sonel_tg = ids_to_list (j_sonel_tg x),
      dist_dict = None, dist_min = None, dist_max = None\<rparr>"

definition ssc_id_columns :: "string list" where
  "ssc_id_columns =
     [''psmsl'', ''ioc'', ''ptwc'', ''gloss'', ''uhslc'', ''sonel_gps'', ''sonel_tg'']"

text \<open>
  The column labels of \<open>ssc_ssh_read_catalog\<close>: the identifier columns, \<open>name\<close> and
  \<open>ssc_id\<close> are read, \<open>station_name_unique\<close> and the geometry are added, the two
  coordinate columns are dropped and two columns are renamed.
\<close>

definition ssc_read_columns :: "string list \<Rightarrow> py_error + string list" where
  "ssc_read_columns cols =
     (case require_columns (ssc_id_columns @ [''name'', ''ssc_id'']) cols of
        Inl e \<Rightarrow> Inl e
      | Inr _ \<Rightarrow>
          (case drop_columns [''geo:lon'', ''geo:lat'']
                  (add_column ''geometry'' (add_column ''station_name_unique'' cols)) of
             Inl e \<Rightarrow> Inl e
           | Inr cols' \<Rightarrow>
               Inr (rename_columns
                      [(''name'', ''station_name''), (''ssc_id'', ''station_id'')] cols')))"

text \<open>
  \<open>ssc_ssh_read_catalog(linked_stations=False)\<close>; the table of the SSC service is the
  argument \<open>ssc_catalog_pd\<close>. The index is \<open>ssc_id\<close>.
\<close>

definition ssc_ssh_read_catalog ::
  "(ustr \<Rightarrow> ustr) \<Rightarrow> ssc_json frame \<Rightarrow> py_error + ssc_row frame" where
  "ssc_ssh_read_catalog nfkd ssc_catalog_pd =
     (case ssc_read_columns (columns ssc_catalog_pd) of
        Inl e \<Rightarrow> Inl e
      | Inr cols \<Rightarrow>
          Inr \<lparr>columns = cols, crs = Some ''EPSG:4326'',
               rows = map (ssc_convert_row nfkd) (rows ssc_catalog_pd)\<rparr>)"

definition list_validgroups :: "string list" where
  "list_validgroups = [''psmsl'', ''ioc'', ''ptwc'', ''gloss'', ''uhslc'']"

text \<open>The argument \<open>groups\<close> is one name or a list of names.\<close>

datatype groups_arg = Name string | Names "string list"

fun as_list :: "groups_arg \<Rightarrow> string list" where
  "as_list (Names gs) = gs"
| "as_list (Name g) = [g]"

fun check_groups :: "string list \<Rightarrow> py_error + unit" where
  "check_groups [] = Inr ()"
| "check_groups (groupname # groups) =
     (if groupname \<notin> set list_validgroups
      then Inl (ValueError ''groupname should be one of list_validgroups'')
      else check_groups groups)"

definition check_ssc_groups_valid :: "groups_arg \<Rightarrow> py_error + unit" where
  "check_ssc_groups_valid groups = check_groups (as_list groups)"

text \<open>The cell of an identifier column, \<open>row[colname]\<close>.\<close>

definition id_column :: "string \<Rightarrow> 'a ssc_row_scheme \<Rightarrow> string list" where
  "id_column colname r =
     (if colname = ''psmsl'' then psmsl r
      else if colname = ''ioc'' then ioc r
      else if colname = ''ptwc'' then ptwc r
      else if colname = ''gloss'' then gloss r
      else if colname = ''uhslc'' then uhslc r
      else if colname = ''sonel_gps'' then sonel_gps r
      else sonel_tg r)"

definition get_id_column ::
  "'a ssc_row_scheme frame \<Rightarrow> string \<Rightarrow> py_error + string list list" where
  "get_id_column cat colname =
     (if colname \<in> set (columns cat) \<and> colname \<in> set ssc_id_columns
      then Inr (map (id_column colname) (rows cat))
      else Inl (KeyError colname))"

text \<open>
  \<open>ssc_sscid_from_otherid\<close>. The catalog is read first, then the group name is checked.
  With more than one match the code selects the columns \<open>name\<close>, \<open>country\<close>,
  \<open>geo:lat\<close>, \<open>geo:lon\<close> and the group for its message, before it raises.
\<close>

definition ssc_sscid_from_otherid ::
  "(ustr \<Rightarrow> ustr) \<Rightarrow> ssc_json frame \<Rightarrow> py_id \<Rightarrow> string \<Rightarrow> py_error + string" where
  "ssc_sscid_from_otherid nfkd ssc_service group_id groupname =
     (let group_id = py_str group_id in
      case ssc_ssh_read_catalog nfkd ssc_service of
        Inl e \<Rightarrow> Inl e
      | Inr ssc_catalog_pd \<Rightarrow>
      (case check_ssc_groups_valid (Name groupname) of
        Inl e \<Rightarrow> Inl e
      | Inr _ \<Rightarrow>
      (case get_id_column ssc_catalog_pd groupname of
        Inl e \<Rightarrow> Inl e
      | Inr col \<Rightarrow>
         (let bool_strinseries = map (\<lambda>x. group_id \<in> set x) col;
              n = length (filter id bool_strinseries)
          in if n < 1 then Inl (ValueError ''sscid not found for id in group'')
             else if n > 1 then
               (case require_columns [''name'', ''country'', ''geo:lat'', ''geo:lon'', groupname]
                       (columns ssc_catalog_pd) of
                  Inl e \<Rightarrow> Inl e
                | Inr _ \<Rightarrow> Inl (ValueError ''More than 1 sscid found for id in group''))
             else
               (case select_rows (rows ssc_catalog_pd) bool_strinseries of
                  [] \<Rightarrow> Inl IndexError
                | r # _ \<Rightarrow> Inr (idx r))))))"


subsection \<open>Longitudes of the UHSLC catalog\<close>

definition lon_360_to_180 :: "real \<Rightarrow> real" where
  "lon_360_to_180 lon = py_round (py_mod (lon + 180) 360 - 180) 10"

text \<open>
  A feature of \<open>meta.geojson\<close>, and \<open>_uhslc_get_json\<close>: two columns are dropped if
  present, the features are indexed by \<open>uhslc_id\<close> and every longitude is shifted.
\<close>

record uhslc_feature =
  f_uhslc_id :: int
  f_name :: ustr
  f_geometry :: point

record 'i uhslc_row = "'i geo_row" +
  uhslc_id :: int
  uhslc_name :: ustr

definition uhslc_get_json :: "uhslc_feature frame \<Rightarrow> py_error + int uhslc_row frame" where
  "uhslc_get_json uhslc_gpd =
     (let cols = filter (\<lambda>c. c \<notin> {''rq_basin'', ''rq_versions''}) (columns uhslc_gpd) in
      case require_columns [''uhslc_id''] cols of
        Inl e \<Rightarrow> Inl e
      | Inr _ \<Rightarrow>
          Inr \<lparr>columns = cols, crs = crs uhslc_gpd,
               rows = map (\<lambda>f. \<lparr>idx = f_uhslc_id f,
                                 geometry = \<lparr>px = lon_360_to_180 (px (f_geometry f)),
                                             py = py (f_geometry f)\<rparr>,
                                 uhslc_id = f_uhslc_id f,
                                 uhslc_name = f_name f\<rparr>) (rows uhslc_gpd)\<rparr>)"


subsection \<open>Example data\<close>

text \<open>A small SSC service table, and one in which two stations list the UHSLC id 347.\<close>

definition example_station :: "string \<Rightarrow> ustr \<Rightarrow> real \<Rightarrow> real \<Rightarrow> json_ids \<Rightarrow> json_ids \<Rightarrow> ssc_json" where
  "example_station i n x y c u =
     \<lparr>j_name = n, j_ssc_id = i, j_lon = x, j_lat = y, j_country = ''NL'',
      j_psmsl = Missing, j_ioc = c, j_ptwc = Missing, j_gloss = Missing, j_uhslc = u,
      j_sonel_gps = Missing, j_sonel_tg = Missing\<rparr>"

definition example_ssc_columns :: "string list" where
  "example_ssc_columns =
     [''name'', ''ssc_id'', ''geo:lon'', ''geo:lat'', ''country'', ''psmsl'', ''ioc'', ''ptwc'',
      ''gloss'', ''uhslc'', ''sonel_gps'', ''sonel_tg'']"

definition example_ssc_service :: "ssc_json frame" where
  "example_ssc_service =
     \<lparr>columns = example_ssc_columns, crs = None,
      rows = [example_station ''SSC-abas'' [65, 98] 3 4 (One ''Abas'') Missing,
              example_station ''SSC-hilo'' [72, 105] 0 0 Missing (Several [''060'', ''347'']),
              example_station ''SSC-void'' [86] 1 1 Missing Missing]\<rparr>"

definition example_ssc_twice :: "ssc_json frame" where
  "example_ssc_twice =
     \<lparr>columns = example_ssc_columns, crs = None,
      rows = [example_station ''SSC-kwaj'' [75] 3 4 Missing (One ''347''),
              example_station ''SSC-hilo'' [72] 0 0 Missing (Several [''060'', ''347''])]\<rparr>"

text \<open>
  A fragment of NFKD for the examples: e with acute accent (233) decomposes into e (101)
  and the combining acute accent (769), a with ring above (229) into a (97) and the
  combining ring (778); every other code point is kept.
\<close>

definition example_nfkd :: "ustr \<Rightarrow> ustr" where
  "example_nfkd s =
     concat (map (\<lambda>c. if c = 233 then [101, 769] else if c = 229 then [97, 778] else [c]) s)"

subsection \<open>Stations linked to the SSC catalog\<close>

text \<open>
  The station list of the IOC service: the response of \<open>requests.get\<close>, with its status
  code and its table, and \<open>_ioc_get_json\<close>, which indexes the table by \<open>Code\<close>.
\<close>

record ioc_json =
  i_Code :: string
  i_lon :: real
  i_lat :: real

record ioc_response =
  status_code :: nat
  resp_json :: "ioc_json frame"

record ioc_row = "string geo_row" +
  ioc_code :: string

definition ioc_get_json :: "(string \<Rightarrow> ioc_response) \<Rightarrow> string \<Rightarrow> py_error + ioc_row frame" where
  "ioc_get_json service showall =
     (let resp = service showall in
      if status_code resp = 404 then Inl (Exception ''url 404'')
      else
        (let ioc_catalog_pd = resp_json resp in
         case require_columns [''Code'', ''lon'', ''lat''] (columns ioc_catalog_pd) of
           Inl e \<Rightarrow> Inl e
         | Inr _ \<Rightarrow>
             (case drop_columns [''Lon'', ''lat'', ''lon'', ''lat'']
                     (add_column ''geometry'' (columns ioc_catalog_pd)) of
                Inl e \<Rightarrow> Inl e
              | Inr cols \<Rightarrow>
                  Inr \<lparr>columns = cols, crs = Some ''EPSG:4326'',
                       rows = map (\<lambda>x. \<lparr>idx = i_Code x,
                                         geometry = \<lparr>px = i_lon x, py = i_lat x\<rparr>,
                                         ioc_code = i_Code x\<rparr>) (rows ioc_catalog_pd)\<rparr>)))"

text \<open>\<open>drop_duplicates\<close>: of the rows with one key, the first is kept.\<close>

fun keep_first :: "('a \<Rightarrow> 'k) \<Rightarrow> 'k list \<Rightarrow> 'a list \<Rightarrow> 'a list" where
  "keep_first key seen [] = []"
| "keep_first key seen (x # xs) =
     (if key x \<in> set seen then keep_first key seen xs
      else x # keep_first key (key x # seen) xs)"

text \<open>
  \<open>linked_gpd.loc[linked_id]["geometry"]\<close>: a label no row has is a \<open>KeyError\<close>. On a
  label that several rows have, pandas returns a frame instead of a row and the
  coordinates are no longer numbers; the model does not follow the code there.
\<close>

definition loc_geometry :: "('i, 'a) geo_row_scheme list \<Rightarrow> 'i \<Rightarrow> py_error + point" where
  "loc_geometry linked_gpd linked_id =
     (case filter (\<lambda>r. idx r = linked_id) linked_gpd of
        [] \<Rightarrow> Inl (KeyError ''linked_id'')
      | [r] \<Rightarrow> Inr (geometry r)
      | _ \<Rightarrow> Inl (Unmodelled ''loc: several rows with one label''))"

text \<open>\<open>dist = ((x2-x1)**2 + (y2-y1)**2) **0.5\<close>\<close>

definition euclid_dist :: "real \<Rightarrow> real \<Rightarrow> real \<Rightarrow> real \<Rightarrow> real" where
  "euclid_dist x1 y1 x2 y2 = sqrt ((x2 - x1)\<^sup>2 + (y2 - y1)\<^sup>2)"

text \<open>
  The inner loop over the identifiers one station lists for one linked catalog; the state
  is \<open>station_check_dict\<close> and \<open>station_check_dist_all\<close>.
\<close>

fun check_linked ::
  "string \<Rightarrow> (string, 'a) geo_row_scheme list \<Rightarrow> real \<Rightarrow> real \<Rightarrow> string list
     \<Rightarrow> (string \<times> real \<times> real \<times> real) list \<times> real list
     \<Rightarrow> py_error + (string \<times> real \<times> real \<times> real) list \<times> real list" where
  "check_linked linked_name linked_gpd x1 y1 [] acc = Inr acc"
| "check_linked linked_name linked_gpd x1 y1 (linked_id # ids) (station_check_dict, station_check_dist_all) =
     (let linked_id = lower linked_id in
      case loc_geometry linked_gpd linked_id of
        Inl e \<Rightarrow> Inl e
      | Inr geom \<Rightarrow>
          (let x2 = px geom; y2 = py geom;
               dist = euclid_dist x1 y1 x2 y2;
               station_key = upper linked_name @ '': '' @ linked_id
           in check_linked linked_name linked_gpd x1 y1 ids
                (AList.update station_key (x2, y2, dist) station_check_dict,
                 station_check_dist_all @ [dist])))"

definition station_check ::
  "(string, 'a) geo_row_scheme list \<Rightarrow> (string, 'b) geo_row_scheme list \<Rightarrow> ssc_row
     \<Rightarrow> py_error + (string \<times> real \<times> real \<times> real) list \<times> real list" where
  "station_check ioc_catalog_gpd uhslc_catalog_gpd row =
     (let x1 = px (geometry row); y1 = py (geometry row) in
      case check_linked ''ioc'' ioc_catalog_gpd x1 y1 (ioc row) ([], []) of
        Inl e \<Rightarrow> Inl e
      | Inr acc \<Rightarrow> check_linked ''uhslc'' uhslc_catalog_gpd x1 y1 (uhslc row) acc)"

text \<open>\<open>np.min\<close> and \<open>np.max\<close> of a non-empty list.\<close>

definition np_min :: "real list \<Rightarrow> real" where
  "np_min xs = fold min (tl xs) (hd xs)"

definition np_max :: "real list \<Rightarrow> real" where
  "np_max xs = fold max (tl xs) (hd xs)"

text \<open>\<open>catalog.loc[station_ssc_id, column] = ...\<close> for the three added columns.\<close>

definition set_dist_columns ::
  "string \<Rightarrow> (string \<times> real \<times> real \<times> real) list \<Rightarrow> real list \<Rightarrow> ssc_row frame \<Rightarrow> ssc_row frame" where
  "set_dist_columns station_ssc_id station_check_dict station_check_dist_all cat =
     cat\<lparr>columns :=
            add_column ''dist_max'' (add_column ''dist_min'' (add_column ''dist_dict'' (columns cat))),
          rows :=
            map (\<lambda>r. if idx r = station_ssc_id
                      then r\<lparr>dist_dict := Some station_check_dict,
                             dist_min := Some (np_min station_check_dist_all),
                             dist_max := Some (np_max station_check_dist_all)\<rparr>
                      else r) (rows cat)\<rparr>"

fun add_linked_loop ::
  "(string, 'a) geo_row_scheme list \<Rightarrow> (string, 'b) geo_row_scheme list \<Rightarrow> ssc_row list
     \<Rightarrow> ssc_row frame \<Rightarrow> py_error + ssc_row frame" where
  "add_linked_loop ioc_catalog_gpd uhslc_catalog_gpd [] cat = Inr cat"
| "add_linked_loop ioc_catalog_gpd uhslc_catalog_gpd (row # iterrows) cat =
     (case station_check ioc_catalog_gpd uhslc_catalog_gpd row of
        Inl e \<Rightarrow> Inl e
      | Inr (station_check_dict, station_check_dist_all) \<Rightarrow>
          add_linked_loop ioc_catalog_gpd uhslc_catalog_gpd iterrows
            (if station_check_dict \<noteq> []
             then set_dist_columns (idx row) station_check_dict station_check_dist_all cat
             else cat))"

text \<open>
  The two linked catalogs as \<open>ssc_add_linked_stations\<close> prepares them: the UHSLC index
  is converted to strings; duplicated code and geometry combinations of the IOC catalog
  are dropped and its index is converted to lower case.
\<close>

definition uhslc_index_str :: "int uhslc_row list \<Rightarrow> string uhslc_row list" where
  "uhslc_index_str rs =
     map (\<lambda>r. \<lparr>idx = str_int (idx r), geometry = geometry r,
                uhslc_id = uhslc_id r, uhslc_name = uhslc_name r\<rparr>) rs"

definition ioc_index_lower :: "ioc_row list \<Rightarrow> ioc_row list" where
  "ioc_index_lower rs =
     map (\<lambda>r. r\<lparr>idx := lower (idx r)\<rparr>) (keep_first (\<lambda>r. (ioc_code r, geometry r)) [] rs)"

definition ssc_add_linked_stations ::
  "uhslc_feature frame \<Rightarrow> (string \<Rightarrow> ioc_response) \<Rightarrow> ssc_row frame \<Rightarrow> py_error + ssc_row frame" where
  "ssc_add_linked_stations uhslc_meta ioc_service ssc_catalog_gpd =
     (case uhslc_get_json uhslc_meta of
        Inl e \<Rightarrow> Inl e
      | Inr uhslc_catalog_gpd \<Rightarrow>
      (case ioc_get_json ioc_service ''all'' of
         Inl e \<Rightarrow> Inl e
       | Inr ioc_catalog_gpd \<Rightarrow>
       (case require_columns [''Code'', ''geometry''] (columns ioc_catalog_gpd) of
          Inl e \<Rightarrow> Inl e
        | Inr _ \<Rightarrow>
            add_linked_loop (ioc_index_lower (rows ioc_catalog_gpd))
              (uhslc_index_str (rows uhslc_catalog_gpd))
              (rows ssc_catalog_gpd) ssc_catalog_gpd)))"

text \<open>\<open>ssc_ssh_read_catalog(linked_stations=...)\<close> with the flag.\<close>

definition ssc_ssh_read_catalog_linked ::
  "(ustr \<Rightarrow> ustr) \<Rightarrow> ssc_json frame \<Rightarrow> uhslc_feature frame \<Rightarrow> (string \<Rightarrow> ioc_response) \<Rightarrow> bool
     \<Rightarrow> py_error + ssc_row frame" where
  "ssc_ssh_read_catalog_linked nfkd ssc_service uhslc_meta ioc_service linked_stations =
     (case ssc_ssh_read_catalog nfkd ssc_service of
        Inl e \<Rightarrow> Inl e
      | Inr ssc_catalog_gpd \<Rightarrow>
          if linked_stations then ssc_add_linked_stations uhslc_meta ioc_service ssc_catalog_gpd
          else Inr ssc_catalog_gpd)"






subsection \<open>Reading the catalogs\<close>

text \<open>
  What a catalog reader gets from its provider: the column labels of the downloaded
  table, the name of its index, the CRS the file declares, and the stations. The readers
  are modelled on the column labels and the CRS; the cells they compute are input of the
  model (\<open>stations\<close>), and so is a failure that depends on the cells (a missing file,
  an assertion on the coordinates, several EPSG codes).
\<close>

record ('i, 'a) provider_data =
  raw_columns :: "string list"
  raw_index_name :: string
  raw_crs :: "string option"
  stations :: "py_error + ('i, 'a) station_scheme list"

text \<open>Sequencing of steps that may raise.\<close>

definition and_then :: "py_error + 'a \<Rightarrow> ('a \<Rightarrow> py_error + 'b) \<Rightarrow> py_error + 'b" where
  "and_then x f = (case x of Inl e \<Rightarrow> Inl e | Inr a \<Rightarrow> f a)"

text \<open>\<open>gesla3_ssh_read_catalog\<close>: the column labels of the csv file are normalised first.\<close>

definition gesla3_column_name :: "string \<Rightarrow> string" where
  "gesla3_column_name c =
     lower (concat (map (\<lambda>ch. if ch = CHR '' '' then ''_''
                               else if ch = CHR ''('' then []
                               else if ch = CHR '')'' then []
                               else if ch = CHR ''/'' then ''_''
                               else [ch]) c))"

definition gesla3_columns :: "string list \<Rightarrow> py_error + string list" where
  "gesla3_columns cols =
     (let cols = map gesla3_column_name cols in
      and_then (require_columns [''file_name'', ''start_date_time'', ''end_date_time'',
                                 ''gauge_type'', ''longitude'', ''latitude''] cols) (\<lambda>_.
      and_then (drop_columns [''longitude'', ''latitude''] (add_column ''geometry'' cols)) (\<lambda>cols.
      and_then (require_columns [''site_name''] cols) (\<lambda>_.
        (let cols = add_column ''station_name''
                      (add_column ''station_id'' (add_column ''station_name_unique'' cols));
             cols = rename_columns [(''start_date_time'', ''time_min''),
                                    (''end_date_time'', ''time_max'')] cols
         in and_then (require_columns [''time_max'', ''time_min''] cols) (\<lambda>_.
              Inr (add_column ''time_ndays'' cols)))))))"

text \<open>
  \<open>ioc_ssh_read_catalog\<close> with its default arguments. The stations that are in UHSLC are
  found through the SSC catalog, which is read with \<open>ssh_catalog_subset(source='ssc')\<close>.
\<close>

definition ioc_columns :: "string list \<Rightarrow> string list \<Rightarrow> py_error + string list" where
  "ioc_columns ssc_cols cols =
     and_then (require_columns [''Code'', ''lon'', ''lat''] cols) (\<lambda>_.
     and_then (drop_columns [''Lon'', ''lat'', ''lon'', ''lat''] (add_column ''geometry'' cols)) (\<lambda>cols.
     and_then (require_columns [''date_created'', ''lasttime''] cols) (\<lambda>_.
       (let cols = add_column ''time_max'' (add_column ''time_min'' cols) in
        and_then (require_columns [''Code'', ''code''] cols) (\<lambda>_.
          (let cols = add_column ''station_name_unique''
                        (add_column ''station_id'' (add_column ''station_name'' cols)) in
           and_then (ssc_read_columns ssc_cols) (\<lambda>ssc_catalog_cols.
           and_then (require_columns [''ioc'', ''uhslc''] ssc_catalog_cols) (\<lambda>_.
             (let cols = add_column ''inSSClist'' (add_column ''UHSLC'' cols) in
              and_then (require_columns [''Location'', ''UTCOffset''] cols) (\<lambda>_.
                Inr (add_column ''time_ndays'' cols)))))))))))"

text \<open>\<open>cmems_ssh_read_catalog\<close>, for both CMEMS sources; the labels are those of the header line.\<close>

definition cmems_columns :: "string list \<Rightarrow> py_error + string list" where
  "cmems_columns cols =
     and_then (require_columns [''file_name'', ''parameters'', ''geospatial_lon_min'',
                                ''geospatial_lon_max'', ''geospatial_lat_min'',
                                ''geospatial_lat_max''] cols) (\<lambda>_.
     and_then (drop_columns [''geospatial_lon_min'', ''geospatial_lon_max'',
                             ''geospatial_lat_min'', ''geospatial_lat_max'']
                 (add_column ''geometry'' cols)) (\<lambda>cols.
       (let cols = add_column ''station_name_unique''
                     (add_column ''station_id''
                        (add_column ''station_name'' (add_column ''country'' cols)));
            cols = rename_columns [(''time_coverage_start'', ''time_min''),
                                   (''time_coverage_end'', ''time_max'')] cols
        in and_then (require_columns [''time_min'', ''time_max''] cols) (\<lambda>_.
             Inr (add_column ''time_ndays'' cols)))))"

text \<open>\<open>uhslc_ssh_read_catalog\<close>, on the labels \<open>_uhslc_get_json\<close> leaves.\<close>

definition uhslc_columns :: "string list \<Rightarrow> py_error + string list" where
  "uhslc_columns cols =
     (let cols = filter (\<lambda>c. c \<notin> {''rq_basin'', ''rq_versions''}) cols in
      and_then (require_columns [''uhslc_id''] cols) (\<lambda>_.
        (let cols = add_column ''geometry'' cols in
         and_then (require_columns [''rq_span'', ''fd_span''] cols) (\<lambda>_.
           (let cols = add_column ''time_max'' (add_column ''time_min'' cols) in
            and_then (require_columns [''name'', ''uhslc_id''] cols) (\<lambda>_.
              (let cols = add_column ''station_name_unique'' cols;
                   cols = rename_columns [(''name'', ''station_name''),
                                          (''uhslc_id'', ''station_id'')] cols
               in Inr (add_column ''time_ndays'' cols))))))))"

text \<open>\<open>psmsl_gnssir_ssh_read_catalog\<close>: the catalog has no time columns.\<close>

definition psmsl_gnssir_columns :: "string list \<Rightarrow> py_error + string list" where
  "psmsl_gnssir_columns cols =
     (let cols = rename_columns [(''CountryCode'', ''country'')] cols in
      and_then (require_columns [''Longitude'', ''Latitude''] cols) (\<lambda>_.
      and_then (drop_columns [''Longitude'', ''Latitude''] (add_column ''geometry'' cols)) (\<lambda>cols.
      and_then (require_columns [''Code''] cols) (\<lambda>_.
        Inr (add_column ''station_name_unique''
               (add_column ''station_id'' (add_column ''station_name'' cols)))))))"

text \<open>
  \<open>rwsddl_ssh_read_catalog\<close> with the default \<open>meta_dict\<close>; \<open>reset_index\<close> inserts the
  index as the first column.
\<close>

definition rwsddl_columns :: "string \<Rightarrow> string list \<Rightarrow> py_error + string list" where
  "rwsddl_columns index_name cols =
     and_then (require_columns [''Grootheid.Code'', ''Groepering.Code''] cols) (\<lambda>_.
       if index_name \<in> set cols then Inl (ValueError ''cannot insert, already exists'')
       else
         (let cols = index_name # cols in
          and_then (require_columns [''X'', ''Y'', ''Coordinatenstelsel''] cols) (\<lambda>_.
            (let cols = add_column ''geometry'' cols in
             and_then (require_columns [''Naam'', ''Code''] cols) (\<lambda>_.
               Inr (add_column ''country''
                      (add_column ''station_id''
                         (add_column ''station_name_unique''
                            (add_column ''station_name'' cols)))))))))"

text \<open>\<open>gtsm3_era5_cds_ssh_read_catalog\<close>\<close>

definition gtsm3_era5_cds_columns :: "string list \<Rightarrow> py_error + string list" where
  "gtsm3_era5_cds_columns cols =
     and_then (require_columns [''lon'', ''lat''] cols) (\<lambda>_.
     and_then (drop_columns [''lon'', ''lat''] (add_column ''geometry'' cols)) (\<lambda>cols.
     and_then (require_columns [''station_id'', ''station_name''] cols) (\<lambda>_.
       Inr (add_column ''time_ndays''
              (add_column ''time_max''
                 (add_column ''time_min''
                    (add_column ''country'' (add_column ''station_name_unique'' cols))))))))"

text \<open>
  The catalog readers behind \<open>ssh_catalog_subset\<close>, by source name: the column labels,
  the CRS (WGS84 for every reader that builds the points itself and after the
  \<open>to_crs(4326)\<close> of the rwsddl reader; the UHSLC reader keeps the CRS of the file), and
  the stations. The IOC reader also reads the SSC catalog.
\<close>

definition ssh_sources_catalog :: "string list" where
  "ssh_sources_catalog =
     [''ssc'', ''gesla3'', ''ioc'', ''cmems'', ''cmems-nrt'', ''uhslc'', ''psmsl-gnssir'',
      ''rwsddl'', ''gtsm3-era5-cds'']"

definition catalog_columns ::
  "(string \<Rightarrow> ('i, 'a) provider_data) \<Rightarrow> string \<Rightarrow> py_error + string list" where
  "catalog_columns providers src =
     (let cols = raw_columns (providers src) in
      if src = ''ssc'' then ssc_read_columns cols
      else if src = ''gesla3'' then gesla3_columns cols
      else if src = ''ioc'' then ioc_columns (raw_columns (providers ''ssc'')) cols
      else if src = ''cmems'' then cmems_columns cols
      else if src = ''cmems-nrt'' then cmems_columns cols
      else if src = ''uhslc'' then uhslc_columns cols
      else if src = ''psmsl-gnssir'' then psmsl_gnssir_columns cols
      else if src = ''rwsddl'' then rwsddl_columns (raw_index_name (providers src)) cols
      else gtsm3_era5_cds_columns cols)"

definition catalog_crs :: "(string \<Rightarrow> ('i, 'a) provider_data) \<Rightarrow> string \<Rightarrow> string option" where
  "catalog_crs providers src =
     (if src = ''uhslc'' then raw_crs (providers src) else Some ''EPSG:4326'')"

definition catalog_read_func ::
  "(string \<Rightarrow> ('i, 'a) provider_data) \<Rightarrow> string
     \<Rightarrow> py_error + ('i, 'a) station_scheme frame" where
  "catalog_read_func providers src =
     and_then (catalog_columns providers src) (\<lambda>cols.
     and_then (if src = ''ioc''
               then and_then (stations (providers ''ssc'')) (\<lambda>_. stations (providers src))
               else stations (providers src)) (\<lambda>rs.
       Inr \<lparr>columns = cols, crs = catalog_crs providers src, rows = rs\<rparr>))"

text \<open>
  \<open>psmsl_gnssir_ssh_read_catalog_gettimes\<close>: the time range of a station is read from
  its file of daily values (\<open>daily\<close> gives the first and the last time of the file).
\<close>

fun gettimes_loop ::
  "('i \<Rightarrow> py_error + int \<times> int) \<Rightarrow> 'i list \<Rightarrow> ('i, 'a) station_scheme frame
     \<Rightarrow> py_error + ('i, 'a) station_scheme frame" where
  "gettimes_loop daily [] cat = Inr cat"
| "gettimes_loop daily (label # ids) cat =
     and_then (daily label) (\<lambda>(t_min, t_max).
       gettimes_loop daily ids
         (cat\<lparr>columns := add_column ''time_ndays'' (columns cat),
              rows := map (\<lambda>r. if idx r = label
                                then r\<lparr>time_min := Some t_min, time_max := Some t_max\<rparr>
                                else r) (rows cat)\<rparr>))"

definition psmsl_gnssir_ssh_read_catalog_gettimes ::
  "('i \<Rightarrow> py_error + int \<times> int) \<Rightarrow> ('i, 'a) station_scheme frame
     \<Rightarrow> py_error + ('i, 'a) station_scheme frame" where
  "psmsl_gnssir_ssh_read_catalog_gettimes daily station_list_gpd =
     gettimes_loop daily (map idx (rows station_list_gpd))
       (station_list_gpd
          \<lparr>columns := add_column ''time_max'' (add_column ''time_min'' (columns station_list_gpd)),
           rows := map (\<lambda>r. r\<lparr>time_min := None, time_max := None\<rparr>) (rows station_list_gpd)\<rparr>)"

text \<open>
  \<open>ssh_catalog_subset\<close>. The clip keeps the points of the closed rectangle; a comparison
  with \<open>NaT\<close> is false.
\<close>

definition in_bbox :: "real \<Rightarrow> real \<Rightarrow> real \<Rightarrow> real \<Rightarrow> point \<Rightarrow> bool" where
  "in_bbox lon_min lat_min lon_max lat_max p =
     (lon_min \<le> px p \<and> px p \<le> lon_max \<and> lat_min \<le> py p \<and> py p \<le> lat_max)"

definition intime :: "int \<Rightarrow> int \<Rightarrow> ('i, 'a) station_scheme \<Rightarrow> bool" where
  "intime t_min t_max r =
     ((case time_min r of None \<Rightarrow> False | Some t \<Rightarrow> t < t_max)
      \<and> (case time_max r of None \<Rightarrow> False | Some t \<Rightarrow> t > t_min))"

definition ssh_catalog_subset ::
  "(string \<Rightarrow> ('i :: linorder, 'a) provider_data) \<Rightarrow> ('i \<Rightarrow> py_error + int \<times> int)
     \<Rightarrow> string option \<Rightarrow> real \<Rightarrow> real \<Rightarrow> real \<Rightarrow> real \<Rightarrow> int option \<Rightarrow> int option
     \<Rightarrow> py_error + ('i, 'a) station_scheme frame" where
  "ssh_catalog_subset providers daily src lon_min lon_max lat_min lat_max t_min t_max =
     (case src of
        None \<Rightarrow> Inl (ValueError ''source for ssh_catalog_subset should be one of ssh_sources'')
      | Some src \<Rightarrow>
          if src \<notin> set ssh_sources_catalog
          then Inl (ValueError ''source for ssh_catalog_subset should be one of ssh_sources'')
          else
            and_then (catalog_read_func providers src) (\<lambda>ssh_catalog_gpd.
              (let cat = ssh_catalog_gpd
                     \<lparr>columns := add_column ''source'' (columns ssh_catalog_gpd),
                      rows := map (\<lambda>r. r\<lparr>source := src\<rparr>) (rows ssh_catalog_gpd)\<rparr>;
                   cat = cat\<lparr>rows := filter (\<lambda>r. in_bbox lon_min lat_min lon_max lat_max (geometry r))
                                         (rows cat)\<rparr>;
                   cat = cat\<lparr>rows := sort_key idx (rows cat)\<rparr>
               in case (t_min, t_max) of
                    (Some t_min, Some t_max) \<Rightarrow>
                      and_then (if src = ''psmsl-gnssir''
                                then psmsl_gnssir_ssh_read_catalog_gettimes daily cat
                                else Inr cat) (\<lambda>cat.
                        if ''time_min'' \<notin> set (columns cat)
                        then Inl (KeyError ''ssh_catalog_gpd does not contain time_min and time_max'')
                        else
                          and_then (require_columns [''time_max''] (columns cat)) (\<lambda>_.
                            Inr (cat\<lparr>rows := filter (intime t_min t_max) (rows cat)\<rparr>)))
                  | _ \<Rightarrow> Inr cat)))"

text \<open>
  For the statements: the labels of the location and identification columns and of the
  time coverage, and the sources whose reader provides the time coverage.
\<close>

definition standard_columns :: "string list" where
  "standard_columns = [''geometry'', ''station_name'', ''station_id'', ''station_name_unique'']"

definition time_columns :: "string list" where
  "time_columns = [''time_min'', ''time_max'']"

definition sources_with_time :: "string list" where
  "sources_with_time = [''gesla3'', ''ioc'', ''cmems'', ''cmems-nrt'', ''uhslc'', ''gtsm3-era5-cds'']"

text \<open>Example providers: three stations, one of them outside the default bounding box.\<close>

definition example_points :: "int station list" where
  "example_points =
     [\<lparr>idx = 2, geometry = \<lparr>px = 4, py = 52\<rparr>, station_id = IntId 2, station_name = [72],
       station_name_unique = ''two'', country = ''NL'', source = [],
       time_min = Some 0, time_max = Some 100\<rparr>,
      \<lparr>idx = 1, geometry = \<lparr>px = 5, py = 53\<rparr>, station_id = IntId 1, station_name = [73],
       station_name_unique = ''one'', country = ''NL'', source = [],
       time_min = Some 200, time_max = Some 300\<rparr>,
      \<lparr>idx = 0, geometry = \<lparr>px = 200, py = 0\<rparr>, station_id = IntId 0, station_name = [74],
       station_name_unique = ''zero'', country = ''NL'', source = [],
       time_min = Some 0, time_max = Some 100\<rparr>]"

definition example_providers :: "string \<Rightarrow> (int, unit) provider_data" where
  "example_providers src =
     \<lparr>raw_columns = (if src = ''ssc'' then example_ssc_columns
                      else if src = ''uhslc''
                      then [''uhslc_id'', ''name'', ''rq_span'', ''fd_span'', ''geometry'']
                      else if src = ''psmsl-gnssir''
                      then [''Code'', ''Longitude'', ''Latitude'', ''CountryCode'']
                      else if src = ''rwsddl''
                      then [''Naam'', ''X'', ''Y'', ''Coordinatenstelsel'', ''Grootheid.Code'',
                            ''Groepering.Code'']
                      else [''station_id'', ''station_name'', ''lon'', ''lat'']),
      raw_index_name = ''Code'', raw_crs = Some ''EPSG:4326'',
      stations = Inr example_points\<rparr>"

definition example_daily :: "int \<Rightarrow> py_error + int \<times> int" where
  "example_daily i = Inr (0, 10)"

subsection \<open>Datasets\<close>

text \<open>
  An xarray \<open>Dataset\<close>: named variables (data variables and coordinates), the names that
  are coordinates, the sizes of the dimensions and the attributes. A variable has its
  dimensions, its data in row-major order and its attributes. A cell is a number, a
  missing value (\<open>nan\<close>, \<open>NaT\<close>), a time in nanoseconds or a string.
\<close>

datatype cell = Num real | NaN | Time int | Txt string

datatype attr = AStr string | AName ustr | ANum real | AId py_id

record variable =
  v_dims :: "string list"
  v_data :: "cell list"
  v_attrs :: "(string \<times> attr) list"

record dataset =
  ds_vars :: "(string \<times> variable) list"
  ds_coords :: "string list"
  ds_sizes :: "(string \<times> nat) list"
  ds_attrs :: "(string \<times> attr) list"

definition variables :: "dataset \<Rightarrow> string list" where
  "variables ds = map fst (ds_vars ds)"

definition data_vars :: "dataset \<Rightarrow> string list" where
  "data_vars ds = filter (\<lambda>n. n \<notin> set (ds_coords ds)) (variables ds)"

definition dims :: "dataset \<Rightarrow> string list" where
  "dims ds = map fst (ds_sizes ds)"

text \<open>\<open>ds[name]\<close> and \<open>ds.attrs[name]\<close>\<close>

definition get_var :: "dataset \<Rightarrow> string \<Rightarrow> py_error + variable" where
  "get_var ds n = (case map_of (ds_vars ds) n of None \<Rightarrow> Inl (KeyError n) | Some v \<Rightarrow> Inr v)"

definition get_attr :: "(string \<times> attr) list \<Rightarrow> string \<Rightarrow> py_error + attr" where
  "get_attr attrs n = (case map_of attrs n of None \<Rightarrow> Inl (KeyError n) | Some a \<Rightarrow> Inr a)"

text \<open>
  \<open>xr.DataArray(a).astype("S64")\<close> of an attribute: a string is encoded as ASCII and cut
  to 64 bytes; an identifier that is an int is written in decimal.
\<close>

fun astype_S64 :: "attr \<Rightarrow> py_error + cell" where
  "astype_S64 (AStr s) = Inr (Txt (take 64 s))"
| "astype_S64 (AName n) =
     (if \<forall>c \<in> set n. c < 128 then Inr (Txt (take 64 (ascii_str n))) else Inl UnicodeEncodeError)"
| "astype_S64 (AId i) = Inr (Txt (take 64 (py_str i)))"
| "astype_S64 (ANum x) = Inl (Unmodelled ''astype S64 of a float'')"

fun as_number :: "attr \<Rightarrow> py_error + cell" where
  "as_number (ANum x) = Inr (Num x)"
| "as_number a = Inl (Unmodelled ''DataArray of a coordinate that is not a float'')"

definition scalar_var :: "cell \<Rightarrow> (string \<times> attr) list \<Rightarrow> variable" where
  "scalar_var c attrs = \<lparr>v_dims = [], v_data = [c], v_attrs = attrs\<rparr>"

text \<open>\<open>_make_hydrotools_consistent\<close>: five assertions, four scalar variables, four coordinates.\<close>

definition make_hydrotools_consistent :: "dataset \<Rightarrow> py_error + dataset" where
  "make_hydrotools_consistent ds =
     (if ''time'' \<notin> set (variables ds) then Inl AssertionError
      else if ''time'' \<notin> set (dims ds) then Inl AssertionError
      else if ''waterlevel'' \<notin> set (data_vars ds) then Inl AssertionError
      else
        and_then (get_var ds ''waterlevel'') (\<lambda>waterlevel.
          if ''units'' \<notin> set (map fst (v_attrs waterlevel)) then Inl AssertionError
          else if map_of (v_attrs waterlevel) ''units'' \<noteq> Some (AStr ''m'') then Inl AssertionError
          else
            and_then (get_attr (ds_attrs ds) ''station_name'') (\<lambda>a.
            and_then (astype_S64 a) (\<lambda>station_name.
            and_then (get_attr (ds_attrs ds) ''station_id'') (\<lambda>a.
            and_then (astype_S64 a) (\<lambda>station_id.
              (let x_attrs = [(''standard_name'', AStr ''longitude''), (''units'', AStr ''degrees_east'')];
                   y_attrs = [(''standard_name'', AStr ''latitude''), (''units'', AStr ''degrees_north'')]
               in
                 and_then (get_attr (ds_attrs ds) ''longitude'') (\<lambda>a.
                 and_then (as_number a) (\<lambda>x.
                 and_then (get_attr (ds_attrs ds) ''latitude'') (\<lambda>a.
                 and_then (as_number a) (\<lambda>y.
                   (let vs = AList.update ''station_name'' (scalar_var station_name []) (ds_vars ds);
                        vs = AList.update ''station_id'' (scalar_var station_id []) vs;
                        vs = AList.update ''station_x_coordinate'' (scalar_var x x_attrs) vs;
                        vs = AList.update ''station_y_coordinate'' (scalar_var y y_attrs) vs;
                        coords = [''station_name'', ''station_id'', ''station_x_coordinate'',
                                  ''station_y_coordinate'']
                    in Inr (ds\<lparr>ds_vars := vs,
                               ds_coords := ds_coords ds @ filter (\<lambda>c. c \<notin> set (ds_coords ds)) coords\<rparr>)))))))))))))"

subsection \<open>Retrieving the data of a catalog\<close>

definition ssh_sources_retrieve :: "string list" where
  "ssh_sources_retrieve =
     [''gesla3'', ''ioc'', ''cmems'', ''cmems-nrt'', ''uhslc'', ''psmsl-gnssir'', ''rwsddl'',
      ''gtsm3-era5-cds'']"

text \<open>\<open>Series.unique()\<close>: the values in the order of their first occurrence.\<close>

definition unique :: "'a list \<Rightarrow> 'a list" where
  "unique xs = rev (remdups (rev xs))"

text \<open>
  The body of the loop of \<open>ssh_retrieve_data\<close> for one row: the retrieval function of
  the source is called; without a dataset the row is skipped, else the attributes of the
  row are assigned, the dataset is made consistent and written to
  \<open>dir_output/station_name_unique.nc\<close>. The state is the list of the files written.
\<close>

definition retrieve_one ::
  "(('i, 'a) station_scheme \<Rightarrow> int option \<Rightarrow> int option \<Rightarrow> py_error + dataset option)
     \<Rightarrow> string list \<Rightarrow> string \<Rightarrow> int option \<Rightarrow> int option \<Rightarrow> ('i, 'a) station_scheme
     \<Rightarrow> (string \<times> dataset) list \<Rightarrow> py_error + (string \<times> dataset) list" where
  "retrieve_one retrieve_data_func cols dir_output t_min t_max row files =
     and_then (retrieve_data_func row t_min t_max) (\<lambda>ds.
       case ds of
         None \<Rightarrow> Inr files
       | Some ds \<Rightarrow>
           and_then (require_columns [''station_name'', ''station_id'', ''station_name_unique'',
                                      ''country'', ''source''] cols) (\<lambda>_.
             (let attrs = AList.update ''station_name'' (AName (station_name row)) (ds_attrs ds);
                  attrs = AList.update ''station_id'' (AId (station_id row)) attrs;
                  attrs = AList.update ''station_name_unique'' (AStr (station_name_unique row)) attrs;
                  attrs = AList.update ''longitude'' (ANum (px (geometry row))) attrs;
                  attrs = AList.update ''latitude'' (ANum (py (geometry row))) attrs;
                  attrs = AList.update ''country'' (AStr (country row)) attrs;
                  attrs = AList.update ''source'' (AStr (source row)) attrs;
                  ds = ds\<lparr>ds_attrs := attrs\<rparr>
              in
                and_then (get_var ds ''waterlevel'') (\<lambda>waterlevel.
                and_then (make_hydrotools_consistent ds) (\<lambda>ds.
                and_then (get_attr (ds_attrs ds) ''station_name_unique'') (\<lambda>stat_name.
                  (case stat_name of
                     AStr stat_name \<Rightarrow>
                       Inr (files @ [(dir_output @ ''/'' @ stat_name @ ''.nc'', ds)])
                   | _ \<Rightarrow> Inl (Unmodelled ''station_name_unique is not a string''))))))))"

text \<open>
  The loop. An exception ends it; the files written for the rows before stay on disk, so
  the loop returns the files written together with the exception, if any.
\<close>

fun retrieve_loop ::
  "(('i, 'a) station_scheme \<Rightarrow> int option \<Rightarrow> int option \<Rightarrow> py_error + dataset option)
     \<Rightarrow> string list \<Rightarrow> string \<Rightarrow> int option \<Rightarrow> int option \<Rightarrow> ('i, 'a) station_scheme list
     \<Rightarrow> (string \<times> dataset) list \<Rightarrow> (string \<times> dataset) list \<times> py_error option" where
  "retrieve_loop f cols dir_output t_min t_max [] files = (files, None)"
| "retrieve_loop f cols dir_output t_min t_max (row # iterrows) files =
     (case retrieve_one f cols dir_output t_min t_max row files of
        Inl e \<Rightarrow> (files, Some e)
      | Inr files' \<Rightarrow> retrieve_loop f cols dir_output t_min t_max iterrows files')"

text \<open>
  \<open>ssh_retrieve_data\<close>; \<open>ssh_sources\<close> gives the retrieval function of a source, with
  the provider behind it. The result is the files written and the exception raised, if
  any.
\<close>

definition ssh_retrieve_data ::
  "(string \<Rightarrow> ('i, 'a) station_scheme \<Rightarrow> int option \<Rightarrow> int option \<Rightarrow> py_error + dataset option)
     \<Rightarrow> ('i, 'a) station_scheme frame \<Rightarrow> string \<Rightarrow> int option \<Rightarrow> int option
     \<Rightarrow> (string \<times> dataset) list \<times> py_error option" where
  "ssh_retrieve_data ssh_sources ssh_catalog_gpd dir_output t_min t_max =
     (if rows ssh_catalog_gpd = [] \<or> columns ssh_catalog_gpd = []
      then ([], Some (ValueError ''empty ssh_catalog_gpd provided to ssh_retrieve_data''))
      else if ''source'' \<notin> set (columns ssh_catalog_gpd) then ([], Some (KeyError ''source''))
      else
        (let source_list = unique (map source (rows ssh_catalog_gpd)) in
         if length source_list > 1
         then ([], Some (Exception ''A ssh_catalog_gpd with multiple unique source values was passed''))
         else
           (case source_list of
              [] \<Rightarrow> ([], Some IndexError)
            | src # _ \<Rightarrow>
                if src \<notin> set ssh_sources_retrieve
                then ([], Some (ValueError ''source for ssh_retrieve_data should be one of ssh_sources''))
                else retrieve_loop (ssh_sources src) (columns ssh_catalog_gpd) dir_output
                       t_min t_max (rows ssh_catalog_gpd) [])))"

text \<open>The path of the file written for a row.\<close>

definition file_out :: "string \<Rightarrow> ('i, 'a) station_scheme \<Rightarrow> string" where
  "file_out dir_output row = dir_output @ ''/'' @ station_name_unique row @ ''.nc''"

text \<open>
  For the statements: what the claim says of a written dataset, for the catalog row it was
  retrieved for.
\<close>

definition hydrotools_file :: "('i, 'a) station_scheme \<Rightarrow> dataset \<Rightarrow> bool" where
  "hydrotools_file row ds =
     (''waterlevel'' \<in> set (data_vars ds)
      \<and> (\<exists>wl. map_of (ds_vars ds) ''waterlevel'' = Some wl
               \<and> map_of (v_attrs wl) ''units'' = Some (AStr ''m''))
      \<and> ''time'' \<in> set (variables ds) \<and> ''time'' \<in> set (dims ds)
      \<and> set [''station_name'', ''station_id'', ''station_x_coordinate'', ''station_y_coordinate'']
           \<subseteq> set (ds_coords ds)
      \<and> map_of (ds_vars ds) ''station_name''
           = Some (scalar_var (Txt (take 64 (ascii_str (station_name row)))) [])
      \<and> map_of (ds_vars ds) ''station_id''
           = Some (scalar_var (Txt (take 64 (py_str (station_id row)))) [])
      \<and> map_of (ds_vars ds) ''station_x_coordinate''
           = Some (scalar_var (Num (px (geometry row)))
                     [(''standard_name'', AStr ''longitude''), (''units'', AStr ''degrees_east'')])
      \<and> map_of (ds_vars ds) ''station_y_coordinate''
           = Some (scalar_var (Num (py (geometry row)))
                     [(''standard_name'', AStr ''latitude''), (''units'', AStr ''degrees_north'')])
      \<and> map_of (ds_attrs ds) ''station_name_unique'' = Some (AStr (station_name_unique row)))"

text \<open>
  An example retrieval function, which has a dataset of two time steps for station 2 and
  none for station 1, and a catalog of the two stations with given source names.
\<close>

definition example_dataset :: dataset where
  "example_dataset =
     \<lparr>ds_vars = [(''time'', \<lparr>v_dims = [''time''], v_data = [Time 0, Time 3600], v_attrs = []\<rparr>),
                 (''waterlevel'', \<lparr>v_dims = [''time''], v_data = [Num 1, NaN],
                                   v_attrs = [(''units'', AStr ''m'')]\<rparr>)],
      ds_coords = [''time''], ds_sizes = [(''time'', 2)], ds_attrs = []\<rparr>"

definition example_retrieve ::
  "string \<Rightarrow> int station \<Rightarrow> int option \<Rightarrow> int option \<Rightarrow> py_error + dataset option" where
  "example_retrieve src row t_min t_max = (if idx row = 2 then Inr (Some example_dataset) else Inr None)"

definition example_catalog :: "string \<Rightarrow> string \<Rightarrow> int station frame" where
  "example_catalog src1 src2 =
     \<lparr>columns = [''station_id'', ''station_name'', ''geometry'', ''station_name_unique'',
                 ''country'', ''time_min'', ''time_max'', ''time_ndays'', ''source''],
      crs = Some ''EPSG:4326'',
      rows = [(example_points ! 1)\<lparr>source := src1\<rparr>, (example_points ! 0)\<lparr>source := src2\<rparr>]\<rparr>"

subsection \<open>Operations on datasets\<close>

definition var_data :: "dataset \<Rightarrow> string \<Rightarrow> cell list" where
  "var_data ds n = (case map_of (ds_vars ds) n of None \<Rightarrow> [] | Some v \<Rightarrow> v_data v)"

definition map_vars :: "(string \<Rightarrow> variable \<Rightarrow> variable) \<Rightarrow> dataset \<Rightarrow> dataset" where
  "map_vars f ds = ds\<lparr>ds_vars := map (\<lambda>(n, v). (n, f n v)) (ds_vars ds)\<rparr>"

text \<open>
  \<open>ds.isel({dim: positions})\<close>, for variables of one dimension: the values at the given
  positions. The model does not follow a variable that has the dimension among several.
\<close>

definition isel :: "string \<Rightarrow> nat list \<Rightarrow> dataset \<Rightarrow> py_error + dataset" where
  "isel dname positions ds =
     (if \<exists>v \<in> snd ` set (ds_vars ds). dname \<in> set (v_dims v) \<and> v_dims v \<noteq> [dname]
      then Inl (Unmodelled ''isel: a variable of several dimensions'')
      else Inr ((map_vars (\<lambda>n v. if v_dims v = [dname]
                                  then v\<lparr>v_data := map (\<lambda>i. v_data v ! i) positions\<rparr> else v) ds)
                  \<lparr>ds_sizes := AList.update dname (length positions) (ds_sizes ds)\<rparr>))"

text \<open>\<open>ds.drop_vars(names, errors=...)\<close>\<close>

definition drop_vars :: "string list \<Rightarrow> bool \<Rightarrow> dataset \<Rightarrow> py_error + dataset" where
  "drop_vars names ignore ds =
     (if \<not> ignore \<and> \<not> set names \<subseteq> set (variables ds)
      then Inl (ValueError ''these variables cannot be found in this dataset'')
      else Inr (ds\<lparr>ds_vars := filter (\<lambda>(n, v). n \<notin> set names) (ds_vars ds),
                   ds_coords := filter (\<lambda>n. n \<notin> set names) (ds_coords ds)\<rparr>))"

text \<open>\<open>ds.rename_vars({old: new})\<close> and \<open>ds.rename({old: new})\<close>, which also renames a dimension.\<close>

definition rename_vars :: "string \<Rightarrow> string \<Rightarrow> dataset \<Rightarrow> py_error + dataset" where
  "rename_vars old new ds =
     (if old \<notin> set (variables ds)
      then Inl (ValueError ''cannot rename, not a variable or coordinate in this dataset'')
      else if new \<in> set (variables ds) then Inl (ValueError ''the new name conflicts'')
      else Inr (ds\<lparr>ds_vars := map (\<lambda>(n, v). (if n = old then new else n, v)) (ds_vars ds),
                   ds_coords := map (\<lambda>n. if n = old then new else n) (ds_coords ds)\<rparr>))"


text \<open>\<open>da.where(cond)\<close>: the value where the condition holds, a missing value elsewhere.\<close>

definition where_cells :: "cell list \<Rightarrow> bool list \<Rightarrow> cell list" where
  "where_cells cs cond = map (\<lambda>(c, b). if b then c else NaN) (zip cs cond)"

text \<open>
  \<open>ds.sel(time=slice(time_min, time_max))\<close>: the positions of the times within the
  bounds, both included. Without bounds every position is selected. With a bound, pandas
  needs a sorted index to cut it; the model does not follow an index that is not sorted.
\<close>

fun cell_time :: "cell \<Rightarrow> int option" where
  "cell_time (Time t) = Some t"
| "cell_time c = None"




text \<open>
  \<open>ds.max(dim=..., keep_attrs=True)\<close>: a data variable with the dimension is reduced
  along it, missing values skipped; a coordinate with the dimension is dropped. The model
  follows the reduction along the last dimension of a variable of numbers.
\<close>

function chunks :: "nat \<Rightarrow> 'a list \<Rightarrow> 'a list list" where
  "chunks n xs = (if n = 0 \<or> xs = [] then [] else take n xs # chunks n (drop n xs))"
  by pat_completeness auto
termination
  by (relation "measure (\<lambda>(n, xs). length xs)") auto

declare chunks.simps [simp del]

fun cell_num :: "cell \<Rightarrow> real option" where
  "cell_num (Num x) = Some x"
| "cell_num c = None"

definition nanmax :: "cell list \<Rightarrow> cell" where
  "nanmax cs = (case List.map_filter cell_num cs of [] \<Rightarrow> NaN | x # xs \<Rightarrow> Num (fold max xs x))"

definition is_numeric :: "cell list \<Rightarrow> bool" where
  "is_numeric cs = (\<forall>c \<in> set cs. case c of Num x \<Rightarrow> True | NaN \<Rightarrow> True | _ \<Rightarrow> False)"

definition size_of :: "dataset \<Rightarrow> string \<Rightarrow> nat" where
  "size_of ds dname = (case map_of (ds_sizes ds) dname of None \<Rightarrow> 0 | Some k \<Rightarrow> k)"

definition reducible :: "string \<Rightarrow> variable \<Rightarrow> bool" where
  "reducible dname v = (dname \<notin> set (v_dims v)
      \<or> (v_dims v \<noteq> [] \<and> last (v_dims v) = dname \<and> dname \<notin> set (butlast (v_dims v)) \<and> is_numeric (v_data v)))"

definition ds_max :: "string \<Rightarrow> dataset \<Rightarrow> py_error + dataset" where
  "ds_max dname ds =
     (if dname \<notin> set (dims ds) then Inl (ValueError ''Dataset does not contain the dimension'')
      else if size_of ds dname = 0 then Inl (ValueError ''zero-size array to reduction operation'')
      else if \<exists>(n, v) \<in> set (ds_vars ds). n \<notin> set (ds_coords ds) \<and> \<not> reducible dname v
      then Inl (Unmodelled ''max along a dimension that is not the last, or of values that are not numbers'')
      else
        Inr (ds\<lparr>ds_vars :=
                  map (\<lambda>(n, v). (n, if dname \<in> set (v_dims v)
                                     then v\<lparr>v_dims := butlast (v_dims v),
                                            v_data := map nanmax (chunks (size_of ds dname) (v_data v))\<rparr>
                                     else v))
                    (filter (\<lambda>(n, v). n \<notin> set (ds_coords ds) \<or> dname \<notin> set (v_dims v)) (ds_vars ds)),
                ds_coords := filter (\<lambda>n. case map_of (ds_vars ds) n of
                                             None \<Rightarrow> True | Some v \<Rightarrow> dname \<notin> set (v_dims v))
                               (ds_coords ds),
                ds_sizes := AList.delete dname (ds_sizes ds)\<rparr>))"

subsection \<open>Time series of CMEMS\<close>


subsection \<open>Time series of GESLA3\<close>







subsection \<open>Time series of UHSLC\<close>

text \<open>
  \<open>_preprocess_uhslc_erddap\<close>, step by step. The attributes of position are popped;
  the variables that are constant along \<open>obs\<close> are reduced with \<open>max\<close> (of numbers, or
  of values that are all the same; the attributes are not kept).
\<close>

definition pop_attrs :: "string list \<Rightarrow> (string \<times> attr) list \<Rightarrow> (string \<times> attr) list" where
  "pop_attrs names attrs = filter (\<lambda>(k, a). k \<notin> set names) attrs"

definition reduce_obs :: "variable \<Rightarrow> py_error + variable" where
  "reduce_obs v =
     (if ''obs'' \<notin> set (v_dims v) then Inl (ValueError ''obs not found in array dimensions'')
      else if v_dims v \<noteq> [''obs''] then Inl (Unmodelled ''max of a variable of several dimensions'')
      else if v_data v = [] then Inl (ValueError ''zero-size array to reduction operation'')
      else if is_numeric (v_data v) then Inr \<lparr>v_dims = [], v_data = [nanmax (v_data v)], v_attrs = []\<rparr>
      else if \<forall>c \<in> set (v_data v). c = hd (v_data v)
      then Inr \<lparr>v_dims = [], v_data = [hd (v_data v)], v_attrs = []\<rparr>
      else Inl (Unmodelled ''max of values that are not numbers''))"

fun reduce_constant_vars :: "string list \<Rightarrow> dataset \<Rightarrow> py_error + dataset" where
  "reduce_constant_vars [] ds = Inr ds"
| "reduce_constant_vars (n # ns) ds =
     (case map_of (ds_vars ds) n of
        None \<Rightarrow> reduce_constant_vars ns ds
      | Some v \<Rightarrow> and_then (reduce_obs v) (\<lambda>r.
          reduce_constant_vars ns (ds\<lparr>ds_vars := AList.update n r (ds_vars ds)\<rparr>)))"

text \<open>\<open>ds["sea_level"]/1000\<close>, of numbers.\<close>

definition divide_cells :: "real \<Rightarrow> cell list \<Rightarrow> py_error + cell list" where
  "divide_cells k cs =
     (if is_numeric cs then Inr (map (\<lambda>c. case c of Num x \<Rightarrow> Num (x / k) | _ \<Rightarrow> c) cs)
      else Inl (Unmodelled ''division of values that are not numbers''))"

text \<open>
  \<open>ds.set_index(obs="time").rename(obs="time")\<close>: the variable \<open>time\<close>, along \<open>obs\<close>,
  becomes the index of that dimension, and the dimension takes its name.
\<close>

definition set_index_obs_time :: "dataset \<Rightarrow> py_error + dataset" where
  "set_index_obs_time ds =
     (case map_of (ds_vars ds) ''time'' of
        None \<Rightarrow> Inl (ValueError ''time is not the name of an existing variable'')
      | Some tv \<Rightarrow>
          if v_dims tv \<noteq> [''obs''] then Inl (ValueError ''dimension mismatch'')
          else if ''obs'' \<in> set (variables ds) \<or> ''time'' \<in> set (dims ds)
          then Inl (Unmodelled ''set_index: obs is a variable, or time a dimension'')
          else Inr (ds\<lparr>ds_vars := map (\<lambda>(n, v). (n, v\<lparr>v_dims := map (\<lambda>d. if d = ''obs'' then ''time'' else d)
                                                                    (v_dims v)\<rparr>))
                                      (ds_vars ds),
                       ds_coords := (if ''time'' \<in> set (ds_coords ds) then ds_coords ds
                                     else ds_coords ds @ [''time'']),
                       ds_sizes := map (\<lambda>(d, k). (if d = ''obs'' then ''time'' else d, k)) (ds_sizes ds)\<rparr>))"

text \<open>
  \<open>ds.time.dt.round('s')\<close>: a time in nanoseconds to the nearest second, a tie to the
  even second; a missing time stays missing.
\<close>

definition round_s :: "int \<Rightarrow> int" where
  "round_s t =
     (let q = t div 1000000000; r = t mod 1000000000
      in if 2 * r < 1000000000 then q * 1000000000
         else if 2 * r > 1000000000 then (q + 1) * 1000000000
         else if even q then q * 1000000000 else (q + 1) * 1000000000)"

definition round_times :: "cell list \<Rightarrow> py_error + cell list" where
  "round_times cs =
     (if \<forall>c \<in> set cs. case c of Time t \<Rightarrow> True | NaN \<Rightarrow> True | _ \<Rightarrow> False
      then Inr (map (\<lambda>c. case c of Time t \<Rightarrow> Time (round_s t) | _ \<Rightarrow> c) cs)
      else Inl (Unmodelled ''dt accessor on values that are not times''))"

text \<open>\<open>dsid.split("_")[-1]\<close>, and the renaming of an attribute with \<open>pop\<close>.\<close>

definition last_segment :: "string \<Rightarrow> string" where
  "last_segment s = rev (takeWhile (\<lambda>c. c \<noteq> CHR ''_'') (rev s))"

fun rename_attrs :: "string list \<Rightarrow> string \<Rightarrow> (string \<times> attr) list \<Rightarrow> py_error + (string \<times> attr) list" where
  "rename_attrs [] dsid_short attrs = Inr attrs"
| "rename_attrs (a # as) dsid_short attrs =
     (case map_of attrs a of
        None \<Rightarrow> Inl (KeyError a)
      | Some x \<Rightarrow> rename_attrs as dsid_short
                    (AList.update (a @ ''_'' @ dsid_short) x (AList.delete a attrs)))"

definition preprocess_uhslc_erddap :: "dataset \<Rightarrow> py_error + dataset" where
  "preprocess_uhslc_erddap ds =
     and_then (drop_vars [''rowSize''] False ds) (\<lambda>ds.
       (let ds = ds\<lparr>ds_attrs := pop_attrs [''geospatial_lon_min'', ''geospatial_lon_max'',
                                             ''Easternmost_Easting'', ''Westernmost_Easting'',
                                             ''geospatial_lat_min'', ''geospatial_lat_max'',
                                             ''Northernmost_Northing'', ''Southernmost_Northing'']
                                    (ds_attrs ds)\<rparr>
        in
     and_then (drop_vars [''latitude'', ''longitude''] True ds) (\<lambda>ds.
     and_then (drop_vars [''station_name''] True ds) (\<lambda>ds.
     and_then (reduce_constant_vars [''station_country'', ''station_country_code'', ''gloss_id'',
                                     ''ssc_id'', ''last_rq_date''] ds) (\<lambda>ds.
       (case map_of (ds_sizes ds) ''timeseries'' of
          None \<Rightarrow> Inl (KeyError ''timeseries'')
        | Some k \<Rightarrow>
            if k \<noteq> 1 then Inl AssertionError
            else
     and_then (ds_max ''timeseries'' ds) (\<lambda>ds.
     and_then (get_var ds ''sea_level'') (\<lambda>sea_level.
     and_then (get_attr (v_attrs sea_level) ''units'') (\<lambda>units.
       if units \<noteq> AStr ''millimeters'' then Inl AssertionError
       else
     and_then (divide_cells 1000 (v_data sea_level)) (\<lambda>metres.
       (let ds = ds\<lparr>ds_vars := AList.update ''sea_level''
                      (sea_level\<lparr>v_data := metres,
                                 v_attrs := AList.update ''units'' (AStr ''m'') (v_attrs sea_level)\<rparr>)
                      (ds_vars ds)\<rparr>
        in
     and_then (rename_vars ''sea_level'' ''waterlevel'' ds) (\<lambda>ds.
     and_then (set_index_obs_time ds) (\<lambda>ds.
     and_then (get_var ds ''time'') (\<lambda>tv.
     and_then (round_times (v_data tv)) (\<lambda>rounded.
       (let ds = ds\<lparr>ds_vars := AList.update ''time'' (tv\<lparr>v_data := rounded\<rparr>) (ds_vars ds)\<rparr>
        in
     and_then (get_attr (ds_attrs ds) ''id'') (\<lambda>dsid.
       (case dsid of
          AStr dsid \<Rightarrow>
            and_then (rename_attrs [''acknowledgement'', ''processing_level'', ''title'']
                        (last_segment dsid) (ds_attrs ds)) (\<lambda>attrs.
              Inr (ds\<lparr>ds_attrs := attrs\<rparr>))
        | _ \<Rightarrow> Inl (Unmodelled ''the attribute id is not a string'')))))))))))))))))))"

text \<open>
  \<open>_uhslc_ssh_retrieve_data_oneds\<close>, from the answer of the request: the dataset is
  preprocessed and appended; an \<open>HTTPError\<close> that has \<open>code=404\<close> in its text is
  swallowed, every other exception is raised again.
\<close>

definition uhslc_ssh_retrieve_data_oneds ::
  "py_error + dataset \<Rightarrow> dataset list \<Rightarrow> py_error + dataset list" where
  "uhslc_ssh_retrieve_data_oneds e ds_list =
     (case and_then e (\<lambda>ds. and_then (preprocess_uhslc_erddap ds) (\<lambda>ds. Inr (ds_list @ [ds]))) of
        Inl (HTTPError err) \<Rightarrow> if \<not> sublist ''code=404'' err then Inl (HTTPError err) else Inr ds_list
      | r \<Rightarrow> r)"

text \<open>
  \<open>xr.concat(ds_list, dim='time', coords='minimal', data_vars='minimal', compat='equals',
  combine_attrs='drop_conflicts')\<close>: the variables along \<open>time\<close> are joined, the others
  have to be equal; an attribute stays unless the datasets give it different values.
\<close>

definition drop_conflicts :: "(string \<times> attr) list \<Rightarrow> (string \<times> attr) list \<Rightarrow> (string \<times> attr) list" where
  "drop_conflicts a b =
     filter (\<lambda>(k, x). case map_of b k of None \<Rightarrow> True | Some y \<Rightarrow> x = y) a
     @ filter (\<lambda>(k, y). map_of a k = None) b"

definition concat_time :: "dataset \<Rightarrow> dataset \<Rightarrow> py_error + dataset" where
  "concat_time a b =
     (if set (variables a) \<noteq> set (variables b)
      then Inl (ValueError ''variables present in some datasets but not others'')
      else if \<exists>(n, v) \<in> set (ds_vars a). case map_of (ds_vars b) n of
                                                None \<Rightarrow> False | Some w \<Rightarrow> v_dims v \<noteq> v_dims w
      then Inl (Unmodelled ''concat: a variable has other dimensions in the second dataset'')
      else if \<exists>(n, v) \<in> set (ds_vars a). ''time'' \<in> set (v_dims v) \<and> v_dims v \<noteq> [''time'']
      then Inl (Unmodelled ''concat: a variable of several dimensions'')
      else if \<exists>(n, v) \<in> set (ds_vars a). case map_of (ds_vars b) n of
                                                None \<Rightarrow> False
                                              | Some w \<Rightarrow> ''time'' \<notin> set (v_dims v) \<and> v_data v \<noteq> v_data w
      then Inl (ValueError ''encountered unexpected variable'')
      else Inr \<lparr>ds_vars = map (\<lambda>(n, v). (n, case map_of (ds_vars b) n of
                                              None \<Rightarrow> v
                                            | Some w \<Rightarrow>
                                                v\<lparr>v_data := (if v_dims v = [''time'']
                                                              then v_data v @ v_data w else v_data v),
                                                  v_attrs := drop_conflicts (v_attrs v) (v_attrs w)\<rparr>))
                            (ds_vars a),
                ds_coords = ds_coords a,
                ds_sizes = AList.update ''time'' (size_of a ''time'' + size_of b ''time'') (ds_sizes a),
                ds_attrs = drop_conflicts (ds_attrs a) (ds_attrs b)\<rparr>)"

fun xr_concat :: "dataset list \<Rightarrow> py_error + dataset" where
  "xr_concat [] = Inl (ValueError ''must supply at least one object to concatenate'')"
| "xr_concat [a] = Inr a"
| "xr_concat (a # b # ds_list) = and_then (concat_time a b) (\<lambda>c. xr_concat (c # ds_list))"

text \<open>
  \<open>ds.drop_duplicates(dim='time', keep='first')\<close> selects the positions at which a time
  occurs for the first time; \<open>ds.sortby('time')\<close> selects the positions in the order of
  their times, positions of equal times in their own order.
\<close>

definition first_positions :: "'a list \<Rightarrow> nat list" where
  "first_positions xs = filter (\<lambda>i. xs ! i \<notin> set (take i xs)) [0..<length xs]"

definition drop_duplicates_time :: "dataset \<Rightarrow> py_error + dataset" where
  "drop_duplicates_time ds =
     (if ''time'' \<notin> set (dims ds) then Inl (ValueError ''Dimensions not found in data dimensions'')
      else and_then (get_var ds ''time'') (\<lambda>tv.
        if v_dims tv \<noteq> [''time''] then Inl (KeyError ''no index found for coordinate time'')
        else isel ''time'' (first_positions (v_data tv)) ds))"

definition sortby_time :: "dataset \<Rightarrow> py_error + dataset" where
  "sortby_time ds =
     and_then (get_var ds ''time'') (\<lambda>tv.
       if v_dims tv \<noteq> [''time''] then Inl (Unmodelled ''sortby: a key of other dimensions'')
       else if None \<in> set (map cell_time (v_data tv)) then Inl (Unmodelled ''time index with NaT'')
       else isel ''time'' (sort_key (\<lambda>i. the (cell_time (v_data tv ! i))) [0..<length (v_data tv)]) ds)"

text \<open>
  \<open>uhslc_ssh_retrieve_data\<close>: the server is a function of the dataset asked for and of
  the constraints (the station and the two bounds of time).
\<close>

definition uhslc_ssh_retrieve_data ::
  "(string \<Rightarrow> 'i \<Rightarrow> int option \<Rightarrow> int option \<Rightarrow> py_error + dataset) \<Rightarrow> 'i
     \<Rightarrow> int option \<Rightarrow> int option \<Rightarrow> bool \<Rightarrow> bool \<Rightarrow> py_error + dataset option" where
  "uhslc_ssh_retrieve_data erddap row_name t_min t_max include_rqds include_fast =
     and_then (if include_rqds
               then uhslc_ssh_retrieve_data_oneds (erddap ''global_hourly_rqds'' row_name t_min t_max) []
               else Inr []) (\<lambda>ds_list.
     and_then (if include_fast
               then uhslc_ssh_retrieve_data_oneds (erddap ''global_hourly_fast'' row_name t_min t_max) ds_list
               else Inr ds_list) (\<lambda>ds_list.
       if length ds_list = 0 then Inr None
       else
         and_then (xr_concat ds_list) (\<lambda>ds.
         and_then (drop_duplicates_time ds) (\<lambda>ds.
         and_then (sortby_time ds) (\<lambda>ds. Inr (Some ds))))))"

text \<open>
  Two answers of the server for one station: the research quality data and the fast
  delivery data, which share the times 3600 s and 7200 s.
\<close>

definition example_erddap_ds :: "string \<Rightarrow> cell list \<Rightarrow> cell list \<Rightarrow> dataset" where
  "example_erddap_ds dsid ts ls =
     \<lparr>ds_vars = [(''rowSize'', \<lparr>v_dims = [''timeseries''], v_data = [Num (real (length ts))], v_attrs = []\<rparr>),
                 (''latitude'', \<lparr>v_dims = [''timeseries''], v_data = [Num 7.333], v_attrs = []\<rparr>),
                 (''uhslc_id'', \<lparr>v_dims = [''timeseries''], v_data = [Num 7], v_attrs = []\<rparr>),
                 (''time'', \<lparr>v_dims = [''obs''], v_data = ts, v_attrs = []\<rparr>),
                 (''sea_level'', \<lparr>v_dims = [''obs''], v_data = ls,
                                  v_attrs = [(''units'', AStr ''millimeters'')]\<rparr>),
                 (''gloss_id'', \<lparr>v_dims = [''obs''], v_data = map (\<lambda>c. Num 115) ts, v_attrs = []\<rparr>)],
      ds_coords = [], ds_sizes = [(''timeseries'', 1), (''obs'', length ts)],
      ds_attrs = [(''id'', AStr dsid), (''acknowledgement'', AStr ''a''),
                  (''processing_level'', AStr dsid), (''title'', AStr ''t''),
                  (''geospatial_lat_min'', ANum 7.333)]\<rparr>"

definition example_erddap :: "string \<Rightarrow> nat \<Rightarrow> int option \<Rightarrow> int option \<Rightarrow> py_error + dataset" where
  "example_erddap dataset_id row_name t_min t_max =
     (if row_name \<noteq> 7 then Inl (HTTPError ''Error {code=404; message=Not Found}'')
      else if dataset_id = ''global_hourly_rqds''
      then Inr (example_erddap_ds dataset_id
                  [Time 3600000000000, Time 7200000000000, Time 0]
                  [Num 1000, Num 2000, Num 500])
      else Inr (example_erddap_ds dataset_id
                  [Time 3600000000000, Time 7200000000400, Time 10800000000000]
                  [Num 1100, Num 2100, Num 3100]))"

section \<open>Properties\<close>

subsection \<open>Longitude shift\<close>

lemma py_mod_range:
  assumes "0 < m"
  shows "0 \<le> py_mod x m" and "py_mod x m < m"
proof -
  have a: "of_int \<lfloor>x / m\<rfloor> \<le> x / m" by simp
  have b: "x / m < of_int \<lfloor>x / m\<rfloor> + 1" by linarith
  from a assms have "m * of_int \<lfloor>x / m\<rfloor> \<le> m * (x / m)"
    by (intro mult_left_mono) simp_all
  with assms have "m * of_int \<lfloor>x / m\<rfloor> \<le> x" by simp
  then show "0 \<le> py_mod x m" by (simp add: py_mod_def)
  from b assms have "m * (x / m) < m * (of_int \<lfloor>x / m\<rfloor> + 1)"
    by (intro mult_strict_left_mono) simp_all
  with assms have "x < m * (of_int \<lfloor>x / m\<rfloor> + 1)" by simp
  then show "py_mod x m < m" by (simp add: py_mod_def algebra_simps)
qed

lemma py_mod_congruent: "\<exists>k::int. x - py_mod x m = m * of_int k"
  by (simp add: py_mod_def)

lemma round_half_even_lower:
  assumes "of_int a \<le> x"
  shows "a \<le> round_half_even x"
proof -
  from assms have "a \<le> \<lfloor>x\<rfloor>" by (simp add: le_floor_iff)
  then show ?thesis by (auto simp: round_half_even_def Let_def)
qed

lemma round_half_even_upper:
  assumes "x \<le> of_int b"
  shows "round_half_even x \<le> b"
proof (cases "x = of_int b")
  case True
  then show ?thesis by (simp add: round_half_even_def)
next
  case False
  with assms have "x < of_int b" by simp
  then have "\<lfloor>x\<rfloor> < b" by (simp add: floor_less_iff)
  then show ?thesis by (auto simp: round_half_even_def Let_def)
qed

lemma round_half_even_close: "\<bar>of_int (round_half_even x) - x\<bar> \<le> 1 / 2"
proof -
  have "of_int \<lfloor>x\<rfloor> \<le> x" "x < of_int \<lfloor>x\<rfloor> + 1" by linarith+
  then show ?thesis
    by (auto simp: round_half_even_def Let_def abs_le_iff)
qed

lemma py_round_bounds:
  assumes "of_int a \<le> x" "x \<le> of_int b"
  shows "of_int a \<le> py_round x n" and "py_round x n \<le> of_int b"
proof -
  have "of_int a * 10 ^ n \<le> x * 10 ^ n" using assms(1) by simp
  then have "of_int (a * 10 ^ n) \<le> x * 10 ^ n" by simp
  then have "a * 10 ^ n \<le> round_half_even (x * 10 ^ n)" by (rule round_half_even_lower)
  then have "(of_int (a * 10 ^ n) :: real) \<le> of_int (round_half_even (x * 10 ^ n))"
    by (simp only: of_int_le_iff)
  then show "of_int a \<le> py_round x n"
    by (simp add: py_round_def pos_le_divide_eq)
  have "x * 10 ^ n \<le> of_int b * 10 ^ n" using assms(2) by simp
  then have "x * 10 ^ n \<le> of_int (b * 10 ^ n)" by simp
  then have "round_half_even (x * 10 ^ n) \<le> b * 10 ^ n" by (rule round_half_even_upper)
  then have "(of_int (round_half_even (x * 10 ^ n)) :: real) \<le> of_int (b * 10 ^ n)"
    by (simp only: of_int_le_iff)
  then show "py_round x n \<le> of_int b"
    by (simp add: py_round_def pos_divide_le_eq)
qed

lemma py_round_close: "\<bar>py_round x n - x\<bar> \<le> 1 / (2 * 10 ^ n)"
proof -
  have "py_round x n - x = (of_int (round_half_even (x * 10 ^ n)) - x * 10 ^ n) / 10 ^ n"
    by (simp add: py_round_def diff_divide_distrib)
  then have "\<bar>py_round x n - x\<bar> = \<bar>of_int (round_half_even (x * 10 ^ n)) - x * 10 ^ n\<bar> / 10 ^ n"
    by (simp add: abs_divide)
  also have "\<dots> \<le> (1 / 2) / 10 ^ n"
  proof (rule divide_right_mono)
    show "\<bar>of_int (round_half_even (x * 10 ^ n)) - x * 10 ^ n\<bar> \<le> 1 / 2"
      by (rule round_half_even_close)
    show "(0::real) \<le> 10 ^ n" by simp
  qed
  finally show ?thesis by simp
qed

text \<open>
  Claim C8, as the code has it: \<open>_lon_360_to_180\<close> returns
  \<open>((L + 180) mod 360) - 180\<close> rounded to ten decimals. The unrounded value lies in
  \<open>[-180, 180)\<close> and is congruent to \<open>L\<close> modulo 360; the returned value
  differs from it by at most \<open>5 * 10^-11\<close> and lies in the closed interval
  \<open>[-180, 180]\<close>, and so does the longitude of every geometry of the catalog of
  \<open>_uhslc_get_json\<close>, whose latitudes are unchanged.
\<close>

theorem lon_360_to_180_rounded:
  "lon_360_to_180 L = py_round (py_mod (L + 180) 360 - 180) 10
   \<and> - 180 \<le> py_mod (L + 180) 360 - 180 \<and> py_mod (L + 180) 360 - 180 < 180
   \<and> (\<exists>k::int. L - (py_mod (L + 180) 360 - 180) = 360 * of_int k)
   \<and> \<bar>lon_360_to_180 L - (py_mod (L + 180) 360 - 180)\<bar> \<le> 1 / (2 * 10 ^ 10)
   \<and> - 180 \<le> lon_360_to_180 L \<and> lon_360_to_180 L \<le> 180
   \<and> (\<forall>cat. uhslc_get_json uhslc_gpd = Inr cat \<longrightarrow>
         map (\<lambda>r. py (geometry r)) (rows cat) = map (\<lambda>f. py (f_geometry f)) (rows uhslc_gpd)
         \<and> (\<forall>r \<in> set (rows cat). - 180 \<le> px (geometry r) \<and> px (geometry r) \<le> 180))"
proof -
  let ?v = "py_mod (L + 180) 360 - 180"
  have r: "0 \<le> py_mod (L + 180) 360" "py_mod (L + 180) 360 < 360"
    using py_mod_range [of 360 "L + 180"] by simp_all
  have lo: "- 180 \<le> ?v" and hi: "?v < 180" using r by simp_all
  obtain k :: int where "(L + 180) - py_mod (L + 180) 360 = 360 * of_int k"
    using py_mod_congruent by blast
  then have cong: "\<exists>k::int. L - ?v = 360 * of_int k" by (intro exI [of _ k]) simp
  have b: "\<And>x. - 180 \<le> py_mod (x + 180) 360 - 180 \<and> py_mod (x + 180) 360 - 180 \<le> 180"
    using py_mod_range [of 360] by (simp add: less_imp_le)
  have rb: "\<And>x. - 180 \<le> lon_360_to_180 x \<and> lon_360_to_180 x \<le> 180"
  proof -
    fix x
    have "of_int (- 180) \<le> py_mod (x + 180) 360 - 180" "py_mod (x + 180) 360 - 180 \<le> of_int 180"
      using b [of x] by simp_all
    from py_round_bounds [OF this, of 10] show "- 180 \<le> lon_360_to_180 x \<and> lon_360_to_180 x \<le> 180"
      by (simp add: lon_360_to_180_def)
  qed
  have cl: "\<bar>lon_360_to_180 L - ?v\<bar> \<le> 1 / (2 * 10 ^ 10)"
    unfolding lon_360_to_180_def by (rule py_round_close)
  have g: "\<forall>cat. uhslc_get_json uhslc_gpd = Inr cat \<longrightarrow>
         map (\<lambda>r. py (geometry r)) (rows cat) = map (\<lambda>f. py (f_geometry f)) (rows uhslc_gpd)
         \<and> (\<forall>r \<in> set (rows cat). - 180 \<le> px (geometry r) \<and> px (geometry r) \<le> 180)"
    using rb by (auto simp: uhslc_get_json_def Let_def comp_def split: sum.splits)
  show ?thesis using lo hi cong cl rb g by (simp add: lon_360_to_180_def)
qed

text \<open>
  The theorem at the longitude 314.463 of the source's comment, and at a catalog of two
  features.
\<close>

theorem lon_360_to_180_rounded_witness:
  "lon_360_to_180 (314463 / 1000) = - (45537 / 1000)
   \<and> (\<exists>cat. uhslc_get_json
               \<lparr>columns = [''uhslc_id'', ''name'', ''rq_basin'', ''geometry''], crs = Some ''EPSG:4326'',
                rows = [\<lparr>f_uhslc_id = 7, f_name = [80], f_geometry = \<lparr>px = 190, py = 5\<rparr>\<rparr>,
                        \<lparr>f_uhslc_id = 9, f_name = [81], f_geometry = \<lparr>px = 20, py = - 9\<rparr>\<rparr>]\<rparr>
             = Inr cat
           \<and> map (\<lambda>r. px (geometry r)) (rows cat) = [- 170, 20]
           \<and> map (\<lambda>r. py (geometry r)) (rows cat) = [5, - 9]
           \<and> columns cat = [''uhslc_id'', ''name'', ''geometry''])
   \<and> - 180 \<le> lon_360_to_180 (314463 / 1000) \<and> lon_360_to_180 (314463 / 1000) \<le> 180"
  using lon_360_to_180_rounded [of "314463 / 1000" "\<lparr>columns = [], crs = None, rows = []\<rparr>"]
  by (simp add: uhslc_get_json_def require_columns_def lon_360_to_180_def py_round_def
      py_mod_def round_half_even_def Let_def)

text \<open>
  The claim as stated fails: a longitude within \<open>10^-11\<close> below 180 is rounded
  up to 180, which is outside \<open>[-180, 180)\<close> and is not the unrounded value.
\<close>

theorem lon_360_to_180_counterexample:
  "lon_360_to_180 (17999999999999 / 100000000000) = 180
   \<and> py_mod (17999999999999 / 100000000000 + 180) 360 - 180 = 17999999999999 / 100000000000"
  by (simp add: lon_360_to_180_def py_round_def py_mod_def round_half_even_def Let_def)

subsection \<open>Tables and the SSC catalog\<close>

lemma select_rows_map: "select_rows rs (map P rs) = filter P rs"
  by (induction rs) (auto simp: select_rows_def)



lemma set_add_column [simp]: "set (add_column c cols) = insert c (set cols)"
  by (auto simp: add_column_def)

lemma set_drop_columns: "drop_columns ds cols = Inr cols' \<Longrightarrow> set cols' = set cols - set ds"
  by (auto simp: drop_columns_def split: if_splits)

lemma drop_columns_Inr_iff:
  "(\<exists>cols'. drop_columns ds cols = Inr cols') = (set ds \<subseteq> set cols)"
  by (auto simp: drop_columns_def)

lemma rename_columns_keeps:
  "c \<in> set cols \<Longrightarrow> map_of rename_dict c = None \<Longrightarrow> c \<in> set (rename_columns rename_dict cols)"
  by (force simp: rename_columns_def)

lemma rename_columns_target:
  "c \<in> set cols \<Longrightarrow> map_of rename_dict c = Some c' \<Longrightarrow> c' \<in> set (rename_columns rename_dict cols)"
  by (force simp: rename_columns_def)

lemma rename_columns_source:
  assumes "c \<in> set (rename_columns rename_dict cols)"
  shows "(c \<in> set cols \<and> map_of rename_dict c = None) \<or> c \<in> snd ` set rename_dict"
proof -
  from assms obtain c0 where c0: "c0 \<in> set cols"
    and c: "c = (case map_of rename_dict c0 of Some c' \<Rightarrow> c' | None \<Rightarrow> c0)"
    by (auto simp: rename_columns_def)
  show ?thesis
  proof (cases "map_of rename_dict c0")
    case None
    with c c0 show ?thesis by simp
  next
    case (Some c')
    then have "(c0, c') \<in> set rename_dict" by (rule map_of_SomeD)
    then have "snd (c0, c') \<in> snd ` set rename_dict" by (rule imageI)
    with Some c show ?thesis by simp
  qed
qed

lemma rename_columns_removes:
  "map_of rename_dict c \<noteq> None \<Longrightarrow> c \<notin> snd ` set rename_dict
     \<Longrightarrow> c \<notin> set (rename_columns rename_dict cols)"
  using rename_columns_source by fastforce

lemma rename_columns_absent:
  "c \<notin> set cols \<Longrightarrow> c \<notin> snd ` set rename_dict \<Longrightarrow> c \<notin> set (rename_columns rename_dict cols)"
  using rename_columns_source by fastforce

lemma require_columns_Inr [simp]: "(require_columns cs cols = Inr u) = (set cs \<subseteq> set cols)"
  by (simp add: require_columns_def)

lemma ssc_read_columns_keeps:
  assumes "ssc_read_columns cols = Inr cols'"
  shows "set ssc_id_columns \<subseteq> set cols'"
    and "''name'' \<notin> set cols'" and "''geo:lat'' \<notin> set cols'" and "''geo:lon'' \<notin> set cols'"
proof -
  from assms obtain d where
    req: "set (ssc_id_columns @ [''name'', ''ssc_id'']) \<subseteq> set cols"
    and d: "drop_columns [''geo:lon'', ''geo:lat'']
              (add_column ''geometry'' (add_column ''station_name_unique'' cols)) = Inr d"
    and c: "cols' = rename_columns [(''name'', ''station_name''), (''ssc_id'', ''station_id'')] d"
    by (auto simp: ssc_read_columns_def split: sum.splits)
  from set_drop_columns [OF d]
  have sd: "set d = insert ''geometry'' (insert ''station_name_unique'' (set cols))
              - {''geo:lon'', ''geo:lat''}" by simp
  show "set ssc_id_columns \<subseteq> set cols'"
  proof
    fix x assume x: "x \<in> set ssc_id_columns"
    with req sd have "x \<in> set d" by (auto simp: ssc_id_columns_def)
    moreover from x have "map_of [(''name'', ''station_name''), (''ssc_id'', ''station_id'')] x = None"
      by (auto simp: ssc_id_columns_def)
    ultimately show "x \<in> set cols'" unfolding c by (rule rename_columns_keeps)
  qed
  show "''name'' \<notin> set cols'" unfolding c by (rule rename_columns_removes) simp_all
  from sd show "''geo:lat'' \<notin> set cols'" unfolding c by (intro rename_columns_absent) simp_all
  from sd show "''geo:lon'' \<notin> set cols'" unfolding c by (intro rename_columns_absent) simp_all
qed

lemma ssc_ssh_read_catalog_columns:
  assumes "ssc_ssh_read_catalog nfkd svc = Inr cat"
  shows "set ssc_id_columns \<subseteq> set (columns cat)"
    and "''name'' \<notin> set (columns cat)"
    and "rows cat = map (ssc_convert_row nfkd) (rows svc)"
  using assms ssc_read_columns_keeps [of "columns svc"]
  by (auto simp: ssc_ssh_read_catalog_def split: sum.splits)

lemma valid_are_id_columns: "set list_validgroups \<subseteq> set ssc_id_columns"
  by (simp add: list_validgroups_def ssc_id_columns_def)

lemma example_read_columns:
  "ssc_read_columns example_ssc_columns =
     Inr [''station_name'', ''station_id'', ''country'', ''psmsl'', ''ioc'', ''ptwc'', ''gloss'',
          ''uhslc'', ''sonel_gps'', ''sonel_tg'', ''station_name_unique'', ''geometry'']"
  by (simp add: ssc_read_columns_def example_ssc_columns_def require_columns_def
      ssc_id_columns_def add_column_def drop_columns_def rename_columns_def)

subsection \<open>Subsetting the SSC catalog by groups\<close>



subsection \<open>The SSC identifier of another provider's identifier\<close>

text \<open>
  What \<open>ssc_sscid_from_otherid\<close> returns once the catalog is read: a group name
  outside the five valid ones and an identifier that no station lists raise
  \<open>ValueError\<close>, a single match returns that station's SSC identifier, and several
  matches end in \<open>KeyError\<close>, because the columns selected for the message are not
  columns of the catalog \<open>ssc_ssh_read_catalog\<close> returns.
\<close>

lemma ssc_sscid_from_otherid_cases:
  assumes cat: "ssc_ssh_read_catalog nfkd ssc_service = Inr cat"
  shows "ssc_sscid_from_otherid nfkd ssc_service group_id groupname =
     (if groupname \<notin> set list_validgroups
      then Inl (ValueError ''groupname should be one of list_validgroups'')
      else case filter (\<lambda>r. py_str group_id \<in> set (id_column groupname r)) (rows cat) of
             [] \<Rightarrow> Inl (ValueError ''sscid not found for id in group'')
           | [r] \<Rightarrow> Inr (idx r)
           | _ \<Rightarrow> Inl (KeyError ''not in index''))"
proof (cases "groupname \<in> set list_validgroups")
  case False
  with cat show ?thesis
    by (simp add: ssc_sscid_from_otherid_def check_ssc_groups_valid_def Let_def)
next
  case True
  let ?P = "\<lambda>r. py_str group_id \<in> set (id_column groupname r)"
  from True valid_are_id_columns ssc_ssh_read_catalog_columns(1) [OF cat]
  have g: "get_id_column cat groupname = Inr (map (id_column groupname) (rows cat))"
    by (auto simp: get_id_column_def)
  have k: "require_columns [''name'', ''country'', ''geo:lat'', ''geo:lon'', groupname] (columns cat)
           = Inl (KeyError ''not in index'')"
    using ssc_ssh_read_catalog_columns(2) [OF cat] by (simp add: require_columns_def)
  show ?thesis
  proof (cases "filter ?P (rows cat)")
    case Nil
    with True cat g show ?thesis
      by (simp add: ssc_sscid_from_otherid_def check_ssc_groups_valid_def Let_def comp_def
          filter_map)
  next
    case (Cons r rs)
    with True cat g k show ?thesis
      by (cases rs) (simp_all add: ssc_sscid_from_otherid_def check_ssc_groups_valid_def Let_def
          comp_def filter_map select_rows_map)
  qed
qed

lemma ssc_sscid_one_match:
  "ssc_sscid_from_otherid (\<lambda>s. s) example_ssc_service (IntId 347) ''uhslc'' = Inr ''SSC-hilo''"
proof -
  obtain cat where cat: "ssc_ssh_read_catalog (\<lambda>s. s) example_ssc_service = Inr cat"
    by (simp add: ssc_ssh_read_catalog_def example_ssc_service_def example_read_columns)
  then have r: "rows cat = map (ssc_convert_row (\<lambda>s. s)) (rows example_ssc_service)"
    by (auto simp: ssc_ssh_read_catalog_def split: sum.splits)
  have d: "str_int 347 = ''347''" by code_simp
  show ?thesis
    unfolding ssc_sscid_from_otherid_cases [OF cat]
    by (simp add: r d list_validgroups_def example_ssc_service_def example_station_def
        ssc_convert_row_def id_column_def)
qed

text \<open>
  Claim C3 says \<open>ValueError\<close> when more than one SSC station lists the identifier.
  On a catalog in which two stations list the UHSLC id 347 the code raises
  \<open>KeyError\<close> instead: \<open>name\<close>, \<open>geo:lat\<close> and \<open>geo:lon\<close> were renamed or
  dropped by \<open>ssc_ssh_read_catalog\<close>, so building the message fails before the
  \<open>raise ValueError\<close> is reached.
\<close>

theorem ssc_sscid_from_otherid_two_matches:
  "ssc_sscid_from_otherid (\<lambda>s. s) example_ssc_twice (IntId 347) ''uhslc'' = Inl (KeyError ''not in index'')"
proof -
  obtain cat where cat: "ssc_ssh_read_catalog (\<lambda>s. s) example_ssc_twice = Inr cat"
    by (simp add: ssc_ssh_read_catalog_def example_ssc_twice_def example_read_columns)
  then have r: "rows cat = map (ssc_convert_row (\<lambda>s. s)) (rows example_ssc_twice)"
    by (auto simp: ssc_ssh_read_catalog_def split: sum.splits)
  have d: "str_int 347 = ''347''" by code_simp
  show ?thesis
    unfolding ssc_sscid_from_otherid_cases [OF cat]
    by (simp add: r d list_validgroups_def example_ssc_twice_def example_station_def
        ssc_convert_row_def id_column_def)
qed

subsection \<open>Removing accents\<close>

lemma encode_ascii_ignore_ascii: "\<forall>c \<in> set (encode_ascii_ignore s). c < 128"
  by (simp add: encode_ascii_ignore_def)

lemma encode_ascii_ignore_fixes: "\<forall>c \<in> set s. c < 128 \<Longrightarrow> encode_ascii_ignore s = s"
  by (simp add: encode_ascii_ignore_def)

lemma replace_cp_fixes: "a \<notin> set s \<Longrightarrow> replace_cp a b s = s"
  by (induction s) (auto simp: replace_cp_def)

lemma example_nfkd_ascii: "\<forall>c \<in> set s. c < 128 \<Longrightarrow> example_nfkd s = s"
  by (induction s) (auto simp: example_nfkd_def)

text \<open>
  Claim C9: \<open>_remove_accents\<close> returns ASCII characters only, for every input and
  whatever the normalisation does; and it is idempotent, given what NFKD guarantees:
  a string of ASCII characters is its own normal form.
\<close>

theorem remove_accents_ascii_idempotent:
  assumes nfkd_ascii: "\<forall>s. (\<forall>c \<in> set s. c < 128) \<longrightarrow> nfkd s = s"
  shows "(\<forall>c \<in> set (remove_accents nfkd input_str). c < 128)
         \<and> remove_accents nfkd (remove_accents nfkd input_str) = remove_accents nfkd input_str"
proof -
  let ?out = "remove_accents nfkd input_str"
  have ascii: "\<forall>c \<in> set ?out. c < 128"
    by (simp add: remove_accents_def Let_def encode_ascii_ignore_ascii)
  then have "248 \<notin> set ?out" by auto
  then have r: "replace_cp 248 111 ?out = ?out" by (rule replace_cp_fixes)
  from ascii nfkd_ascii have n: "nfkd ?out = ?out" by blast
  from ascii have e: "encode_ascii_ignore ?out = ?out" by (rule encode_ascii_ignore_fixes)
  have "remove_accents nfkd ?out = encode_ascii_ignore (nfkd (replace_cp 248 111 ?out))"
    by (simp add: remove_accents_def Let_def)
  with r n e have "remove_accents nfkd ?out = ?out" by simp
  with ascii show ?thesis by simp
qed

text \<open>
  The name T, o with stroke, e with acute accent, a with ring above becomes \<open>Toea\<close>,
  which is returned unchanged.
\<close>

theorem remove_accents_ascii_idempotent_witness:
  "remove_accents example_nfkd [84, 248, 233, 229] = [84, 111, 101, 97]
   \<and> remove_accents example_nfkd (remove_accents example_nfkd [84, 248, 233, 229])
       = remove_accents example_nfkd [84, 248, 233, 229]
   \<and> list_all (\<lambda>c. c < 128) (remove_accents example_nfkd [84, 248, 233, 229])"
  using remove_accents_ascii_idempotent [of example_nfkd "[84, 248, 233, 229]"]
    example_nfkd_ascii
  by (simp add: remove_accents_def replace_cp_def encode_ascii_ignore_def example_nfkd_def)

subsection \<open>Distances to the linked stations\<close>

















subsection \<open>The catalog of a source\<close>

lemma and_then_Inr: "(and_then x f = Inr y) = (\<exists>a. x = Inr a \<and> f a = Inr y)"
  by (cases x) (simp_all add: and_then_def)

lemma and_then_Inl [simp]: "and_then (Inl e) f = Inl e"
  by (simp add: and_then_def)

lemma and_then_Inr_arg [simp]: "and_then (Inr a) f = f a"
  by (simp add: and_then_def)

lemma rename_columns_untouched:
  assumes "c \<notin> fst ` set rename_dict" and "c \<notin> snd ` set rename_dict"
  shows "(c \<in> set (rename_columns rename_dict cols)) = (c \<in> set cols)"
proof
  assume "c \<in> set (rename_columns rename_dict cols)"
  from rename_columns_source [OF this] assms(2) show "c \<in> set cols" by blast
next
  assume c: "c \<in> set cols"
  from assms(1) have "map_of rename_dict c = None" by (simp add: map_of_eq_None_iff)
  with c show "c \<in> set (rename_columns rename_dict cols)" by (rule rename_columns_keeps)
qed

lemma gesla3_columns_has:
  assumes "gesla3_columns cols = Inr cols'"
  shows "set (standard_columns @ time_columns) \<subseteq> set cols'"
  using assms
  by (auto simp: gesla3_columns_def Let_def and_then_Inr standard_columns_def time_columns_def
      rename_columns_untouched dest!: set_drop_columns simp del: set_map del: imageE)

lemma ioc_columns_has:
  assumes "ioc_columns ssc_cols cols = Inr cols'"
  shows "set (standard_columns @ time_columns) \<subseteq> set cols'"
  using assms
  by (auto simp: ioc_columns_def Let_def and_then_Inr standard_columns_def time_columns_def
      dest!: set_drop_columns)

lemma cmems_columns_has:
  assumes "cmems_columns cols = Inr cols'"
  shows "set (standard_columns @ time_columns) \<subseteq> set cols'"
  using assms
  by (auto simp: cmems_columns_def Let_def and_then_Inr standard_columns_def time_columns_def
      rename_columns_untouched dest!: set_drop_columns)

lemma uhslc_columns_has:
  assumes "uhslc_columns cols = Inr cols'"
  shows "set (standard_columns @ time_columns) \<subseteq> set cols'"
proof -
  let ?m = "[(''name'', ''station_name''), (''uhslc_id'', ''station_id'')]"
  have "''station_name'' \<in> set (rename_columns ?m c)" if "''name'' \<in> set c" for c
    using rename_columns_target [of "''name''" c ?m "''station_name''"] that by simp
  moreover have "''station_id'' \<in> set (rename_columns ?m c)" if "''uhslc_id'' \<in> set c" for c
    using rename_columns_target [of "''uhslc_id''" c ?m "''station_id''"] that by simp
  ultimately show ?thesis
    using assms
    by (auto simp: uhslc_columns_def Let_def and_then_Inr standard_columns_def time_columns_def
        rename_columns_untouched)
qed

lemma psmsl_gnssir_columns_has:
  assumes "psmsl_gnssir_columns cols = Inr cols'"
  shows "set standard_columns \<subseteq> set cols'"
  using assms
  by (auto simp: psmsl_gnssir_columns_def Let_def and_then_Inr standard_columns_def
      dest!: set_drop_columns)

lemma rwsddl_columns_has:
  assumes "rwsddl_columns index_name cols = Inr cols'"
  shows "set standard_columns \<subseteq> set cols'"
  using assms
  by (auto simp: rwsddl_columns_def Let_def and_then_Inr standard_columns_def
      split: if_splits)

lemma gtsm3_era5_cds_columns_has:
  assumes "gtsm3_era5_cds_columns cols = Inr cols'"
  shows "set (standard_columns @ time_columns) \<subseteq> set cols'"
  using assms
  by (auto simp: gtsm3_era5_cds_columns_def Let_def and_then_Inr standard_columns_def
      time_columns_def dest!: set_drop_columns)

lemma ssc_read_columns_has:
  assumes "ssc_read_columns cols = Inr cols'"
  shows "set standard_columns \<subseteq> set cols'"
proof -
  from assms obtain d where
    req: "set (ssc_id_columns @ [''name'', ''ssc_id'']) \<subseteq> set cols"
    and d: "drop_columns [''geo:lon'', ''geo:lat'']
              (add_column ''geometry'' (add_column ''station_name_unique'' cols)) = Inr d"
    and c: "cols' = rename_columns [(''name'', ''station_name''), (''ssc_id'', ''station_id'')] d"
    by (auto simp: ssc_read_columns_def split: sum.splits)
  from set_drop_columns [OF d]
  have sd: "set d = insert ''geometry'' (insert ''station_name_unique'' (set cols))
              - {''geo:lon'', ''geo:lat''}" by simp
  from req sd have "''name'' \<in> set d" "''ssc_id'' \<in> set d" by auto
  then have "''station_name'' \<in> set cols'" "''station_id'' \<in> set cols'"
    unfolding c by (auto intro: rename_columns_target)
  moreover from sd have "''geometry'' \<in> set cols'" "''station_name_unique'' \<in> set cols'"
    unfolding c by (simp_all add: rename_columns_untouched)
  ultimately show ?thesis by (simp add: standard_columns_def)
qed


lemma catalog_columns_has:
  assumes "src \<in> set ssh_sources_catalog" and "catalog_columns providers src = Inr cols"
  shows "set standard_columns \<subseteq> set cols
         \<and> (src \<in> set sources_with_time \<longrightarrow> set time_columns \<subseteq> set cols)"
proof -
  from assms(1) have "src = ''ssc'' \<or> src = ''gesla3'' \<or> src = ''ioc'' \<or> src = ''cmems''
    \<or> src = ''cmems-nrt'' \<or> src = ''uhslc'' \<or> src = ''psmsl-gnssir'' \<or> src = ''rwsddl''
    \<or> src = ''gtsm3-era5-cds''"
    by (simp add: ssh_sources_catalog_def)
  then show ?thesis
  proof (elim disjE)
    assume "src = ''ssc''"
    with assms(2) ssc_read_columns_has show ?thesis
      by (simp add: catalog_columns_def sources_with_time_def)
  next
    assume "src = ''gesla3''"
    with assms(2) gesla3_columns_has show ?thesis by (simp add: catalog_columns_def)
  next
    assume "src = ''ioc''"
    with assms(2) ioc_columns_has show ?thesis by (simp add: catalog_columns_def)
  next
    assume "src = ''cmems''"
    with assms(2) cmems_columns_has show ?thesis by (simp add: catalog_columns_def)
  next
    assume "src = ''cmems-nrt''"
    with assms(2) cmems_columns_has show ?thesis by (simp add: catalog_columns_def)
  next
    assume "src = ''uhslc''"
    with assms(2) uhslc_columns_has show ?thesis by (simp add: catalog_columns_def)
  next
    assume "src = ''psmsl-gnssir''"
    with assms(2) psmsl_gnssir_columns_has show ?thesis
      by (simp add: catalog_columns_def sources_with_time_def)
  next
    assume "src = ''rwsddl''"
    with assms(2) rwsddl_columns_has show ?thesis
      by (simp add: catalog_columns_def sources_with_time_def)
  next
    assume "src = ''gtsm3-era5-cds''"
    with assms(2) gtsm3_era5_cds_columns_has show ?thesis by (simp add: catalog_columns_def)
  qed
qed

lemma gettimes_loop_keeps:
  assumes "gettimes_loop daily ids cat = Inr cat'"
  shows "set (columns cat) \<subseteq> set (columns cat') \<and> crs cat' = crs cat
         \<and> map (\<lambda>r. (source r, geometry r)) (rows cat') = map (\<lambda>r. (source r, geometry r)) (rows cat)"
  using assms
proof (induction ids arbitrary: cat)
  case Nil
  then show ?case by simp
next
  case (Cons i ids)
  from Cons.prems obtain a b where
    "gettimes_loop daily ids
       (cat\<lparr>columns := add_column ''time_ndays'' (columns cat),
            rows := map (\<lambda>r. if idx r = i then r\<lparr>time_min := Some a, time_max := Some b\<rparr> else r)
                      (rows cat)\<rparr>) = Inr cat'"
    by (auto simp: and_then_Inr)
  from Cons.IH [OF this] show ?case by (auto simp: comp_def)
qed

lemma gettimes_keeps:
  assumes "psmsl_gnssir_ssh_read_catalog_gettimes daily cat = Inr cat'"
  shows "set (columns cat) \<union> set time_columns \<subseteq> set (columns cat') \<and> crs cat' = crs cat
         \<and> map (\<lambda>r. (source r, geometry r)) (rows cat') = map (\<lambda>r. (source r, geometry r)) (rows cat)"
  using gettimes_loop_keeps [OF assms [unfolded psmsl_gnssir_ssh_read_catalog_gettimes_def]]
  by (auto simp: time_columns_def comp_def)

lemma ssh_catalog_subset_unsupported:
  assumes "src \<notin> Some ` set ssh_sources_catalog"
  shows "ssh_catalog_subset providers daily src lon_min lon_max lat_min lat_max t_min t_max
         = Inl (ValueError ''source for ssh_catalog_subset should be one of ssh_sources'')"
  using assms by (cases src) (auto simp: ssh_catalog_subset_def)

text \<open>
  What every catalog returned by \<open>ssh_catalog_subset\<close> has: the point geometry, in the
  CRS of its reader, the identification columns and the column \<open>source\<close>; the time
  coverage for the sources whose reader provides it and whenever both time bounds were
  passed; stations of the bounding box that carry the source name.
\<close>

lemma ssh_catalog_subset_schema:
  assumes "ssh_catalog_subset providers daily src lon_min lon_max lat_min lat_max t_min t_max = Inr cat"
  shows "\<exists>s. src = Some s \<and> s \<in> set ssh_sources_catalog
        \<and> set (standard_columns @ [''source'']) \<subseteq> set (columns cat)
        \<and> crs cat = (if s = ''uhslc'' then raw_crs (providers s) else Some ''EPSG:4326'')
        \<and> (s \<in> set sources_with_time \<or> (t_min \<noteq> None \<and> t_max \<noteq> None)
             \<longrightarrow> set time_columns \<subseteq> set (columns cat))
        \<and> (\<forall>r \<in> set (rows cat). source r = s
              \<and> in_bbox lon_min lat_min lon_max lat_max (geometry r))"
proof -
  from assms obtain s where s: "src = Some s" and sup: "s \<in> set ssh_sources_catalog"
    by (cases src) (auto simp: ssh_catalog_subset_def split: if_splits)
  from assms s sup obtain cat0 where rd: "catalog_read_func providers s = Inr cat0"
    by (auto simp: ssh_catalog_subset_def and_then_Inr)
  then obtain cols rs where cols: "catalog_columns providers s = Inr cols"
    and cat0: "cat0 = \<lparr>columns = cols, crs = catalog_crs providers s, rows = rs\<rparr>"
    by (auto simp: catalog_read_func_def and_then_Inr)
  define cat1 where "cat1 = cat0
     \<lparr>columns := add_column ''source'' (columns cat0),
      rows := sort_key idx (filter (\<lambda>r. in_bbox lon_min lat_min lon_max lat_max (geometry r))
                              (map (\<lambda>r. r\<lparr>source := s\<rparr>) (rows cat0)))\<rparr>"
  have c1: "set (standard_columns @ [''source'']) \<subseteq> set (columns cat1)"
    and t1: "s \<in> set sources_with_time \<longrightarrow> set time_columns \<subseteq> set (columns cat1)"
    and crs1: "crs cat1 = (if s = ''uhslc'' then raw_crs (providers s) else Some ''EPSG:4326'')"
    and r1: "\<forall>r \<in> set (rows cat1). source r = s \<and> in_bbox lon_min lat_min lon_max lat_max (geometry r)"
    using catalog_columns_has [OF sup cols]
    by (auto simp: cat1_def cat0 catalog_crs_def)
  show ?thesis
  proof (cases "t_min \<noteq> None \<and> t_max \<noteq> None")
    case False
    with assms s sup rd have "cat = cat1"
      by (auto simp: ssh_catalog_subset_def cat1_def Let_def split: option.splits)
    with s sup c1 t1 crs1 r1 False show ?thesis by auto
  next
    case True
    then obtain a b where ab: "t_min = Some a" "t_max = Some b" by auto
    with assms s sup rd obtain cat2 where
      g: "(if s = ''psmsl-gnssir'' then psmsl_gnssir_ssh_read_catalog_gettimes daily cat1
           else Inr cat1) = Inr cat2"
      and tm: "''time_min'' \<in> set (columns cat2)" "''time_max'' \<in> set (columns cat2)"
      and res: "cat = cat2\<lparr>rows := filter (intime a b) (rows cat2)\<rparr>"
      by (auto simp: ssh_catalog_subset_def cat1_def Let_def and_then_Inr split: if_splits)
    have k: "set (columns cat1) \<subseteq> set (columns cat2) \<and> crs cat2 = crs cat1
         \<and> map (\<lambda>r. (source r, geometry r)) (rows cat2) = map (\<lambda>r. (source r, geometry r)) (rows cat1)"
    proof (cases "s = ''psmsl-gnssir''")
      case True
      with g gettimes_keeps [of daily cat1 cat2] show ?thesis by simp
    next
      case False
      with g show ?thesis by simp
    qed
    have r2: "\<forall>r \<in> set (rows cat2). source r = s \<and> in_bbox lon_min lat_min lon_max lat_max (geometry r)"
    proof
      fix r assume "r \<in> set (rows cat2)"
      then have "(source r, geometry r) \<in> (\<lambda>r. (source r, geometry r)) ` set (rows cat2)"
        by (rule imageI)
      then have "(source r, geometry r) \<in> set (map (\<lambda>r. (source r, geometry r)) (rows cat2))"
        by (simp only: set_map)
      with k have "(source r, geometry r) \<in> set (map (\<lambda>r. (source r, geometry r)) (rows cat1))"
        by simp
      then obtain q where "q \<in> set (rows cat1)" "source q = source r" "geometry q = geometry r"
        by auto
      with r1 show "source r = s \<and> in_bbox lon_min lat_min lon_max lat_max (geometry r)" by metis
    qed
    from k c1 have "set (standard_columns @ [''source'']) \<subseteq> set (columns cat)"
      unfolding res by auto
    moreover from tm have "set time_columns \<subseteq> set (columns cat)"
      unfolding res by (simp add: time_columns_def)
    moreover from k crs1 have "crs cat = (if s = ''uhslc'' then raw_crs (providers s) else Some ''EPSG:4326'')"
      unfolding res by simp
    moreover from r2 have "\<forall>r \<in> set (rows cat). source r = s
              \<and> in_bbox lon_min lat_min lon_max lat_max (geometry r)"
      unfolding res by simp
    ultimately show ?thesis using s sup by simp
  qed
qed

text \<open>
  The readers of ssc, psmsl-gnssir and rwsddl add no time coverage: a column
  \<open>time_min\<close> or \<open>time_max\<close> of their catalog is a column of the provider's table
  (for rwsddl: or its index).
\<close>

lemma ssc_read_columns_no_time:
  assumes r: "ssc_read_columns cols = Inr cols'" and t: "c \<in> set time_columns" and c: "c \<in> set cols'"
  shows "c \<in> set cols"
proof -
  from r obtain d where
    d: "drop_columns [''geo:lon'', ''geo:lat'']
          (add_column ''geometry'' (add_column ''station_name_unique'' cols)) = Inr d"
    and e: "cols' = rename_columns [(''name'', ''station_name''), (''ssc_id'', ''station_id'')] d"
    by (auto simp: ssc_read_columns_def split: sum.splits)
  from c e have "c \<in> set (rename_columns [(''name'', ''station_name''), (''ssc_id'', ''station_id'')] d)"
    by simp
  from rename_columns_source [OF this] t have "c \<in> set d"
    by (auto simp: time_columns_def)
  with set_drop_columns [OF d] t show ?thesis by (auto simp: time_columns_def)
qed

lemma psmsl_gnssir_columns_no_time:
  assumes r: "psmsl_gnssir_columns cols = Inr cols'" and t: "c \<in> set time_columns"
    and c: "c \<in> set cols'"
  shows "c \<in> set cols"
proof -
  from r obtain d where
    d: "drop_columns [''Longitude'', ''Latitude'']
          (add_column ''geometry'' (rename_columns [(''CountryCode'', ''country'')] cols)) = Inr d"
    and e: "cols' = add_column ''station_name_unique''
                      (add_column ''station_id'' (add_column ''station_name'' d))"
    by (auto simp: psmsl_gnssir_columns_def Let_def and_then_Inr)
  from c e t have "c \<in> set d" by (auto simp: time_columns_def)
  with set_drop_columns [OF d] t
  have "c \<in> set (rename_columns [(''CountryCode'', ''country'')] cols)"
    by (auto simp: time_columns_def)
  from rename_columns_source [OF this] t show ?thesis by (auto simp: time_columns_def)
qed

lemma rwsddl_columns_no_time:
  assumes r: "rwsddl_columns index_name cols = Inr cols'" and t: "c \<in> set time_columns"
    and c: "c \<in> set cols'"
  shows "c = index_name \<or> c \<in> set cols"
proof -
  from r have "cols' = add_column ''country''
                         (add_column ''station_id''
                            (add_column ''station_name_unique''
                               (add_column ''station_name''
                                  (add_column ''geometry'' (index_name # cols)))))"
    by (auto simp: rwsddl_columns_def Let_def and_then_Inr split: if_splits)
  with c t show ?thesis by (auto simp: time_columns_def)
qed

lemma catalog_columns_no_time:
  assumes s: "s = ''ssc'' \<or> s = ''psmsl-gnssir'' \<or> s = ''rwsddl''"
    and r: "catalog_columns providers s = Inr cols"
    and n: "set time_columns \<inter> set (raw_columns (providers s)) = {}"
    and i: "s = ''rwsddl'' \<longrightarrow> raw_index_name (providers s) \<notin> set time_columns"
  shows "set time_columns \<inter> set cols = {}"
proof (rule ccontr)
  assume "set time_columns \<inter> set cols \<noteq> {}"
  then obtain c where t: "c \<in> set time_columns" and c: "c \<in> set cols" by blast
  from s show False
  proof (elim disjE)
    assume "s = ''ssc''"
    with r have "ssc_read_columns (raw_columns (providers s)) = Inr cols"
      by (simp add: catalog_columns_def)
    from ssc_read_columns_no_time [OF this t c] n t show False by blast
  next
    assume "s = ''psmsl-gnssir''"
    with r have "psmsl_gnssir_columns (raw_columns (providers s)) = Inr cols"
      by (simp add: catalog_columns_def)
    from psmsl_gnssir_columns_no_time [OF this t c] n t show False by blast
  next
    assume e: "s = ''rwsddl''"
    with r have "rwsddl_columns (raw_index_name (providers s)) (raw_columns (providers s)) = Inr cols"
      by (simp add: catalog_columns_def)
    from rwsddl_columns_no_time [OF this t c] n t i e show False by blast
  qed
qed

lemma ssh_catalog_subset_no_time:
  assumes ret: "ssh_catalog_subset providers daily (Some s) lon_min lon_max lat_min lat_max t_min t_max
                = Inr cat"
    and s: "s = ''ssc'' \<or> s = ''psmsl-gnssir'' \<or> s = ''rwsddl''"
    and b: "t_min = None \<or> t_max = None"
    and n: "set time_columns \<inter> set (raw_columns (providers s)) = {}"
    and i: "s = ''rwsddl'' \<longrightarrow> raw_index_name (providers s) \<notin> set time_columns"
  shows "set time_columns \<inter> set (columns cat) = {}"
proof -
  from s have sup: "s \<in> set ssh_sources_catalog" by (auto simp: ssh_sources_catalog_def)
  from ret sup obtain cat0 where rd: "catalog_read_func providers s = Inr cat0"
    by (auto simp: ssh_catalog_subset_def and_then_Inr)
  then obtain cols where cols: "catalog_columns providers s = Inr cols"
    and c0: "columns cat0 = cols"
    by (auto simp: catalog_read_func_def and_then_Inr)
  from ret sup rd b have "columns cat = add_column ''source'' (columns cat0)"
    by (auto simp: ssh_catalog_subset_def Let_def split: option.splits)
  with catalog_columns_no_time [OF s cols n i] c0 show ?thesis
    by (auto simp: time_columns_def)
qed

lemma ssh_catalog_subset_time_range_KeyError:
  assumes rd: "catalog_read_func providers s = Inr cat0"
    and s: "s = ''ssc'' \<or> s = ''rwsddl''"
    and n: "set time_columns \<inter> set (raw_columns (providers s)) = {}"
    and i: "s = ''rwsddl'' \<longrightarrow> raw_index_name (providers s) \<notin> set time_columns"
  shows "ssh_catalog_subset providers daily (Some s) lon_min lon_max lat_min lat_max (Some a) (Some b)
         = Inl (KeyError ''ssh_catalog_gpd does not contain time_min and time_max'')"
proof -
  from s have sup: "s \<in> set ssh_sources_catalog" and p: "s \<noteq> ''psmsl-gnssir''"
    by (auto simp: ssh_sources_catalog_def)
  from rd obtain cols where cols: "catalog_columns providers s = Inr cols"
    and c0: "columns cat0 = cols"
    by (auto simp: catalog_read_func_def and_then_Inr)
  from s have "s = ''ssc'' \<or> s = ''psmsl-gnssir'' \<or> s = ''rwsddl''" by blast
  from catalog_columns_no_time [OF this cols n i] c0
  have "''time_min'' \<notin> set (add_column ''source'' (columns cat0))"
    by (auto simp: time_columns_def)
  with sup p rd show ?thesis
    by (simp add: ssh_catalog_subset_def Let_def)
qed

text \<open>
  Claim C4, as the code has it. A catalog returned by \<open>ssh_catalog_subset\<close> is that of
  one of the nine sources; it has the point geometry, the identification columns
  \<open>station_name\<close>, \<open>station_id\<close>, \<open>station_name_unique\<close> and the column
  \<open>source\<close>, every station of it lies in the bounding box and carries the source name.
  Its CRS is EPSG:4326, for uhslc if that is the CRS of the GeoJSON file that was read.
  It has the time coverage \<open>time_min\<close> and \<open>time_max\<close> for the sources gesla3, ioc,
  cmems, cmems-nrt, uhslc and gtsm3-era5-cds, and whenever both time bounds were passed.
  For the other sources (ssc, psmsl-gnssir, rwsddl) without the two bounds it has neither
  column, if the table of the provider has no column of these names (for rwsddl: and no
  index of these names). If the catalog of ssc or rwsddl is read from such a table and
  both time bounds are passed, \<open>KeyError\<close> is raised.
\<close>

theorem ssh_catalog_subset_columns:
  "(ssh_catalog_subset providers daily src lon_min lon_max lat_min lat_max t_min t_max = Inr cat \<longrightarrow>
      (\<exists>s. src = Some s \<and> s \<in> set ssh_sources_catalog
         \<and> set (standard_columns @ [''source'']) \<subseteq> set (columns cat)
         \<and> ((s = ''uhslc'' \<longrightarrow> raw_crs (providers s) = Some ''EPSG:4326'')
              \<longrightarrow> crs cat = Some ''EPSG:4326'')
         \<and> (s \<in> set sources_with_time \<or> (t_min \<noteq> None \<and> t_max \<noteq> None)
              \<longrightarrow> set time_columns \<subseteq> set (columns cat))
         \<and> (s \<notin> set sources_with_time \<and> (t_min = None \<or> t_max = None)
              \<and> set time_columns \<inter> set (raw_columns (providers s)) = {}
              \<and> (s = ''rwsddl'' \<longrightarrow> raw_index_name (providers s) \<notin> set time_columns)
              \<longrightarrow> set time_columns \<inter> set (columns cat) = {})
         \<and> (\<forall>r \<in> set (rows cat). source r = s
               \<and> in_bbox lon_min lat_min lon_max lat_max (geometry r))))
   \<and> (\<forall>s cat0 a b.
         src = Some s \<and> (s = ''ssc'' \<or> s = ''rwsddl'') \<and> t_min = Some a \<and> t_max = Some b
         \<and> catalog_read_func providers s = Inr cat0
         \<and> set time_columns \<inter> set (raw_columns (providers s)) = {}
         \<and> (s = ''rwsddl'' \<longrightarrow> raw_index_name (providers s) \<notin> set time_columns)
         \<longrightarrow> ssh_catalog_subset providers daily src lon_min lon_max lat_min lat_max t_min t_max
             = Inl (KeyError ''ssh_catalog_gpd does not contain time_min and time_max''))"
proof (intro conjI impI allI)
  assume ret: "ssh_catalog_subset providers daily src lon_min lon_max lat_min lat_max t_min t_max
               = Inr cat"
  from ssh_catalog_subset_schema [OF ret] obtain s where
    s: "src = Some s" "s \<in> set ssh_sources_catalog"
    and c: "set (standard_columns @ [''source'']) \<subseteq> set (columns cat)"
    and g: "crs cat = (if s = ''uhslc'' then raw_crs (providers s) else Some ''EPSG:4326'')"
    and t: "s \<in> set sources_with_time \<or> (t_min \<noteq> None \<and> t_max \<noteq> None)
              \<longrightarrow> set time_columns \<subseteq> set (columns cat)"
    and r: "\<forall>r \<in> set (rows cat). source r = s
               \<and> in_bbox lon_min lat_min lon_max lat_max (geometry r)"
    by (elim exE conjE)
  from g have g': "(s = ''uhslc'' \<longrightarrow> raw_crs (providers s) = Some ''EPSG:4326'')
                    \<longrightarrow> crs cat = Some ''EPSG:4326''"
    by simp
  have n: "s \<notin> set sources_with_time \<and> (t_min = None \<or> t_max = None)
              \<and> set time_columns \<inter> set (raw_columns (providers s)) = {}
              \<and> (s = ''rwsddl'' \<longrightarrow> raw_index_name (providers s) \<notin> set time_columns)
              \<longrightarrow> set time_columns \<inter> set (columns cat) = {}"
  proof (intro impI, elim conjE)
    assume w: "s \<notin> set sources_with_time" and b: "t_min = None \<or> t_max = None"
      and n: "set time_columns \<inter> set (raw_columns (providers s)) = {}"
      and i: "s = ''rwsddl'' \<longrightarrow> raw_index_name (providers s) \<notin> set time_columns"
    from s(2) w have "s = ''ssc'' \<or> s = ''psmsl-gnssir'' \<or> s = ''rwsddl''"
      by (simp add: ssh_sources_catalog_def sources_with_time_def)
    from ssh_catalog_subset_no_time [OF ret [unfolded s(1)] this b n i]
    show "set time_columns \<inter> set (columns cat) = {}" .
  qed
  from s c g' t n r
  show "\<exists>s. src = Some s \<and> s \<in> set ssh_sources_catalog
         \<and> set (standard_columns @ [''source'']) \<subseteq> set (columns cat)
         \<and> ((s = ''uhslc'' \<longrightarrow> raw_crs (providers s) = Some ''EPSG:4326'')
              \<longrightarrow> crs cat = Some ''EPSG:4326'')
         \<and> (s \<in> set sources_with_time \<or> (t_min \<noteq> None \<and> t_max \<noteq> None)
              \<longrightarrow> set time_columns \<subseteq> set (columns cat))
         \<and> (s \<notin> set sources_with_time \<and> (t_min = None \<or> t_max = None)
              \<and> set time_columns \<inter> set (raw_columns (providers s)) = {}
              \<and> (s = ''rwsddl'' \<longrightarrow> raw_index_name (providers s) \<notin> set time_columns)
              \<longrightarrow> set time_columns \<inter> set (columns cat) = {})
         \<and> (\<forall>r \<in> set (rows cat). source r = s
               \<and> in_bbox lon_min lat_min lon_max lat_max (geometry r))"
    by (intro exI [of _ s] conjI)
next
  fix s cat0 a b
  assume h: "src = Some s \<and> (s = ''ssc'' \<or> s = ''rwsddl'') \<and> t_min = Some a \<and> t_max = Some b
         \<and> catalog_read_func providers s = Inr cat0
         \<and> set time_columns \<inter> set (raw_columns (providers s)) = {}
         \<and> (s = ''rwsddl'' \<longrightarrow> raw_index_name (providers s) \<notin> set time_columns)"
  then have e: "src = Some s" "t_min = Some a" "t_max = Some b"
    and s: "s = ''ssc'' \<or> s = ''rwsddl''"
    and rd: "catalog_read_func providers s = Inr cat0"
    and n: "set time_columns \<inter> set (raw_columns (providers s)) = {}"
    and i: "s = ''rwsddl'' \<longrightarrow> raw_index_name (providers s) \<notin> set time_columns"
    by simp_all
  show "ssh_catalog_subset providers daily src lon_min lon_max lat_min lat_max t_min t_max
        = Inl (KeyError ''ssh_catalog_gpd does not contain time_min and time_max'')"
    unfolding e by (rule ssh_catalog_subset_time_range_KeyError [OF rd s n i])
qed

text \<open>
  The example providers: the source gtsm3-era5-cds with a time range, and the sources
  uhslc, ssc, psmsl-gnssir and rwsddl.
\<close>

lemma example_gtsm3_columns:
  "gtsm3_era5_cds_columns [''station_id'', ''station_name'', ''lon'', ''lat''] =
     Inr [''station_id'', ''station_name'', ''geometry'', ''station_name_unique'', ''country'',
          ''time_min'', ''time_max'', ''time_ndays'']"
  by (simp add: gtsm3_era5_cds_columns_def require_columns_def drop_columns_def add_column_def)

lemma example_subset_gtsm3:
  "\<exists>cat. ssh_catalog_subset example_providers example_daily (Some ''gtsm3-era5-cds'')
            (- 180) 180 (- 90) 90 (Some 50) (Some 150) = Inr cat
         \<and> map idx (rows cat) = [2]
         \<and> columns cat = [''station_id'', ''station_name'', ''geometry'', ''station_name_unique'',
              ''country'', ''time_min'', ''time_max'', ''time_ndays'', ''source'']
         \<and> crs cat = Some ''EPSG:4326''"
  by (simp add: ssh_catalog_subset_def ssh_sources_catalog_def catalog_read_func_def
      catalog_columns_def catalog_crs_def example_providers_def example_gtsm3_columns
      example_points_def in_bbox_def intime_def add_column_def require_columns_def Let_def)

lemma example_subset_ssc:
  "\<exists>cat. ssh_catalog_subset example_providers example_daily (Some ''ssc'')
            (- 180) 180 (- 90) 90 None None = Inr cat
         \<and> map idx (rows cat) = [1, 2]
         \<and> ''time_min'' \<notin> set (columns cat) \<and> ''time_max'' \<notin> set (columns cat)"
  by (simp add: ssh_catalog_subset_def ssh_sources_catalog_def catalog_read_func_def
      catalog_columns_def catalog_crs_def example_providers_def example_read_columns
      example_points_def in_bbox_def add_column_def Let_def)

lemma example_subset_ssc_times:
  "ssh_catalog_subset example_providers example_daily (Some ''ssc'')
            (- 180) 180 (- 90) 90 (Some 50) (Some 150)
     = Inl (KeyError ''ssh_catalog_gpd does not contain time_min and time_max'')"
  by (simp add: ssh_catalog_subset_def ssh_sources_catalog_def catalog_read_func_def
      catalog_columns_def catalog_crs_def example_providers_def example_read_columns
      example_points_def in_bbox_def add_column_def Let_def)

lemma example_uhslc_columns:
  "uhslc_columns [''uhslc_id'', ''name'', ''rq_span'', ''fd_span'', ''geometry''] =
     Inr [''station_id'', ''station_name'', ''rq_span'', ''fd_span'', ''geometry'', ''time_min'',
          ''time_max'', ''station_name_unique'', ''time_ndays'']"
  by (simp add: uhslc_columns_def require_columns_def add_column_def rename_columns_def)

lemma example_psmsl_columns:
  "psmsl_gnssir_columns [''Code'', ''Longitude'', ''Latitude'', ''CountryCode''] =
     Inr [''Code'', ''country'', ''geometry'', ''station_name'', ''station_id'',
          ''station_name_unique'']"
  by (simp add: psmsl_gnssir_columns_def require_columns_def add_column_def rename_columns_def
      drop_columns_def)

lemma example_rwsddl_columns:
  "rwsddl_columns ''Code'' [''Naam'', ''X'', ''Y'', ''Coordinatenstelsel'', ''Grootheid.Code'',
                            ''Groepering.Code''] =
     Inr [''Code'', ''Naam'', ''X'', ''Y'', ''Coordinatenstelsel'', ''Grootheid.Code'',
          ''Groepering.Code'', ''geometry'', ''station_name'', ''station_name_unique'',
          ''station_id'', ''country'']"
  by (simp add: rwsddl_columns_def require_columns_def add_column_def)

lemma example_subset_uhslc:
  "\<exists>cat. ssh_catalog_subset example_providers example_daily (Some ''uhslc'')
            (- 180) 180 (- 90) 90 None None = Inr cat
         \<and> map idx (rows cat) = [1, 2]"
  by (simp add: ssh_catalog_subset_def ssh_sources_catalog_def catalog_read_func_def
      catalog_columns_def catalog_crs_def example_providers_def example_uhslc_columns
      example_points_def in_bbox_def add_column_def Let_def)

lemma example_subset_psmsl:
  "\<exists>cat. ssh_catalog_subset example_providers example_daily (Some ''psmsl-gnssir'')
            (- 180) 180 (- 90) 90 None None = Inr cat
         \<and> map idx (rows cat) = [1, 2]
         \<and> ''time_min'' \<notin> set (columns cat) \<and> ''time_max'' \<notin> set (columns cat)"
  by (simp add: ssh_catalog_subset_def ssh_sources_catalog_def catalog_read_func_def
      catalog_columns_def catalog_crs_def example_providers_def example_psmsl_columns
      example_points_def in_bbox_def add_column_def Let_def)

lemma example_subset_psmsl_times:
  "\<exists>cat. ssh_catalog_subset example_providers example_daily (Some ''psmsl-gnssir'')
            (- 180) 180 (- 90) 90 (Some 5) (Some 150) = Inr cat
         \<and> map idx (rows cat) = [1, 2]
         \<and> map time_min (rows cat) = [Some 0, Some 0] \<and> map time_max (rows cat) = [Some 10, Some 10]"
  by (simp add: ssh_catalog_subset_def ssh_sources_catalog_def catalog_read_func_def
      catalog_columns_def catalog_crs_def example_providers_def example_psmsl_columns
      example_points_def in_bbox_def intime_def add_column_def require_columns_def Let_def
      psmsl_gnssir_ssh_read_catalog_gettimes_def example_daily_def)

lemma example_subset_rwsddl:
  "\<exists>cat. ssh_catalog_subset example_providers example_daily (Some ''rwsddl'')
            (- 180) 180 (- 90) 90 None None = Inr cat
         \<and> map idx (rows cat) = [1, 2]
         \<and> ''time_min'' \<notin> set (columns cat) \<and> ''time_max'' \<notin> set (columns cat)"
  by (simp add: ssh_catalog_subset_def ssh_sources_catalog_def catalog_read_func_def
      catalog_columns_def catalog_crs_def example_providers_def example_rwsddl_columns
      example_points_def in_bbox_def add_column_def Let_def)

lemma example_read_rwsddl:
  "\<exists>cat0. catalog_read_func example_providers ''rwsddl'' = Inr cat0"
  by (simp add: catalog_read_func_def catalog_columns_def example_providers_def
      example_rwsddl_columns)

lemma example_read_ssc:
  "\<exists>cat0. catalog_read_func example_providers ''ssc'' = Inr cat0"
  by (simp add: catalog_read_func_def catalog_columns_def example_providers_def
      example_read_columns)

lemma example_no_time_labels:
  "set time_columns \<inter> set (raw_columns (example_providers ''ssc'')) = {}"
  "set time_columns \<inter> set (raw_columns (example_providers ''psmsl-gnssir'')) = {}"
  "set time_columns \<inter> set (raw_columns (example_providers ''rwsddl'')) = {}"
  "raw_index_name (example_providers ''rwsddl'') \<notin> set time_columns"
  by (simp_all add: time_columns_def example_providers_def example_ssc_columns_def)

theorem ssh_catalog_subset_columns_witness:
  "(\<exists>cat. ssh_catalog_subset example_providers example_daily (Some ''gtsm3-era5-cds'')
            (- 180) 180 (- 90) 90 (Some 50) (Some 150) = Inr cat
         \<and> set (standard_columns @ [''source'']) \<subseteq> set (columns cat)
         \<and> set time_columns \<subseteq> set (columns cat)
         \<and> crs cat = Some ''EPSG:4326''
         \<and> map idx (rows cat) = [2])
   \<and> (\<exists>cat. ssh_catalog_subset example_providers example_daily (Some ''uhslc'')
            (- 180) 180 (- 90) 90 None None = Inr cat
         \<and> crs cat = Some ''EPSG:4326'' \<and> set time_columns \<subseteq> set (columns cat))
   \<and> (\<exists>cat. ssh_catalog_subset example_providers example_daily (Some ''psmsl-gnssir'')
            (- 180) 180 (- 90) 90 (Some 5) (Some 150) = Inr cat
         \<and> set time_columns \<subseteq> set (columns cat))
   \<and> (\<exists>cat. ssh_catalog_subset example_providers example_daily (Some ''ssc'')
            (- 180) 180 (- 90) 90 None None = Inr cat
         \<and> set time_columns \<inter> set (columns cat) = {})
   \<and> (\<exists>cat. ssh_catalog_subset example_providers example_daily (Some ''psmsl-gnssir'')
            (- 180) 180 (- 90) 90 None None = Inr cat
         \<and> set time_columns \<inter> set (columns cat) = {})
   \<and> (\<exists>cat. ssh_catalog_subset example_providers example_daily (Some ''rwsddl'')
            (- 180) 180 (- 90) 90 None None = Inr cat
         \<and> set time_columns \<inter> set (columns cat) = {})
   \<and> ssh_catalog_subset example_providers example_daily (Some ''ssc'')
            (- 180) 180 (- 90) 90 (Some 50) (Some 150)
       = Inl (KeyError ''ssh_catalog_gpd does not contain time_min and time_max'')
   \<and> ssh_catalog_subset example_providers example_daily (Some ''rwsddl'')
            (- 180) 180 (- 90) 90 (Some 50) (Some 150)
       = Inl (KeyError ''ssh_catalog_gpd does not contain time_min and time_max'')"
proof (intro conjI)
  from example_subset_gtsm3 obtain cat where
    ok: "ssh_catalog_subset example_providers example_daily (Some ''gtsm3-era5-cds'')
            (- 180) 180 (- 90) 90 (Some 50) (Some 150) = Inr cat"
    and r: "map idx (rows cat) = [2]" by (elim exE conjE)
  from ssh_catalog_subset_columns [THEN conjunct1, rule_format, OF ok]
  have "set (standard_columns @ [''source'']) \<subseteq> set (columns cat)
        \<and> set time_columns \<subseteq> set (columns cat) \<and> crs cat = Some ''EPSG:4326''"
    by (simp add: sources_with_time_def)
  with ok r show "\<exists>cat. ssh_catalog_subset example_providers example_daily (Some ''gtsm3-era5-cds'')
            (- 180) 180 (- 90) 90 (Some 50) (Some 150) = Inr cat
         \<and> set (standard_columns @ [''source'']) \<subseteq> set (columns cat)
         \<and> set time_columns \<subseteq> set (columns cat)
         \<and> crs cat = Some ''EPSG:4326''
         \<and> map idx (rows cat) = [2]"
    by (intro exI [of _ cat]) simp
next
  from example_subset_uhslc obtain cat where
    ok: "ssh_catalog_subset example_providers example_daily (Some ''uhslc'')
            (- 180) 180 (- 90) 90 None None = Inr cat" by (elim exE conjE)
  have g: "raw_crs (example_providers ''uhslc'') = Some ''EPSG:4326''"
    by (simp add: example_providers_def)
  from ssh_catalog_subset_columns [THEN conjunct1, rule_format, OF ok] g
  have "crs cat = Some ''EPSG:4326'' \<and> set time_columns \<subseteq> set (columns cat)"
    by (simp add: sources_with_time_def)
  with ok show "\<exists>cat. ssh_catalog_subset example_providers example_daily (Some ''uhslc'')
            (- 180) 180 (- 90) 90 None None = Inr cat
         \<and> crs cat = Some ''EPSG:4326'' \<and> set time_columns \<subseteq> set (columns cat)"
    by (intro exI [of _ cat]) simp
next
  from example_subset_psmsl_times obtain cat where
    ok: "ssh_catalog_subset example_providers example_daily (Some ''psmsl-gnssir'')
            (- 180) 180 (- 90) 90 (Some 5) (Some 150) = Inr cat" by (elim exE conjE)
  from ssh_catalog_subset_columns [THEN conjunct1, rule_format, OF ok]
  have "set time_columns \<subseteq> set (columns cat)" by simp
  with ok show "\<exists>cat. ssh_catalog_subset example_providers example_daily (Some ''psmsl-gnssir'')
            (- 180) 180 (- 90) 90 (Some 5) (Some 150) = Inr cat
         \<and> set time_columns \<subseteq> set (columns cat)"
    by (intro exI [of _ cat]) simp
next
  from example_subset_ssc obtain cat where
    ok: "ssh_catalog_subset example_providers example_daily (Some ''ssc'')
            (- 180) 180 (- 90) 90 None None = Inr cat" by (elim exE conjE)
  from ssh_catalog_subset_columns [THEN conjunct1, rule_format, OF ok] example_no_time_labels
  have "set time_columns \<inter> set (columns cat) = {}"
    by (simp add: sources_with_time_def)
  with ok show "\<exists>cat. ssh_catalog_subset example_providers example_daily (Some ''ssc'')
            (- 180) 180 (- 90) 90 None None = Inr cat
         \<and> set time_columns \<inter> set (columns cat) = {}"
    by (intro exI [of _ cat]) simp
next
  from example_subset_psmsl obtain cat where
    ok: "ssh_catalog_subset example_providers example_daily (Some ''psmsl-gnssir'')
            (- 180) 180 (- 90) 90 None None = Inr cat" by (elim exE conjE)
  from ssh_catalog_subset_columns [THEN conjunct1, rule_format, OF ok] example_no_time_labels
  have "set time_columns \<inter> set (columns cat) = {}"
    by (simp add: sources_with_time_def)
  with ok show "\<exists>cat. ssh_catalog_subset example_providers example_daily (Some ''psmsl-gnssir'')
            (- 180) 180 (- 90) 90 None None = Inr cat
         \<and> set time_columns \<inter> set (columns cat) = {}"
    by (intro exI [of _ cat]) simp
next
  from example_subset_rwsddl obtain cat where
    ok: "ssh_catalog_subset example_providers example_daily (Some ''rwsddl'')
            (- 180) 180 (- 90) 90 None None = Inr cat" by (elim exE conjE)
  from ssh_catalog_subset_columns [THEN conjunct1, rule_format, OF ok] example_no_time_labels
  have "set time_columns \<inter> set (columns cat) = {}"
    by (simp add: sources_with_time_def)
  with ok show "\<exists>cat. ssh_catalog_subset example_providers example_daily (Some ''rwsddl'')
            (- 180) 180 (- 90) 90 None None = Inr cat
         \<and> set time_columns \<inter> set (columns cat) = {}"
    by (intro exI [of _ cat]) simp
next
  from example_read_ssc obtain cat0 where
    rd: "catalog_read_func example_providers ''ssc'' = Inr cat0" by (elim exE)
  from ssh_catalog_subset_columns
    [where src = "Some ''ssc''" and providers = example_providers and t_min = "Some 50"
       and t_max = "Some 150", THEN conjunct2, rule_format, of "''ssc''" 50 150 cat0]
    rd example_no_time_labels
  show "ssh_catalog_subset example_providers example_daily (Some ''ssc'')
            (- 180) 180 (- 90) 90 (Some 50) (Some 150)
        = Inl (KeyError ''ssh_catalog_gpd does not contain time_min and time_max'')"
    by simp
next
  from example_read_rwsddl obtain cat0 where
    rd: "catalog_read_func example_providers ''rwsddl'' = Inr cat0" by (elim exE)
  from ssh_catalog_subset_columns
    [where src = "Some ''rwsddl''" and providers = example_providers and t_min = "Some 50"
       and t_max = "Some 150", THEN conjunct2, rule_format, of "''rwsddl''" 50 150 cat0]
    rd example_no_time_labels
  show "ssh_catalog_subset example_providers example_daily (Some ''rwsddl'')
            (- 180) 180 (- 90) 90 (Some 50) (Some 150)
        = Inl (KeyError ''ssh_catalog_gpd does not contain time_min and time_max'')"
    by simp
qed

text \<open>
  The claim as stated fails for the sources ssc, psmsl-gnssir and rwsddl: their catalog
  has no time coverage, and asking ssc for a time range raises the \<open>KeyError\<close> the code
  has for such a catalog.
\<close>

theorem ssh_catalog_subset_counterexample:
  "(\<exists>cat. ssh_catalog_subset example_providers example_daily (Some ''ssc'')
            (- 180) 180 (- 90) 90 None None = Inr cat
         \<and> ''time_min'' \<notin> set (columns cat) \<and> ''time_max'' \<notin> set (columns cat))
   \<and> (\<exists>cat. ssh_catalog_subset example_providers example_daily (Some ''psmsl-gnssir'')
            (- 180) 180 (- 90) 90 None None = Inr cat
         \<and> ''time_min'' \<notin> set (columns cat) \<and> ''time_max'' \<notin> set (columns cat))
   \<and> (\<exists>cat. ssh_catalog_subset example_providers example_daily (Some ''rwsddl'')
            (- 180) 180 (- 90) 90 None None = Inr cat
         \<and> ''time_min'' \<notin> set (columns cat) \<and> ''time_max'' \<notin> set (columns cat))
   \<and> ssh_catalog_subset example_providers example_daily (Some ''ssc'')
            (- 180) 180 (- 90) 90 (Some 50) (Some 150)
       = Inl (KeyError ''ssh_catalog_gpd does not contain time_min and time_max'')"
proof (intro conjI)
  from example_subset_ssc obtain cat where
    "ssh_catalog_subset example_providers example_daily (Some ''ssc'')
       (- 180) 180 (- 90) 90 None None = Inr cat"
    "''time_min'' \<notin> set (columns cat)" "''time_max'' \<notin> set (columns cat)"
    by (elim exE conjE)
  then show "\<exists>cat. ssh_catalog_subset example_providers example_daily (Some ''ssc'')
            (- 180) 180 (- 90) 90 None None = Inr cat
         \<and> ''time_min'' \<notin> set (columns cat) \<and> ''time_max'' \<notin> set (columns cat)"
    by (intro exI [of _ cat]) simp
next
  from example_subset_psmsl obtain cat where
    "ssh_catalog_subset example_providers example_daily (Some ''psmsl-gnssir'')
       (- 180) 180 (- 90) 90 None None = Inr cat"
    "''time_min'' \<notin> set (columns cat)" "''time_max'' \<notin> set (columns cat)"
    by (elim exE conjE)
  then show "\<exists>cat. ssh_catalog_subset example_providers example_daily (Some ''psmsl-gnssir'')
            (- 180) 180 (- 90) 90 None None = Inr cat
         \<and> ''time_min'' \<notin> set (columns cat) \<and> ''time_max'' \<notin> set (columns cat)"
    by (intro exI [of _ cat]) simp
next
  from example_subset_rwsddl obtain cat where
    "ssh_catalog_subset example_providers example_daily (Some ''rwsddl'')
       (- 180) 180 (- 90) 90 None None = Inr cat"
    "''time_min'' \<notin> set (columns cat)" "''time_max'' \<notin> set (columns cat)"
    by (elim exE conjE)
  then show "\<exists>cat. ssh_catalog_subset example_providers example_daily (Some ''rwsddl'')
            (- 180) 180 (- 90) 90 None None = Inr cat
         \<and> ''time_min'' \<notin> set (columns cat) \<and> ''time_max'' \<notin> set (columns cat)"
    by (intro exI [of _ cat]) simp
next
  show "ssh_catalog_subset example_providers example_daily (Some ''ssc'')
            (- 180) 180 (- 90) 90 (Some 50) (Some 150)
        = Inl (KeyError ''ssh_catalog_gpd does not contain time_min and time_max'')"
    by (rule example_subset_ssc_times)
qed

subsection \<open>The files written by \<open>ssh_retrieve_data\<close>\<close>

lemma get_var_Inr: "(get_var ds n = Inr v) = (map_of (ds_vars ds) n = Some v)"
  by (simp add: get_var_def split: option.splits)

lemma get_attr_Inr: "(get_attr attrs n = Inr a) = (map_of attrs n = Some a)"
  by (simp add: get_attr_def split: option.splits)

lemma astype_S64_name:
  "astype_S64 (AName n) = Inr c \<Longrightarrow> c = Txt (take 64 (ascii_str n))"
  by (simp split: if_splits)

lemma as_number_Inr: "as_number a = Inr c \<Longrightarrow> \<exists>x. a = ANum x \<and> c = Num x"
  by (cases a) simp_all

lemma keys_update: "fst ` set (AList.update k v al) = insert k (fst ` set al)"
  by (induction al) auto

lemma make_hydrotools_consistent_result:
  assumes ok: "make_hydrotools_consistent ds = Inr ds'"
    and a1: "map_of (ds_attrs ds) ''station_name'' = Some (AName nm)"
    and a2: "map_of (ds_attrs ds) ''station_id'' = Some (AId i)"
    and a3: "map_of (ds_attrs ds) ''longitude'' = Some (ANum x)"
    and a4: "map_of (ds_attrs ds) ''latitude'' = Some (ANum y)"
  shows "''waterlevel'' \<in> set (data_vars ds')
      \<and> (\<exists>wl. map_of (ds_vars ds') ''waterlevel'' = Some wl
               \<and> map_of (v_attrs wl) ''units'' = Some (AStr ''m''))
      \<and> ''time'' \<in> set (variables ds') \<and> ''time'' \<in> set (dims ds')
      \<and> set [''station_name'', ''station_id'', ''station_x_coordinate'', ''station_y_coordinate'']
           \<subseteq> set (ds_coords ds')
      \<and> map_of (ds_vars ds') ''station_name'' = Some (scalar_var (Txt (take 64 (ascii_str nm))) [])
      \<and> map_of (ds_vars ds') ''station_id'' = Some (scalar_var (Txt (take 64 (py_str i))) [])
      \<and> map_of (ds_vars ds') ''station_x_coordinate''
           = Some (scalar_var (Num x)
                     [(''standard_name'', AStr ''longitude''), (''units'', AStr ''degrees_east'')])
      \<and> map_of (ds_vars ds') ''station_y_coordinate''
           = Some (scalar_var (Num y)
                     [(''standard_name'', AStr ''latitude''), (''units'', AStr ''degrees_north'')])
      \<and> ds_attrs ds' = ds_attrs ds"
proof -
  from ok have t: "''time'' \<in> set (variables ds)" "''time'' \<in> set (dims ds)"
    and w: "''waterlevel'' \<in> set (data_vars ds)"
    by (auto simp: make_hydrotools_consistent_def split: if_splits)
  from ok t w obtain wl where wl: "map_of (ds_vars ds) ''waterlevel'' = Some wl"
    and u: "map_of (v_attrs wl) ''units'' = Some (AStr ''m'')"
    by (auto simp: make_hydrotools_consistent_def and_then_Inr get_var_Inr split: if_splits)
  from ok t w wl u a1 a2 a3 a4 obtain sn where sn: "astype_S64 (AName nm) = Inr sn"
    and ds': "ds' = ds\<lparr>ds_vars :=
         AList.update ''station_y_coordinate''
           (scalar_var (Num y) [(''standard_name'', AStr ''latitude''), (''units'', AStr ''degrees_north'')])
           (AList.update ''station_x_coordinate''
              (scalar_var (Num x) [(''standard_name'', AStr ''longitude''), (''units'', AStr ''degrees_east'')])
              (AList.update ''station_id'' (scalar_var (Txt (take 64 (py_str i))) [])
                 (AList.update ''station_name'' (scalar_var sn []) (ds_vars ds)))),
       ds_coords := ds_coords ds @ filter (\<lambda>c. c \<notin> set (ds_coords ds))
          [''station_name'', ''station_id'', ''station_x_coordinate'', ''station_y_coordinate'']\<rparr>"
    by (auto simp: make_hydrotools_consistent_def and_then_Inr get_var_Inr get_attr_Inr Let_def
        get_var_def get_attr_def split: if_splits)
  from astype_S64_name [OF sn] have sn': "sn = Txt (take 64 (ascii_str nm))" .
  have vars: "set (variables ds') = set (variables ds) \<union>
     {''station_name'', ''station_id'', ''station_x_coordinate'', ''station_y_coordinate''}"
    unfolding ds' variables_def by (simp add: keys_update insert_commute)
  from w have wv: "''waterlevel'' \<in> set (variables ds)" "''waterlevel'' \<notin> set (ds_coords ds)"
    by (simp_all add: data_vars_def)
  have "''waterlevel'' \<in> set (data_vars ds')"
    using wv vars by (simp add: data_vars_def) (simp add: ds')
  moreover have "map_of (ds_vars ds') ''waterlevel'' = Some wl"
    using wl by (simp add: ds' update_conv')
  moreover have "''time'' \<in> set (variables ds')" using t vars by simp
  moreover have "''time'' \<in> set (dims ds')" using t by (simp add: ds' dims_def)
  moreover have "set [''station_name'', ''station_id'', ''station_x_coordinate'', ''station_y_coordinate'']
           \<subseteq> set (ds_coords ds')"
    by (auto simp: ds')
  moreover have "map_of (ds_vars ds') ''station_name'' = Some (scalar_var (Txt (take 64 (ascii_str nm))) [])"
    "map_of (ds_vars ds') ''station_id'' = Some (scalar_var (Txt (take 64 (py_str i))) [])"
    "map_of (ds_vars ds') ''station_x_coordinate''
           = Some (scalar_var (Num x)
                     [(''standard_name'', AStr ''longitude''), (''units'', AStr ''degrees_east'')])"
    "map_of (ds_vars ds') ''station_y_coordinate''
           = Some (scalar_var (Num y)
                     [(''standard_name'', AStr ''latitude''), (''units'', AStr ''degrees_north'')])"
    by (simp_all add: ds' sn' update_conv')
  moreover have "ds_attrs ds' = ds_attrs ds" by (simp add: ds')
  ultimately show ?thesis using u by simp
qed


lemma retrieve_one_result:
  assumes "retrieve_one f cols dir_output t_min t_max row files = Inr files'"
  shows "(f row t_min t_max = Inr None \<and> files' = files)
       \<or> (\<exists>ds0 ds. f row t_min t_max = Inr (Some ds0)
                  \<and> files' = files @ [(file_out dir_output row, ds)]
                  \<and> hydrotools_file row ds)"
proof -
  from assms obtain r where r: "f row t_min t_max = Inr r"
    by (auto simp: retrieve_one_def and_then_Inr)
  show ?thesis
  proof (cases r)
    case None
    with assms r show ?thesis by (simp add: retrieve_one_def)
  next
    case (Some ds0)
    define ds1 where "ds1 = ds0\<lparr>ds_attrs :=
        AList.update ''source'' (AStr (source row))
          (AList.update ''country'' (AStr (country row))
             (AList.update ''latitude'' (ANum (py (geometry row)))
                (AList.update ''longitude'' (ANum (px (geometry row)))
                   (AList.update ''station_name_unique'' (AStr (station_name_unique row))
                      (AList.update ''station_id'' (AId (station_id row))
                         (AList.update ''station_name'' (AName (station_name row))
                            (ds_attrs ds0)))))))\<rparr>"
    from assms r Some have
      "and_then (get_var ds1 ''waterlevel'') (\<lambda>waterlevel.
       and_then (make_hydrotools_consistent ds1) (\<lambda>ds.
       and_then (get_attr (ds_attrs ds) ''station_name_unique'') (\<lambda>stat_name.
         (case stat_name of
            AStr stat_name \<Rightarrow> Inr (files @ [(dir_output @ CHR ''/'' # stat_name @ ''.nc'', ds)])
          | _ \<Rightarrow> Inl (Unmodelled ''station_name_unique is not a string''))))) = Inr files'"
      by (simp add: retrieve_one_def and_then_Inr Let_def ds1_def)
    then obtain ds s where
      c: "make_hydrotools_consistent ds1 = Inr ds"
      and g: "map_of (ds_attrs ds) ''station_name_unique'' = Some s"
      and fin: "(case s of
            AStr stat_name \<Rightarrow> Inr (files @ [(dir_output @ CHR ''/'' # stat_name @ ''.nc'', ds)])
          | _ \<Rightarrow> Inl (Unmodelled ''station_name_unique is not a string'')) = Inr files'"
      by (auto simp: and_then_Inr get_attr_Inr)
    have a: "map_of (ds_attrs ds1) ''station_name'' = Some (AName (station_name row))"
      "map_of (ds_attrs ds1) ''station_id'' = Some (AId (station_id row))"
      "map_of (ds_attrs ds1) ''longitude'' = Some (ANum (px (geometry row)))"
      "map_of (ds_attrs ds1) ''latitude'' = Some (ANum (py (geometry row)))"
      and u: "map_of (ds_attrs ds1) ''station_name_unique'' = Some (AStr (station_name_unique row))"
      by (simp_all add: ds1_def update_conv')
    note res = make_hydrotools_consistent_result [OF c a]
    from res u have u': "map_of (ds_attrs ds) ''station_name_unique''
                         = Some (AStr (station_name_unique row))" by simp
    with g have "s = AStr (station_name_unique row)" by simp
    with fin have f: "files' = files @ [(file_out dir_output row, ds)]"
      by (simp add: file_out_def)
    from res u' have "hydrotools_file row ds" by (simp add: hydrotools_file_def)
    with r Some f show ?thesis by simp
  qed
qed


lemma retrieve_loop_result:
  assumes "retrieve_loop f cols dir_output t_min t_max rs files = (files', err)"
  shows "\<exists>n new. n \<le> length rs \<and> files' = files @ new \<and> (err = None \<longrightarrow> n = length rs)
           \<and> list_all2 (\<lambda>(path, ds) row. path = file_out dir_output row \<and> hydrotools_file row ds)
                new (filter (\<lambda>r. \<exists>ds0. f r t_min t_max = Inr (Some ds0)) (take n rs))"
  using assms
proof (induction rs arbitrary: files)
  case Nil
  then show ?case by simp
next
  case (Cons row rs)
  show ?case
  proof (cases "retrieve_one f cols dir_output t_min t_max row files")
    case (Inl e)
    with Cons.prems have "files' = files" "err = Some e" by simp_all
    then show ?thesis by (intro exI [of _ 0] exI [of _ "[]"]) simp
  next
    case (Inr files1)
    with Cons.prems have rest: "retrieve_loop f cols dir_output t_min t_max rs files1 = (files', err)"
      by simp
    from Cons.IH [OF rest] obtain n new where
      n: "n \<le> length rs" "files' = files1 @ new" "err = None \<longrightarrow> n = length rs"
      and l: "list_all2 (\<lambda>(path, ds) row. path = file_out dir_output row \<and> hydrotools_file row ds)
                new (filter (\<lambda>r. \<exists>ds0. f r t_min t_max = Inr (Some ds0)) (take n rs))" by blast
    from retrieve_one_result [OF Inr] show ?thesis
    proof
      assume "f row t_min t_max = Inr None \<and> files1 = files"
      with n l show ?thesis by (intro exI [of _ "Suc n"] exI [of _ new]) simp
    next
      assume "\<exists>ds0 ds. f row t_min t_max = Inr (Some ds0)
                  \<and> files1 = files @ [(file_out dir_output row, ds)]
                  \<and> hydrotools_file row ds"
      then obtain ds0 ds where "f row t_min t_max = Inr (Some ds0)"
        "files1 = files @ [(file_out dir_output row, ds)]" "hydrotools_file row ds" by blast
      with n l show ?thesis
        by (intro exI [of _ "Suc n"] exI [of _ "(file_out dir_output row, ds) # new"]) simp
    qed
  qed
qed

lemma set_unique [simp]: "set (unique xs) = set xs"
  by (simp add: unique_def)

text \<open>
  Claim C1. The files \<open>ssh_retrieve_data\<close> has written, whether it returned or raised,
  are those of the rows it got to for which the retrieval function of the source returned
  a dataset, one file for each such row, in the order of the catalog; when it returns, it
  got to every row. Each written dataset has the data variable \<open>waterlevel\<close> with the
  attribute \<open>units\<close> equal to \<open>m\<close>, a variable and a dimension \<open>time\<close>, and
  the coordinates \<open>station_name\<close>, \<open>station_id\<close>, \<open>station_x_coordinate\<close> and
  \<open>station_y_coordinate\<close> of its row (the two strings as 64 ASCII bytes at most).
  No file is written for a row whose retrieval returns \<open>None\<close>.
\<close>

theorem ssh_retrieve_data_files:
  assumes "ssh_retrieve_data ssh_sources cat dir_output t_min t_max = (files, err)"
  shows "\<exists>n \<le> length (rows cat).
           (err = None \<longrightarrow> n = length (rows cat) \<and> rows cat \<noteq> []
               \<and> (\<forall>row \<in> set (rows cat). source row \<in> set ssh_sources_retrieve))
           \<and> list_all2 (\<lambda>(path, ds) row. path = file_out dir_output row \<and> hydrotools_file row ds)
                files
                (filter (\<lambda>row. \<exists>ds0. ssh_sources (source row) row t_min t_max = Inr (Some ds0))
                   (take n (rows cat)))"
proof (cases "rows cat \<noteq> [] \<and> columns cat \<noteq> [] \<and> ''source'' \<in> set (columns cat)
              \<and> (\<exists>src. unique (map source (rows cat)) = [src] \<and> src \<in> set ssh_sources_retrieve)")
  case False
  have "files = [] \<and> err \<noteq> None"
  proof (cases "unique (map source (rows cat))")
    case Nil
    with assms show ?thesis by (auto simp: ssh_retrieve_data_def Let_def split: if_splits)
  next
    case (Cons s ss)
    with assms False show ?thesis
      by (cases ss) (auto simp: ssh_retrieve_data_def Let_def split: if_splits)
  qed
  then show ?thesis by (intro exI [of _ 0]) auto
next
  case True
  then obtain src where u: "unique (map source (rows cat)) = [src]"
    and sup: "src \<in> set ssh_sources_retrieve" by blast
  with assms True have loop:
    "retrieve_loop (ssh_sources src) (columns cat) dir_output t_min t_max (rows cat) [] = (files, err)"
    by (simp add: ssh_retrieve_data_def Let_def)
  have "set (map source (rows cat)) = {src}"
    using set_unique [of "map source (rows cat)"] u by simp
  then have same: "\<forall>row \<in> set (rows cat). source row = src" by auto
  from retrieve_loop_result [OF loop] obtain n where
    n: "n \<le> length (rows cat)" "err = None \<longrightarrow> n = length (rows cat)"
    and l: "list_all2 (\<lambda>(path, ds) row. path = file_out dir_output row \<and> hydrotools_file row ds)
                files (filter (\<lambda>r. \<exists>ds0. ssh_sources src r t_min t_max = Inr (Some ds0))
                         (take n (rows cat)))" by auto
  have "filter (\<lambda>r. \<exists>ds0. ssh_sources src r t_min t_max = Inr (Some ds0)) (take n (rows cat))
        = filter (\<lambda>row. \<exists>ds0. ssh_sources (source row) row t_min t_max = Inr (Some ds0))
            (take n (rows cat))"
    using same by (intro filter_cong refl) (auto dest: in_set_takeD)
  with l n same sup True show ?thesis by (intro exI [of _ n]) simp
qed

text \<open>The example: one file, for the station that has data.\<close>

lemma example_retrieve_files:
  "\<exists>ds. ssh_retrieve_data example_retrieve (example_catalog ''uhslc'' ''uhslc'') ''out'' None None
          = ([(''out/two.nc'', ds)], None)
        \<and> map_of (ds_vars ds) ''station_name'' = Some (scalar_var (Txt ''H'') [])
        \<and> map_of (ds_vars ds) ''station_id'' = Some (scalar_var (Txt ''2'') [])
        \<and> ds_coords ds = [''time'', ''station_name'', ''station_id'', ''station_x_coordinate'',
                           ''station_y_coordinate'']"
proof -
  have d: "str_int 2 = ''2''" by code_simp
  have a: "ascii_str [72] = ''H''" by code_simp
  show ?thesis
    by (simp add: ssh_retrieve_data_def example_catalog_def example_points_def unique_def
        ssh_sources_retrieve_def require_columns_def retrieve_one_def example_retrieve_def
        example_dataset_def make_hydrotools_consistent_def variables_def dims_def data_vars_def
        get_var_def get_attr_def scalar_var_def d a Let_def)
qed

theorem ssh_retrieve_data_files_witness:
  "\<exists>ds. ssh_retrieve_data example_retrieve (example_catalog ''uhslc'' ''uhslc'') ''out'' None None
          = ([(''out/two.nc'', ds)], None)
        \<and> hydrotools_file ((example_points ! 0)\<lparr>source := ''uhslc''\<rparr>) ds"
proof -
  from example_retrieve_files obtain ds where
    ok: "ssh_retrieve_data example_retrieve (example_catalog ''uhslc'' ''uhslc'') ''out'' None None
          = ([(''out/two.nc'', ds)], None)" by (elim exE conjE)
  have f: "filter (\<lambda>row. \<exists>ds0. example_retrieve (source row) row None None = Inr (Some ds0))
             (take 2 (rows (example_catalog ''uhslc'' ''uhslc'')))
           = [(example_points ! 0)\<lparr>source := ''uhslc''\<rparr>]"
    by (simp add: example_retrieve_def example_catalog_def example_points_def)
  from ssh_retrieve_data_files [OF ok] obtain n where
    "n = length (rows (example_catalog ''uhslc'' ''uhslc''))"
    and l: "list_all2 (\<lambda>(path, ds) row. path = file_out ''out'' row \<and> hydrotools_file row ds)
              [(''out/two.nc'', ds)]
              (filter (\<lambda>row. \<exists>ds0. example_retrieve (source row) row None None = Inr (Some ds0))
                 (take n (rows (example_catalog ''uhslc'' ''uhslc''))))"
    by auto
  then have "n = 2" by (simp add: example_catalog_def)
  with l f have "hydrotools_file ((example_points ! 0)\<lparr>source := ''uhslc''\<rparr>) ds" by simp
  with ok show ?thesis by (intro exI [of _ ds]) simp
qed

subsection \<open>Validation in the two dispatch functions\<close>

lemma ssh_retrieve_data_empty:
  "rows cat = [] \<Longrightarrow> ssh_retrieve_data ssh_sources cat dir_output t_min t_max
     = ([], Some (ValueError ''empty ssh_catalog_gpd provided to ssh_retrieve_data''))"
  by (simp add: ssh_retrieve_data_def)

lemma ssh_retrieve_data_multiple:
  assumes "rows cat \<noteq> []" and "''source'' \<in> set (columns cat)"
    and "length (unique (map source (rows cat))) > 1"
  shows "ssh_retrieve_data ssh_sources cat dir_output t_min t_max
     = ([], Some (Exception ''A ssh_catalog_gpd with multiple unique source values was passed''))"
proof -
  from assms(2) have "columns cat \<noteq> []" by auto
  with assms show ?thesis by (simp add: ssh_retrieve_data_def Let_def)
qed

lemma ssh_retrieve_data_unsupported:
  assumes "rows cat \<noteq> []" and "''source'' \<in> set (columns cat)"
    and "unique (map source (rows cat)) = [src]" and "src \<notin> set ssh_sources_retrieve"
  shows "ssh_retrieve_data ssh_sources cat dir_output t_min t_max
     = ([], Some (ValueError ''source for ssh_retrieve_data should be one of ssh_sources''))"
proof -
  from assms(2) have "columns cat \<noteq> []" by auto
  with assms show ?thesis by (simp add: ssh_retrieve_data_def Let_def)
qed

text \<open>
  Claim C6. \<open>ssh_catalog_subset\<close> raises \<open>ValueError\<close> for a source that is not one
  of its nine source names (also for the default \<open>None\<close>). \<open>ssh_retrieve_data\<close>
  raises \<open>ValueError\<close> for an empty catalog, an \<open>Exception\<close> for a catalog with more
  than one value in its \<open>source\<close> column, and \<open>ValueError\<close> when the one source is
  not among its eight source names; it writes no file then.
\<close>

theorem dispatch_validates_inputs:
  "(src \<notin> Some ` set ssh_sources_catalog \<longrightarrow>
      ssh_catalog_subset providers daily src lon_min lon_max lat_min lat_max t_min t_max
        = Inl (ValueError ''source for ssh_catalog_subset should be one of ssh_sources''))
   \<and> (rows cat = [] \<longrightarrow>
        ssh_retrieve_data ssh_sources cat dir_output t_min t_max
          = ([], Some (ValueError ''empty ssh_catalog_gpd provided to ssh_retrieve_data'')))
   \<and> (rows cat \<noteq> [] \<and> ''source'' \<in> set (columns cat)
        \<and> length (unique (map source (rows cat))) > 1 \<longrightarrow>
        ssh_retrieve_data ssh_sources cat dir_output t_min t_max
          = ([], Some (Exception ''A ssh_catalog_gpd with multiple unique source values was passed'')))
   \<and> (rows cat \<noteq> [] \<and> ''source'' \<in> set (columns cat)
        \<and> (\<exists>s. unique (map source (rows cat)) = [s] \<and> s \<notin> set ssh_sources_retrieve) \<longrightarrow>
        ssh_retrieve_data ssh_sources cat dir_output t_min t_max
          = ([], Some (ValueError ''source for ssh_retrieve_data should be one of ssh_sources'')))"
proof (intro conjI impI)
  assume "src \<notin> Some ` set ssh_sources_catalog"
  then show "ssh_catalog_subset providers daily src lon_min lon_max lat_min lat_max t_min t_max
        = Inl (ValueError ''source for ssh_catalog_subset should be one of ssh_sources'')"
    by (rule ssh_catalog_subset_unsupported)
next
  assume "rows cat = []"
  then show "ssh_retrieve_data ssh_sources cat dir_output t_min t_max
          = ([], Some (ValueError ''empty ssh_catalog_gpd provided to ssh_retrieve_data''))"
    by (rule ssh_retrieve_data_empty)
next
  assume "rows cat \<noteq> [] \<and> ''source'' \<in> set (columns cat)
        \<and> length (unique (map source (rows cat))) > 1"
  then show "ssh_retrieve_data ssh_sources cat dir_output t_min t_max
          = ([], Some (Exception ''A ssh_catalog_gpd with multiple unique source values was passed''))"
    by (intro ssh_retrieve_data_multiple) simp_all
next
  assume a: "rows cat \<noteq> [] \<and> ''source'' \<in> set (columns cat)
        \<and> (\<exists>s. unique (map source (rows cat)) = [s] \<and> s \<notin> set ssh_sources_retrieve)"
  then obtain s where "unique (map source (rows cat)) = [s]" "s \<notin> set ssh_sources_retrieve"
    by (elim conjE exE)
  with a show "ssh_retrieve_data ssh_sources cat dir_output t_min t_max
          = ([], Some (ValueError ''source for ssh_retrieve_data should be one of ssh_sources''))"
    by (intro ssh_retrieve_data_unsupported [of cat s]) simp_all
qed

text \<open>
  An unknown source name, an empty catalog, a catalog of uhslc and ioc stations, and an
  SSC catalog, which has a reader but no retrieval function.
\<close>

theorem dispatch_validates_inputs_witness:
  "ssh_catalog_subset example_providers example_daily (Some ''noaa'') (- 180) 180 (- 90) 90 None None
     = Inl (ValueError ''source for ssh_catalog_subset should be one of ssh_sources'')
   \<and> ssh_retrieve_data example_retrieve ((example_catalog ''uhslc'' ''uhslc'')\<lparr>rows := []\<rparr>) ''out'' None None
     = ([], Some (ValueError ''empty ssh_catalog_gpd provided to ssh_retrieve_data''))
   \<and> ssh_retrieve_data example_retrieve (example_catalog ''uhslc'' ''ioc'') ''out'' None None
     = ([], Some (Exception ''A ssh_catalog_gpd with multiple unique source values was passed''))
   \<and> ssh_retrieve_data example_retrieve (example_catalog ''ssc'' ''ssc'') ''out'' None None
     = ([], Some (ValueError ''source for ssh_retrieve_data should be one of ssh_sources''))"
  using
    dispatch_validates_inputs [of "Some ''noaa''" example_providers example_daily "- 180" 180 "- 90" 90
      None None "(example_catalog ''uhslc'' ''uhslc'')\<lparr>rows := []\<rparr>" example_retrieve "''out''"]
    dispatch_validates_inputs [of "Some ''noaa''" example_providers example_daily "- 180" 180 "- 90" 90
      None None "example_catalog ''uhslc'' ''ioc''" example_retrieve "''out''"]
    dispatch_validates_inputs [of "Some ''noaa''" example_providers example_daily "- 180" 180 "- 90" 90
      None None "example_catalog ''ssc'' ''ssc''" example_retrieve "''out''"]
  by (simp add: ssh_sources_catalog_def ssh_sources_retrieve_def example_catalog_def unique_def
      example_points_def)

subsection \<open>Quality filter of the retrieved series\<close>

lemma map_of_map_vars:
  "map_of (map (\<lambda>(n, v). (n, f n v)) xs) k = map_option (f k) (map_of xs k)"
  by (induction xs) auto


lemma isel_var:
  assumes "isel dname ps ds = Inr ds'"
  shows "map_of (ds_vars ds') k
         = map_option (\<lambda>v. if v_dims v = [dname] then v\<lparr>v_data := map (\<lambda>i. v_data v ! i) ps\<rparr> else v)
             (map_of (ds_vars ds) k)"
    and "ds_coords ds' = ds_coords ds"
  using assms by (auto simp: isel_def map_vars_def map_of_map_vars split: if_splits)









lemma length_where_cells [simp]: "length (where_cells cs cond) = min (length cs) (length cond)"
  by (simp add: where_cells_def)

lemma var_data_Some: "map_of (ds_vars ds) k = Some v \<Longrightarrow> var_data ds k = v_data v"
  by (simp add: var_data_def)






lemma chunks_one: "chunks (Suc 0) xs = map (\<lambda>x. [x]) xs"
proof (induction xs)
  case Nil
  show ?case by (subst chunks.simps) simp
next
  case (Cons a xs)
  then show ?case by (subst chunks.simps) simp
qed

lemma nanmax_single: "is_numeric [c] \<Longrightarrow> nanmax [c] = c"
  by (cases c) (simp_all add: nanmax_def is_numeric_def List.map_filter_simps)

lemma map_of_filter_all:
  "(\<And>v. P (k, v)) \<Longrightarrow> map_of (filter P xs) k = map_of xs k"
  by (induction xs) auto

lemma ds_max_single_level:
  assumes red: "ds_max dname ds = Inr ds0"
    and one: "size_of ds dname = 1"
    and v: "map_of (ds_vars ds) k = Some v"
    and k: "k \<notin> set (ds_coords ds)"
  shows "var_data ds0 k = v_data v"
proof -
  let ?f = "\<lambda>n v. if dname \<in> set (v_dims v)
                   then v\<lparr>v_dims := butlast (v_dims v),
                          v_data := map nanmax (chunks (size_of ds dname) (v_data v))\<rparr>
                   else v"
  let ?P = "\<lambda>(n, v). n \<notin> set (ds_coords ds) \<or> dname \<notin> set (v_dims v)"
  from red have d: "ds_vars ds0 = map (\<lambda>(n, v). (n, ?f n v)) (filter ?P (ds_vars ds))"
    and r: "\<forall>(n, v) \<in> set (ds_vars ds). n \<in> set (ds_coords ds) \<or> reducible dname v"
    by (auto simp: ds_max_def split: if_splits)
  from v have "(k, v) \<in> set (ds_vars ds)" by (rule map_of_SomeD)
  with r k have rv: "reducible dname v" by auto
  have "map_of (ds_vars ds0) k = map_option (?f k) (map_of (filter ?P (ds_vars ds)) k)"
    unfolding d by (rule map_of_map_vars)
  also have "map_of (filter ?P (ds_vars ds)) k = map_of (ds_vars ds) k"
    using k by (intro map_of_filter_all) simp
  finally have m: "map_of (ds_vars ds0) k = Some (?f k v)" using v by simp
  show ?thesis
  proof (cases "dname \<in> set (v_dims v)")
    case False
    with m show ?thesis by (simp add: var_data_def)
  next
    case True
    with rv have "is_numeric (v_data v)" by (auto simp: reducible_def)
    then have "\<And>c. c \<in> set (v_data v) \<Longrightarrow> nanmax [c] = c"
      by (intro nanmax_single) (simp add: is_numeric_def)
    then have "map (\<lambda>c. nanmax [c]) (v_data v) = map (\<lambda>c. c) (v_data v)"
      by (intro map_cong refl)
    then have "map nanmax (map (\<lambda>x. [x]) (v_data v)) = v_data v"
      by (simp add: comp_def)
    with m True one show ?thesis by (simp add: var_data_def chunks_one)
  qed
qed








subsection \<open>Sorted and unique times of UHSLC\<close>

lemma distinct_first_positions: "distinct (first_positions xs)"
  by (simp add: first_positions_def)

lemma first_positions_bound: "i \<in> set (first_positions xs) \<Longrightarrow> i < length xs"
  by (simp add: first_positions_def)

lemma first_positions_iff:
  "i \<in> set (first_positions xs) \<longleftrightarrow> i < length xs \<and> (\<forall>j < i. xs ! j \<noteq> xs ! i)"
proof -
  have "xs ! i \<in> set (take i xs) \<longleftrightarrow> (\<exists>j < i. xs ! j = xs ! i)" if "i < length xs"
    using that by (auto simp: in_set_conv_nth)
  then show ?thesis by (auto simp: first_positions_def)
qed

lemma first_positions_inj:
  assumes "i \<in> set (first_positions xs)" and "j \<in> set (first_positions xs)" and "xs ! i = xs ! j"
  shows "i = j"
proof (rule ccontr)
  assume "i \<noteq> j"
  then consider "i < j" | "j < i" by linarith
  then show False
  proof cases
    case 1
    with assms(2,3) show False by (auto simp: first_positions_iff)
  next
    case 2
    with assms(1,3) show False by (auto simp: first_positions_iff)
  qed
qed

lemma drop_duplicates_time_isel:
  assumes "drop_duplicates_time ds = Inr ds'"
  shows "\<exists>tv. map_of (ds_vars ds) ''time'' = Some tv \<and> v_dims tv = [''time'']
           \<and> isel ''time'' (first_positions (v_data tv)) ds = Inr ds'"
  using assms by (auto simp: drop_duplicates_time_def and_then_Inr get_var_Inr split: if_splits)

lemma sortby_time_isel:
  assumes "sortby_time ds = Inr ds'"
  shows "\<exists>tv. map_of (ds_vars ds) ''time'' = Some tv \<and> v_dims tv = [''time'']
           \<and> None \<notin> set (map cell_time (v_data tv))
           \<and> isel ''time'' (sort_key (\<lambda>i. the (cell_time (v_data tv ! i))) [0..<length (v_data tv)]) ds
               = Inr ds'"
  using assms by (auto simp: sortby_time_def and_then_Inr get_var_Inr split: if_splits)

lemma dedup_sort_positions:
  assumes dd: "drop_duplicates_time c = Inr d" and sb: "sortby_time d = Inr ds"
  shows "\<exists>ps. set ps = set (first_positions (var_data c ''time'')) \<and> distinct ps
           \<and> sorted (map (\<lambda>i. the (cell_time (var_data c ''time'' ! i))) ps)
           \<and> (\<forall>i \<in> set ps. cell_time (var_data c ''time'' ! i) \<noteq> None)
           \<and> (\<forall>k v. map_of (ds_vars c) k = Some v \<longrightarrow> v_dims v = [''time'']
                  \<longrightarrow> var_data ds k = map (\<lambda>i. v_data v ! i) ps)"
proof -
  from drop_duplicates_time_isel [OF dd] obtain tv where
    tv: "map_of (ds_vars c) ''time'' = Some tv" "v_dims tv = [''time'']"
    and i1: "isel ''time'' (first_positions (v_data tv)) c = Inr d" by blast
  define fp where "fp = first_positions (v_data tv)"
  have tc: "var_data c ''time'' = v_data tv" using tv by (simp add: var_data_def)
  have d1: "map_of (ds_vars d) k = Some (v\<lparr>v_data := map (\<lambda>i. v_data v ! i) fp\<rparr>)"
    if "map_of (ds_vars c) k = Some v" "v_dims v = [''time'']" for k v
    using isel_var(1) [OF i1, of k] that by (simp add: fp_def)
  from sortby_time_isel [OF sb] d1 [OF tv] obtain
    nn: "None \<notin> set (map cell_time (map (\<lambda>i. v_data tv ! i) fp))"
    and i2: "isel ''time'' (sort_key (\<lambda>q. the (cell_time (map (\<lambda>i. v_data tv ! i) fp ! q)))
                             [0..<length fp]) d = Inr ds"
    by auto
  define qs where "qs = sort_key (\<lambda>q. the (cell_time (map (\<lambda>i. v_data tv ! i) fp ! q))) [0..<length fp]"
  define ps where "ps = map (\<lambda>q. fp ! q) qs"
  have sq: "set qs = {0..<length fp}" by (simp add: qs_def)
  have dq: "distinct qs" by (simp add: qs_def)
  have dfp: "distinct fp" by (simp add: fp_def distinct_first_positions)
  have "set ps = (\<lambda>q. fp ! q) ` {0..<length fp}" by (simp add: ps_def sq)
  also have "\<dots> = set fp" using nth_image [of "length fp" fp] by simp
  finally have 1: "set ps = set fp" .
  have 2: "distinct ps"
    unfolding ps_def distinct_map using dq dfp
    by (auto simp: sq inj_on_def nth_eq_iff_index_eq)
  have "map (\<lambda>i. the (cell_time (v_data tv ! i))) ps
        = map (\<lambda>q. the (cell_time (map (\<lambda>i. v_data tv ! i) fp ! q))) qs"
    unfolding ps_def map_map comp_def by (rule map_cong [OF refl]) (simp add: sq)
  also have "sorted \<dots>" unfolding qs_def by (rule sorted_sort_key)
  finally have 3: "sorted (map (\<lambda>i. the (cell_time (v_data tv ! i))) ps)" .
  have 4: "\<forall>i \<in> set ps. cell_time (v_data tv ! i) \<noteq> None"
  proof
    fix i assume "i \<in> set ps"
    with 1 have "i \<in> set fp" by simp
    then have "cell_time (v_data tv ! i) \<in> set (map cell_time (map (\<lambda>i. v_data tv ! i) fp))"
      by simp
    with nn show "cell_time (v_data tv ! i) \<noteq> None" by metis
  qed
  have 5: "var_data ds k = map (\<lambda>i. v_data v ! i) ps"
    if v: "map_of (ds_vars c) k = Some v" "v_dims v = [''time'']" for k v
  proof -
    from isel_var(1) [OF i2, of k] d1 [OF v] v(2)
    have "var_data ds k = map (\<lambda>q. map (\<lambda>i. v_data v ! i) fp ! q) qs"
      by (simp add: var_data_def qs_def)
    also have "\<dots> = map (\<lambda>i. v_data v ! i) ps"
      unfolding ps_def map_map comp_def by (rule map_cong [OF refl]) (simp add: sq)
    finally show ?thesis .
  qed
  from 1 2 3 4 5 show ?thesis
    unfolding tc fp_def by (intro exI [of _ ps]) simp
qed

lemma concat_time_var:
  assumes c: "concat_time a b = Inr c" and v: "map_of (ds_vars a) k = Some v"
  shows "\<exists>w. map_of (ds_vars b) k = Some w \<and> v_dims w = v_dims v
           \<and> map_of (ds_vars c) k
               = Some (v\<lparr>v_data := (if v_dims v = [''time''] then v_data v @ v_data w else v_data v),
                         v_attrs := drop_conflicts (v_attrs v) (v_attrs w)\<rparr>)"
proof -
  from c have s: "set (variables a) = set (variables b)"
    and dm: "\<forall>(n, v) \<in> set (ds_vars a). case map_of (ds_vars b) n of
                                             None \<Rightarrow> True | Some w \<Rightarrow> v_dims v = v_dims w"
    and dv: "ds_vars c = map (\<lambda>(n, v). (n, case map_of (ds_vars b) n of
                                              None \<Rightarrow> v
                                            | Some w \<Rightarrow>
                                                v\<lparr>v_data := (if v_dims v = [''time'']
                                                              then v_data v @ v_data w else v_data v),
                                                  v_attrs := drop_conflicts (v_attrs v) (v_attrs w)\<rparr>))
                        (ds_vars a)"
    by (auto simp: concat_time_def split: if_splits option.splits)
  from v have m: "(k, v) \<in> set (ds_vars a)" by (rule map_of_SomeD)
  then have "k \<in> set (variables a)" by (force simp: variables_def)
  with s have "k \<in> fst ` set (ds_vars b)" by (simp add: variables_def)
  then obtain w where w: "map_of (ds_vars b) k = Some w"
    by (metis domD dom_map_of_conv_image_fst)
  from dm m w have "v_dims v = v_dims w" by fastforce
  with w v show ?thesis
    unfolding dv map_of_map_vars by (intro exI [of _ w]) simp
qed

lemma oneds_result:
  assumes "uhslc_ssh_retrieve_data_oneds e ds_list = Inr ds_list'"
  shows "ds_list' = ds_list \<or> (\<exists>ds. ds_list' = ds_list @ [ds])"
  using assms
  by (auto simp: uhslc_ssh_retrieve_data_oneds_def and_then_Inr
           split: sum.splits py_error.splits if_splits)

lemma oneds_data:
  "preprocess_uhslc_erddap raw = Inr ds
   \<Longrightarrow> uhslc_ssh_retrieve_data_oneds (Inr raw) ds_list = Inr (ds_list @ [ds])"
  by (simp add: uhslc_ssh_retrieve_data_oneds_def and_then_def)

lemma cell_time_Some: "cell_time c = Some t \<longleftrightarrow> c = Time t"
  by (cases c) auto

lemma uhslc_retrieved_stages:
  assumes "uhslc_ssh_retrieve_data erddap row_name t_min t_max include_rqds include_fast
           = Inr (Some ds)"
  shows "\<exists>ds_list c d.
           (if include_rqds
            then uhslc_ssh_retrieve_data_oneds (erddap ''global_hourly_rqds'' row_name t_min t_max) []
            else Inr []) = Inr ds_list
         \<and> xr_concat (if include_fast then
                      (case uhslc_ssh_retrieve_data_oneds
                              (erddap ''global_hourly_fast'' row_name t_min t_max) ds_list of
                         Inr l \<Rightarrow> l | Inl err \<Rightarrow> [])
                    else ds_list) = Inr c
         \<and> drop_duplicates_time c = Inr d \<and> sortby_time d = Inr ds"
  using assms
  by (auto simp: uhslc_ssh_retrieve_data_def and_then_Inr split: if_splits)

lemma sorted_unique_times:
  assumes dd: "drop_duplicates_time c = Inr d" and sb: "sortby_time d = Inr ds"
  shows "\<exists>ts. var_data ds ''time'' = map Time ts \<and> sorted ts \<and> distinct ts"
proof -
  from drop_duplicates_time_isel [OF dd] obtain tv where
    tv: "map_of (ds_vars c) ''time'' = Some tv" "v_dims tv = [''time'']" by blast
  then have tc: "var_data c ''time'' = v_data tv" by (simp add: var_data_def)
  from dedup_sort_positions [OF dd sb] tv obtain ps where
    s: "set ps = set (first_positions (v_data tv))" and dp: "distinct ps"
    and so: "sorted (map (\<lambda>i. the (cell_time (v_data tv ! i))) ps)"
    and nn: "\<forall>i \<in> set ps. cell_time (v_data tv ! i) \<noteq> None"
    and da: "var_data ds ''time'' = map (\<lambda>i. v_data tv ! i) ps"
    unfolding tc by blast
  let ?key = "\<lambda>i. the (cell_time (v_data tv ! i))"
  have t: "v_data tv ! i = Time (?key i)" if "i \<in> set ps" for i
    using nn that by (auto simp: cell_time_Some [symmetric])
  have 1: "var_data ds ''time'' = map Time (map ?key ps)"
    unfolding da map_map comp_def by (rule map_cong [OF refl]) (rule t)
  have "inj_on ?key (set ps)"
  proof (rule inj_onI)
    fix i j assume i: "i \<in> set ps" and j: "j \<in> set ps" and e: "?key i = ?key j"
    from t [OF i] t [OF j] e have "v_data tv ! i = v_data tv ! j" by simp
    with i j s show "i = j" by (auto intro: first_positions_inj)
  qed
  with dp have 2: "distinct (map ?key ps)" by (simp add: distinct_map)
  from 1 so 2 show ?thesis by blast
qed

lemma first_kept:
  assumes dd: "drop_duplicates_time c = Inr d" and sb: "sortby_time d = Inr ds"
    and tv: "map_of (ds_vars c) ''time'' = Some tv"
    and wv: "map_of (ds_vars c) ''waterlevel'' = Some wv" "v_dims wv = [''time'']"
    and i: "i < length (v_data tv)" "\<forall>j < i. v_data tv ! j \<noteq> v_data tv ! i"
  shows "\<exists>k < length (var_data ds ''time''). var_data ds ''time'' ! k = v_data tv ! i
           \<and> var_data ds ''waterlevel'' ! k = v_data wv ! i"
proof -
  from drop_duplicates_time_isel [OF dd] tv have td: "v_dims tv = [''time'']" by auto
  from tv have tc: "var_data c ''time'' = v_data tv" by (simp add: var_data_def)
  from dedup_sort_positions [OF dd sb] tv td wv obtain ps where
    s: "set ps = set (first_positions (v_data tv))"
    and da: "var_data ds ''time'' = map (\<lambda>i. v_data tv ! i) ps"
    and dw: "var_data ds ''waterlevel'' = map (\<lambda>i. v_data wv ! i) ps"
    unfolding tc by blast
  from i have "i \<in> set (first_positions (v_data tv))" by (simp add: first_positions_iff)
  with s have "i \<in> set ps" by simp
  then obtain k where "k < length ps" "ps ! k = i" by (auto simp: in_set_conv_nth)
  then show ?thesis unfolding da dw by (intro exI [of _ k]) simp
qed

lemma concat_head:
  assumes "xr_concat (a # ds_list) = Inr c" and "map_of (ds_vars a) k = Some v"
  shows "\<exists>v'. map_of (ds_vars c) k = Some v' \<and> v_dims v' = v_dims v
           \<and> (v_dims v = [''time''] \<longrightarrow> prefix (v_data v) (v_data v'))"
  using assms
proof (induction ds_list arbitrary: a v)
  case Nil
  then show ?case by simp
next
  case (Cons b ds_list)
  from Cons.prems(1) obtain ab where
    ab: "concat_time a b = Inr ab" and r: "xr_concat (ab # ds_list) = Inr c"
    by (auto simp: and_then_Inr)
  from concat_time_var [OF ab Cons.prems(2)] obtain w :: variable where
    m: "map_of (ds_vars ab) k
        = Some (v\<lparr>v_data := (if v_dims v = [''time''] then v_data v @ v_data w else v_data v),
                  v_attrs := drop_conflicts (v_attrs v) (v_attrs w)\<rparr>)" by (elim exE conjE)
  from Cons.IH [OF r m] obtain v' where
    "map_of (ds_vars c) k = Some v'" "v_dims v' = v_dims v"
    "v_dims v = [''time''] \<longrightarrow> prefix (v_data v @ v_data w) (v_data v')"
    by auto
  then show ?case by (auto intro: exI [of _ v'] dest: append_prefixD)
qed

lemma prefix_nth: "prefix xs ys \<Longrightarrow> i < length xs \<Longrightarrow> ys ! i = xs ! i"
  by (auto simp: prefix_def nth_append)

lemma rqds_first:
  assumes st: "uhslc_ssh_retrieve_data_oneds (Inr raw) [] = Inr ds_list"
    and pr: "preprocess_uhslc_erddap raw = Inr rqds"
    and co: "xr_concat (if include_fast then
                       (case uhslc_ssh_retrieve_data_oneds e ds_list of Inr l \<Rightarrow> l | Inl err \<Rightarrow> [])
                     else ds_list) = Inr c"
  shows "\<exists>rest. xr_concat (rqds # rest) = Inr c"
proof -
  from st oneds_data [OF pr, of "[]"] have l: "ds_list = [rqds]" by simp
  show ?thesis
  proof (cases include_fast)
    case False
    with co l show ?thesis by (intro exI [of _ "[]"]) simp
  next
    case True
    show ?thesis
    proof (cases "uhslc_ssh_retrieve_data_oneds e ds_list")
      case (Inl err)
      with co True show ?thesis by simp
    next
      case (Inr l')
      from oneds_result [OF Inr] l have "l' = [rqds] \<or> (\<exists>ds. l' = [rqds, ds])" by simp
      with co True Inr show ?thesis by auto
    qed
  qed
qed

text \<open>
  C10. Whenever \<open>uhslc_ssh_retrieve_data\<close> returns a dataset, its times are sorted and
  no time occurs twice. If the research quality data were asked for and received, with a
  \<open>waterlevel\<close> along \<open>time\<close> that has a value for every time: every time of the research
  quality data, at the first position it has there, is a time of the returned dataset,
  and the value at that time is the research quality value, whatever the fast delivery
  data hold at that time.
\<close>

theorem uhslc_ssh_retrieve_data_sorted_unique:
  assumes ret: "uhslc_ssh_retrieve_data erddap row_name t_min t_max include_rqds include_fast
                = Inr (Some ds)"
  shows "(\<exists>ts. var_data ds ''time'' = map Time ts \<and> sorted ts \<and> distinct ts)
       \<and> (include_rqds \<longrightarrow> erddap ''global_hourly_rqds'' row_name t_min t_max = Inr raw \<longrightarrow>
            preprocess_uhslc_erddap raw = Inr rqds \<longrightarrow>
            map_of (ds_vars rqds) ''waterlevel'' = Some w \<longrightarrow> v_dims w = [''time''] \<longrightarrow>
            length (v_data w) = length (var_data rqds ''time'') \<longrightarrow>
            (\<forall>i < length (var_data rqds ''time'').
               (\<forall>j < i. var_data rqds ''time'' ! j \<noteq> var_data rqds ''time'' ! i) \<longrightarrow>
               (\<exists>k < length (var_data ds ''time'').
                  var_data ds ''time'' ! k = var_data rqds ''time'' ! i
                  \<and> var_data ds ''waterlevel'' ! k = v_data w ! i)))"
proof (intro conjI impI allI)
  from uhslc_retrieved_stages [OF ret] obtain ds_list c d where
    dd: "drop_duplicates_time c = Inr d" and sb: "sortby_time d = Inr ds" by blast
  then show "\<exists>ts. var_data ds ''time'' = map Time ts \<and> sorted ts \<and> distinct ts"
    by (rule sorted_unique_times)
next
  fix i
  assume inc: include_rqds
    and e: "erddap ''global_hourly_rqds'' row_name t_min t_max = Inr raw"
    and pr: "preprocess_uhslc_erddap raw = Inr rqds"
    and w: "map_of (ds_vars rqds) ''waterlevel'' = Some w" "v_dims w = [''time'']"
    and len: "length (v_data w) = length (var_data rqds ''time'')"
    and i: "i < length (var_data rqds ''time'')"
    and f: "\<forall>j < i. var_data rqds ''time'' ! j \<noteq> var_data rqds ''time'' ! i"
  from uhslc_retrieved_stages [OF ret] inc e obtain ds_list c d where
    st: "uhslc_ssh_retrieve_data_oneds (Inr raw) [] = Inr ds_list"
    and co: "xr_concat (if include_fast then
                      (case uhslc_ssh_retrieve_data_oneds
                              (erddap ''global_hourly_fast'' row_name t_min t_max) ds_list of
                         Inr l \<Rightarrow> l | Inl err \<Rightarrow> [])
                    else ds_list) = Inr c"
    and dd: "drop_duplicates_time c = Inr d" and sb: "sortby_time d = Inr ds"
    by auto
  from rqds_first [OF st pr co] obtain rest where c: "xr_concat (rqds # rest) = Inr c" by blast
  from i obtain tr where tr: "map_of (ds_vars rqds) ''time'' = Some tr"
    by (auto simp: var_data_def split: option.splits)
  then have tR: "var_data rqds ''time'' = v_data tr" by (simp add: var_data_def)
  from concat_head [OF c tr] obtain tv where
    tv: "map_of (ds_vars c) ''time'' = Some tv" "v_dims tv = v_dims tr"
    "v_dims tr = [''time''] \<longrightarrow> prefix (v_data tr) (v_data tv)" by blast
  from drop_duplicates_time_isel [OF dd] tv have pt: "prefix (v_data tr) (v_data tv)" by auto
  from concat_head [OF c w(1)] w(2) obtain wv where
    wv: "map_of (ds_vars c) ''waterlevel'' = Some wv" "v_dims wv = [''time'']"
    and pw: "prefix (v_data w) (v_data wv)" by auto
  from pt i have i': "i < length (v_data tv)"
    unfolding tR by (auto dest: prefix_length_le)
  have f': "\<forall>j < i. v_data tv ! j \<noteq> v_data tv ! i"
    using f i pt unfolding tR by (simp add: prefix_nth)
  from first_kept [OF dd sb tv(1) wv i' f'] obtain k where
    "k < length (var_data ds ''time'')" "var_data ds ''time'' ! k = v_data tv ! i"
    "var_data ds ''waterlevel'' ! k = v_data wv ! i" by blast
  with pt pw i len show "\<exists>k < length (var_data ds ''time'').
      var_data ds ''time'' ! k = var_data rqds ''time'' ! i
      \<and> var_data ds ''waterlevel'' ! k = v_data w ! i"
    unfolding tR by (intro exI [of _ k]) (simp add: prefix_nth)
qed

text \<open>
  The example: both datasets hold the time 3600 s, with 1000 mm in the research quality
  data and 1100 mm in the fast delivery data; the returned dataset holds 1 m there.
\<close>

lemma example_rqds_preprocessed:
  "preprocess_uhslc_erddap (example_erddap_ds ''global_hourly_rqds''
       [Time 3600000000000, Time 7200000000000, Time 0] [Num 1000, Num 2000, Num 500])
   = Inr \<lparr>ds_vars = [(''uhslc_id'', \<lparr>v_dims = [], v_data = [Num 7], v_attrs = []\<rparr>),
                     (''time'', \<lparr>v_dims = [''time''],
                                 v_data = [Time 3600000000000, Time 7200000000000, Time 0],
                                 v_attrs = []\<rparr>),
                     (''waterlevel'', \<lparr>v_dims = [''time''], v_data = [Num 1, Num 2, Num (1 / 2)],
                                       v_attrs = [(''units'', AStr ''m'')]\<rparr>),
                     (''gloss_id'', \<lparr>v_dims = [], v_data = [Num 115], v_attrs = []\<rparr>)],
          ds_coords = [''time''], ds_sizes = [(''time'', 3)],
          ds_attrs = [(''id'', AStr ''global_hourly_rqds''), (''acknowledgement_rqds'', AStr ''a''),
                      (''processing_level_rqds'', AStr ''global_hourly_rqds''),
                      (''title_rqds'', AStr ''t'')]\<rparr>"
  by code_simp

lemma example_uhslc_retrieved:
  "uhslc_ssh_retrieve_data example_erddap 7 None None True True
   = Inr (Some \<lparr>ds_vars = [(''uhslc_id'', \<lparr>v_dims = [], v_data = [Num 7], v_attrs = []\<rparr>),
                           (''time'', \<lparr>v_dims = [''time''],
                                       v_data = [Time 0, Time 3600000000000, Time 7200000000000,
                                                 Time 10800000000000],
                                       v_attrs = []\<rparr>),
                           (''waterlevel'', \<lparr>v_dims = [''time''],
                                             v_data = [Num (1 / 2), Num 1, Num 2, Num (31 / 10)],
                                             v_attrs = [(''units'', AStr ''m'')]\<rparr>),
                           (''gloss_id'', \<lparr>v_dims = [], v_data = [Num 115], v_attrs = []\<rparr>)],
                ds_coords = [''time''], ds_sizes = [(''time'', 4)],
                ds_attrs = [(''acknowledgement_rqds'', AStr ''a''),
                            (''processing_level_rqds'', AStr ''global_hourly_rqds''),
                            (''title_rqds'', AStr ''t''), (''acknowledgement_fast'', AStr ''a''),
                            (''processing_level_fast'', AStr ''global_hourly_fast''),
                            (''title_fast'', AStr ''t'')]\<rparr>)"
  by code_simp

theorem uhslc_ssh_retrieve_data_sorted_unique_witness:
  "\<exists>ds. uhslc_ssh_retrieve_data example_erddap 7 None None True True = Inr (Some ds)
     \<and> (\<exists>ts. var_data ds ''time'' = map Time ts \<and> sorted ts \<and> distinct ts)
     \<and> (\<exists>k < length (var_data ds ''time'').
           var_data ds ''time'' ! k = Time 3600000000000 \<and> var_data ds ''waterlevel'' ! k = Num 1)"
proof -
  define raw where "raw = example_erddap_ds ''global_hourly_rqds''
       [Time 3600000000000, Time 7200000000000, Time 0] [Num 1000, Num 2000, Num 500]"
  define w where "w = \<lparr>v_dims = [''time''], v_data = [Num 1, Num 2, Num (1 / 2)],
                        v_attrs = [(''units'', AStr ''m'')]\<rparr>"
  define rqds where "rqds = \<lparr>ds_vars = [(''uhslc_id'', \<lparr>v_dims = [], v_data = [Num 7], v_attrs = []\<rparr>),
                     (''time'', \<lparr>v_dims = [''time''],
                                 v_data = [Time 3600000000000, Time 7200000000000, Time 0],
                                 v_attrs = []\<rparr>),
                     (''waterlevel'', w),
                     (''gloss_id'', \<lparr>v_dims = [], v_data = [Num 115], v_attrs = []\<rparr>)],
          ds_coords = [''time''], ds_sizes = [(''time'', 3)],
          ds_attrs = [(''id'', AStr ''global_hourly_rqds''), (''acknowledgement_rqds'', AStr ''a''),
                      (''processing_level_rqds'', AStr ''global_hourly_rqds''),
                      (''title_rqds'', AStr ''t'')]\<rparr>"
  obtain ds where ret: "uhslc_ssh_retrieve_data example_erddap 7 None None True True = Inr (Some ds)"
    using example_uhslc_retrieved by simp
  have e: "example_erddap ''global_hourly_rqds'' 7 None None = Inr raw"
    by (simp add: example_erddap_def raw_def)
  have pr: "preprocess_uhslc_erddap raw = Inr rqds"
    unfolding raw_def rqds_def w_def by (rule example_rqds_preprocessed)
  have wl: "map_of (ds_vars rqds) ''waterlevel'' = Some w" by (simp add: rqds_def)
  have wd: "v_dims w = [''time'']" by (simp add: w_def)
  have t: "var_data rqds ''time'' = [Time 3600000000000, Time 7200000000000, Time 0]"
    by (simp add: rqds_def var_data_def)
  have len: "length (v_data w) = length (var_data rqds ''time'')" by (simp add: t w_def)
  note u = uhslc_ssh_retrieve_data_sorted_unique [OF ret, where raw = raw and rqds = rqds and w = w]
  from u [THEN conjunct1]
  have 1: "\<exists>ts. var_data ds ''time'' = map Time ts \<and> sorted ts \<and> distinct ts" .
  from u [THEN conjunct2, rule_format, OF TrueI e pr wl wd len, of 0]
  have 2: "\<exists>k < length (var_data ds ''time'').
             var_data ds ''time'' ! k = Time 3600000000000 \<and> var_data ds ''waterlevel'' ! k = Num 1"
    by (simp add: t w_def)
  from ret 1 2 show ?thesis by (intro exI [of _ ds] conjI)
qed

end
